theory Spec2Isabelle
  imports Complex_Main
begin

section \<open>Dense vectors and matrices\<close>

text \<open>
  The scalar type \<open>s_t\<close> of the source is modelled by the reals: rounding is not
  represented. A dynamic vector (\<open>Eigen::VectorXs\<close>) is a list of scalars. A trajectory
  matrix (\<open>mPoses[trial]\<close>, \<open>mVels[trial]\<close>, \<open>mAccs[trial]\<close>, \<open>grfTrials[trial]\<close>) is
  the list of its columns, so that \<open>m.col(t)\<close> is \<open>m ! t\<close> and \<open>m.cols()\<close> is
  \<open>length m\<close>. A matrix that is multiplied with a vector (the mass matrix, a Jacobian)
  is the list of its rows.
\<close>

type_synonym s_t = real
type_synonym VectorXs = "real list"
type_synonym MatrixXs = "real list list"

text \<open>\<open>x.segment(c, n)\<close>, read.\<close>

definition segment :: "'a list \<Rightarrow> nat \<Rightarrow> nat \<Rightarrow> 'a list" where
  "segment x c n = take n (drop c x)"

text \<open>\<open>flat.segment(c, v.size()) = v\<close>, written into a vector that is long enough.\<close>

definition set_segment :: "'a list \<Rightarrow> nat \<Rightarrow> 'a list \<Rightarrow> 'a list" where
  "set_segment flat c v = take c flat @ v @ drop (c + length v) flat"

definition Zero :: "nat \<Rightarrow> VectorXs" where
  "Zero n = replicate n 0"

definition vadd :: "VectorXs \<Rightarrow> VectorXs \<Rightarrow> VectorXs" where
  "vadd a b = map2 (+) a b"

definition vsub :: "VectorXs \<Rightarrow> VectorXs \<Rightarrow> VectorXs" where
  "vsub a b = map2 (-) a b"

definition smul :: "s_t \<Rightarrow> VectorXs \<Rightarrow> VectorXs" where
  "smul k a = map ((*) k) a"

definition dot :: "VectorXs \<Rightarrow> VectorXs \<Rightarrow> s_t" where
  "dot a b = sum_list (map2 (*) a b)"

definition squaredNorm :: "VectorXs \<Rightarrow> s_t" where
  "squaredNorm a = dot a a"

definition norm2 :: "VectorXs \<Rightarrow> s_t" where
  "norm2 a = sqrt (squaredNorm a)"

text \<open>\<open>M * v\<close> for a matrix given by its rows.\<close>

definition mat_vec :: "MatrixXs \<Rightarrow> VectorXs \<Rightarrow> VectorXs" where
  "mat_vec M v = map (\<lambda>row. dot row v) M"

section \<open>The skeleton, as the fitter sees it\<close>

text \<open>
  Modelled from the spec: the skeleton class is an external collaborator that is not part
  of the sources at hand. Section 6 of the specification gives its interface: get/set of
  positions, velocities and accelerations, per-group mass/COM/inertia/scale getters and
  setters, the mass matrix \<open>M(q)\<close>, the Coriolis and gravity vector \<open>C(q, dq)\<close> and the
  generalized force of a contact wrench. The stored quantities are fields of a record, a
  setter is a field update and a getter reads the field; the derived quantities are
  functions of the skeleton state, collected in \<open>SkelOps\<close>.
\<close>

record Skeleton =
  numDofs :: nat
  numScaleGroups :: nat
  groupScaleDim :: nat
  positions :: VectorXs
  velocities :: VectorXs
  accelerations :: VectorXs
  groupMasses :: VectorXs
  groupCOMs :: VectorXs
  groupInertias :: VectorXs
  groupScales :: VectorXs

datatype WithRespectTo =
    POSITION | VELOCITY | ACCELERATION
  | GROUP_SCALES | GROUP_MASSES | GROUP_COMS | GROUP_INERTIAS
  | OTHER_WRT nat

record SkelOps =
  getMassMatrix :: "Skeleton \<Rightarrow> MatrixXs"
  getCoriolisAndGravityForces :: "Skeleton \<Rightarrow> VectorXs"
  computeTau :: "Skeleton \<Rightarrow> nat \<Rightarrow> VectorXs \<Rightarrow> VectorXs"
  getJacobianOfM :: "Skeleton \<Rightarrow> VectorXs \<Rightarrow> WithRespectTo \<Rightarrow> MatrixXs"
  getJacobianOfC :: "Skeleton \<Rightarrow> WithRespectTo \<Rightarrow> MatrixXs"
  getJacobianOfTauWrt :: "Skeleton \<Rightarrow> nat \<Rightarrow> VectorXs \<Rightarrow> WithRespectTo \<Rightarrow> MatrixXs"
  wrtDim :: "WithRespectTo \<Rightarrow> Skeleton \<Rightarrow> nat"
  wrtGet :: "WithRespectTo \<Rightarrow> Skeleton \<Rightarrow> VectorXs"
  wrtSet :: "WithRespectTo \<Rightarrow> Skeleton \<Rightarrow> VectorXs \<Rightarrow> Skeleton"
  finiteDifferenceVec ::
    "(s_t \<Rightarrow> nat \<Rightarrow> Skeleton \<Rightarrow> Skeleton \<times> VectorXs) \<Rightarrow> nat \<Rightarrow> s_t \<Rightarrow> bool
       \<Rightarrow> Skeleton \<Rightarrow> Skeleton \<times> MatrixXs"
  finiteDifferenceScalar ::
    "(s_t \<Rightarrow> nat \<Rightarrow> Skeleton \<Rightarrow> Skeleton \<times> s_t) \<Rightarrow> nat \<Rightarrow> s_t \<Rightarrow> bool
       \<Rightarrow> Skeleton \<Rightarrow> Skeleton \<times> VectorXs"
  getMarkerWorldPositions :: "Skeleton \<Rightarrow> (nat \<times> VectorXs) list \<Rightarrow> VectorXs"
  getMarkerMapWorldPositions ::
    "Skeleton \<Rightarrow> (string \<times> nat \<times> VectorXs) list \<Rightarrow> (string \<rightharpoonup> VectorXs)"
  getJointWorldPositions :: "Skeleton \<Rightarrow> nat list \<Rightarrow> VectorXs"
  getMarkerLossGradientWrtGroupScales ::
    "Skeleton \<Rightarrow> (nat \<times> VectorXs) list \<Rightarrow> VectorXs \<Rightarrow> VectorXs"
  getMarkerLossGradientWrtMarkerOffsets ::
    "Skeleton \<Rightarrow> (nat \<times> VectorXs) list \<Rightarrow> VectorXs \<Rightarrow> VectorXs"
  getMarkerLossGradientWrtJoints ::
    "Skeleton \<Rightarrow> (nat \<times> VectorXs) list \<Rightarrow> VectorXs \<Rightarrow> VectorXs"
  getJointWorldPositionsJacobianWrtGroupScales :: "Skeleton \<Rightarrow> nat list \<Rightarrow> MatrixXs"
  getJointWorldPositionsJacobianWrtJointPositions :: "Skeleton \<Rightarrow> nat list \<Rightarrow> MatrixXs"
  bodyWorldPosition :: "Skeleton \<Rightarrow> nat \<Rightarrow> VectorXs"

definition setPositions :: "Skeleton \<Rightarrow> VectorXs \<Rightarrow> Skeleton" where
  "setPositions s q = s\<lparr>positions := q\<rparr>"

definition setVelocities :: "Skeleton \<Rightarrow> VectorXs \<Rightarrow> Skeleton" where
  "setVelocities s dq = s\<lparr>velocities := dq\<rparr>"

definition setAccelerations :: "Skeleton \<Rightarrow> VectorXs \<Rightarrow> Skeleton" where
  "setAccelerations s ddq = s\<lparr>accelerations := ddq\<rparr>"

section \<open>ResidualForceHelper\<close>

text \<open>
  The helper holds the skeleton and one contact body index per force
  (\<open>mForces\<close>). Every method takes the skeleton state and returns the state it leaves
  behind together with its result.
\<close>

definition madd :: "MatrixXs \<Rightarrow> MatrixXs \<Rightarrow> MatrixXs" where
  "madd A B = map2 vadd A B"

definition msub :: "MatrixXs \<Rightarrow> MatrixXs \<Rightarrow> MatrixXs" where
  "msub A B = map2 vsub A B"

text \<open>The loop \<open>for (i = 0; i < mForces.size(); i++) Fs += mForces[i].computeTau(...)\<close>.\<close>

definition sumTaus :: "SkelOps \<Rightarrow> nat list \<Rightarrow> Skeleton \<Rightarrow> VectorXs \<Rightarrow> VectorXs" where
  "sumTaus ops mForces s forcesConcat =
     fold (\<lambda>i Fs. vadd Fs (computeTau ops s (mForces ! i) (segment forcesConcat (i * 6) 6)))
       [0..<length mForces] (Zero (numDofs s))"

definition calculateResidual ::
  "SkelOps \<Rightarrow> nat list \<Rightarrow> Skeleton \<Rightarrow> VectorXs \<Rightarrow> VectorXs \<Rightarrow> VectorXs \<Rightarrow> VectorXs
     \<Rightarrow> Skeleton \<times> VectorXs" where
  "calculateResidual ops mForces mSkel q dq ddq forcesConcat =
     (let originalPos = positions mSkel;
          originalVel = velocities mSkel;
          originalAcc = accelerations mSkel;
          s1 = setAccelerations (setVelocities (setPositions mSkel q) dq) ddq;
          M = getMassMatrix ops s1;
          C = getCoriolisAndGravityForces ops s1;
          Fs = sumTaus ops mForces s1 forcesConcat;
          manualTau = vsub (vadd (mat_vec M ddq) C) Fs;
          s2 = setAccelerations (setVelocities (setPositions s1 originalPos) originalVel)
                 originalAcc
      in (s2, take 6 manualTau))"

definition calculateResidualNorm ::
  "SkelOps \<Rightarrow> nat list \<Rightarrow> Skeleton \<Rightarrow> VectorXs \<Rightarrow> VectorXs \<Rightarrow> VectorXs \<Rightarrow> VectorXs \<Rightarrow> bool
     \<Rightarrow> Skeleton \<times> s_t" where
  "calculateResidualNorm ops mForces mSkel q dq ddq forcesConcat useL1 =
     (let (s', residual) = calculateResidual ops mForces mSkel q dq ddq forcesConcat
      in if useL1
         then (s', norm2 (take 3 residual) + norm2 (drop 3 residual))
         else (s', squaredNorm residual))"

text \<open>
  \<open>finiteDifferenceResidualJacobianWrt\<close>. The driver \<open>math::finiteDifference\<close> is outside
  the sources: \<open>finiteDifferenceVec\<close> stands for it, taking the callback (perturbation
  size and coordinate to a state transformer with the perturbed residual), the number of
  coordinates, the step and the Ridders flag, and returning the state it leaves.
\<close>

definition finiteDifferenceResidualJacobianWrt ::
  "SkelOps \<Rightarrow> nat list \<Rightarrow> Skeleton \<Rightarrow> VectorXs \<Rightarrow> VectorXs \<Rightarrow> VectorXs \<Rightarrow> VectorXs
     \<Rightarrow> WithRespectTo \<Rightarrow> Skeleton \<times> MatrixXs" where
  "finiteDifferenceResidualJacobianWrt ops mForces mSkel q dq ddq forcesConcat wrt =
     (let originalPos = positions mSkel;
          originalVel = velocities mSkel;
          originalAcc = accelerations mSkel;
          s1 = setAccelerations (setVelocities (setPositions mSkel q) dq) ddq;
          originalWrt = wrtGet ops wrt s1;
          useRidders = True;
          eps = (if useRidders then 1 / 100 else 1 / 100000);
          (s2, result) = finiteDifferenceVec ops
             (\<lambda>eps dof s.
                (let newWrt = originalWrt[dof := originalWrt ! dof + eps];
                     s' = wrtSet ops wrt s newWrt
                 in calculateResidual ops mForces s'
                      (positions s') (velocities s') (accelerations s') forcesConcat))
             (wrtDim ops wrt mSkel) eps useRidders s1;
          s3 = wrtSet ops wrt s2 originalWrt;
          s4 = setAccelerations (setVelocities (setPositions s3 originalPos) originalVel)
                 originalAcc
      in (s4, result))"

definition finiteDifferenceResidualNormGradientWrt ::
  "SkelOps \<Rightarrow> nat list \<Rightarrow> Skeleton \<Rightarrow> VectorXs \<Rightarrow> VectorXs \<Rightarrow> VectorXs \<Rightarrow> VectorXs
     \<Rightarrow> WithRespectTo \<Rightarrow> bool \<Rightarrow> Skeleton \<times> VectorXs" where
  "finiteDifferenceResidualNormGradientWrt ops mForces mSkel q dq ddq forcesConcat wrt useL1 =
     (let originalPos = positions mSkel;
          originalVel = velocities mSkel;
          originalAcc = accelerations mSkel;
          s1 = setAccelerations (setVelocities (setPositions mSkel q) dq) ddq;
          originalWrt = wrtGet ops wrt s1;
          (s2, result) = finiteDifferenceScalar ops
             (\<lambda>eps dof s.
                (let newWrt = originalWrt[dof := originalWrt ! dof + eps];
                     s' = wrtSet ops wrt s newWrt
                 in calculateResidualNorm ops mForces s'
                      (positions s') (velocities s') (accelerations s') forcesConcat useL1))
             (wrtDim ops wrt mSkel) (5 / 10000) True s1;
          s3 = wrtSet ops wrt s2 originalWrt;
          s4 = setAccelerations (setVelocities (setPositions s3 originalPos) originalVel)
                 originalAcc
      in (s4, result))"

text \<open>
  \<open>calculateResidualJacobianWrt\<close>. The three saved vectors are read as the source reads
  them: \<open>originalAcc\<close> is initialised from \<open>getVelocities()\<close>.
\<close>

definition calculateResidualJacobianWrt ::
  "SkelOps \<Rightarrow> nat list \<Rightarrow> Skeleton \<Rightarrow> VectorXs \<Rightarrow> VectorXs \<Rightarrow> VectorXs \<Rightarrow> VectorXs
     \<Rightarrow> WithRespectTo \<Rightarrow> Skeleton \<times> MatrixXs" where
  "calculateResidualJacobianWrt ops mForces mSkel q dq ddq forcesConcat wrt =
     (let originalPos = positions mSkel;
          originalVel = velocities mSkel;
          originalAcc = velocities mSkel;
          s1 = setAccelerations (setVelocities (setPositions mSkel q) dq) ddq;
          restore = (\<lambda>s. setAccelerations (setVelocities (setPositions s originalPos)
                       originalVel) originalAcc)
      in if wrt = POSITION \<or> wrt = GROUP_SCALES then
           (let dM = getJacobianOfM ops s1 ddq wrt;
                dC = getJacobianOfC ops s1 wrt;
                dFs = fold (\<lambda>i dFs. madd dFs
                        (getJacobianOfTauWrt ops s1 (mForces ! i)
                           (segment forcesConcat (i * 6) 6) wrt))
                        [0..<length mForces]
                        (replicate (numDofs s1) (Zero (wrtDim ops wrt s1)));
                jac = msub (madd dM dC) dFs
            in (restore s1, take 6 jac))
         else if wrt = GROUP_MASSES \<or> wrt = GROUP_COMS \<or> wrt = GROUP_INERTIAS then
           (let dM = getJacobianOfM ops s1 ddq wrt;
                dC = getJacobianOfC ops s1 wrt;
                jac = madd dM dC
            in (restore s1, take 6 jac))
         else if wrt = VELOCITY then
           (let dC = getJacobianOfC ops s1 VELOCITY
            in (restore s1, take 6 dC))
         else if wrt = ACCELERATION then
           (let M = getMassMatrix ops s1
            in (restore s1, take 6 M))
         else
           (let (s2, J) = finiteDifferenceResidualJacobianWrt ops mForces s1 q dq ddq
                            forcesConcat wrt
            in (restore s2, J)))"

text \<open>\<open>jac.transpose() * v\<close> for a matrix given by its rows.\<close>

definition transpose_mat_vec :: "MatrixXs \<Rightarrow> VectorXs \<Rightarrow> VectorXs" where
  "transpose_mat_vec J v =
     map (\<lambda>c. sum_list (map2 (\<lambda>row r. (row ! c) * r) J v))
       [0..<(case J of [] \<Rightarrow> 0 | row # _ \<Rightarrow> length row)]"

definition normalize :: "VectorXs \<Rightarrow> VectorXs" where
  "normalize v = (if norm2 v > 0 then smul (1 / norm2 v) v else v)"

definition calculateResidualNormGradientWrt ::
  "SkelOps \<Rightarrow> nat list \<Rightarrow> Skeleton \<Rightarrow> VectorXs \<Rightarrow> VectorXs \<Rightarrow> VectorXs \<Rightarrow> VectorXs
     \<Rightarrow> WithRespectTo \<Rightarrow> bool \<Rightarrow> Skeleton \<times> VectorXs" where
  "calculateResidualNormGradientWrt ops mForces mSkel q dq ddq forcesConcat wrt useL1 =
     (let (s1, res) = calculateResidual ops mForces mSkel q dq ddq forcesConcat;
          (s2, jac) = calculateResidualJacobianWrt ops mForces s1 q dq ddq forcesConcat wrt
      in if useL1
         then (s2, transpose_mat_vec jac (normalize (take 3 res) @ normalize (drop 3 res)))
         else (s2, transpose_mat_vec jac (smul 2 res)))"

section \<open>DynamicsInitialization and DynamicsFitProblem\<close>

text \<open>
  A body node is identified by its index in the skeleton; the children of a body are part
  of the node, as the pointer structure of the skeleton has them. A force plate carries
  its corner polygon (possibly empty), one center of pressure per frame and its origin.
\<close>

datatype BodyNode = BodyNode (getIndexInSkeleton: nat) (getChildBodyNodes: "BodyNode list")

record ForcePlate =
  corners :: "VectorXs list"
  centersOfPressure :: "VectorXs list"
  worldOrigin :: VectorXs

text \<open>
  The ground height starts at \<open>+infinity\<close> and stays there when a trial has no force
  plate data at all, so heights and distances carry the two infinities.
\<close>

datatype ext = MInf | Fin s_t | PInf

record DynamicsInitialization =
  poseTrials :: "MatrixXs list"
  grfTrials :: "MatrixXs list"
  trialTimesteps :: "s_t list"
  forcePlateTrials :: "ForcePlate list list"
  grfBodyNodes :: "BodyNode list"
  markerObservationTrials :: "(string \<rightharpoonup> VectorXs) list list"
  originalGroupMasses :: VectorXs
  originalGroupCOMs :: VectorXs
  originalGroupInertias :: VectorXs
  originalGroupScales :: VectorXs
  originalMarkerOffsets :: "string \<rightharpoonup> VectorXs"
  originalPoses :: "MatrixXs list"
  joints :: "nat list"
  jointCenters :: "MatrixXs list"
  jointAxis :: "MatrixXs list"
  jointWeights :: VectorXs
  axisWeights :: VectorXs
  contactBodies :: "BodyNode list list"
  grfBodyContactSphereRadius :: "s_t list list list"
  groundHeight :: "ext list"
  flatGround :: "bool list"
  defaultForcePlateCorners :: "ext list list list"
  grfBodyForceActive :: "bool list list list"
  grfBodySphereInContact :: "bool list list list"
  grfBodyOffForcePlate :: "bool list list list"
  probablyMissingGRF :: "bool list list"

text \<open>
  The marker map is a \<open>std::map\<close> from marker name to (body, offset); it is given here
  as the list of its entries in iteration order (sorted by name).
\<close>

type_synonym MarkerMap = "(string \<times> nat \<times> VectorXs) list"

record DynamicsFitProblem =
  mInit :: DynamicsInitialization
  mSkeleton :: Skeleton
  mMarkerMap :: MarkerMap
  mFootNodes :: "BodyNode list"
  mIncludeMasses :: bool
  mIncludeCOMs :: bool
  mIncludeInertias :: bool
  mIncludeBodyScales :: bool
  mIncludePoses :: bool
  mIncludeMarkerOffsets :: bool
  mResidualWeight :: s_t
  mMarkerWeight :: s_t
  mJointWeight :: s_t
  mResidualUseL1 :: bool
  mMarkerUseL1 :: bool
  mRegularizeMasses :: s_t
  mRegularizeCOMs :: s_t
  mRegularizeInertias :: s_t
  mRegularizeTrackingMarkerOffsets :: s_t
  mRegularizeAnatomicalMarkerOffsets :: s_t
  mRegularizeBodyScales :: s_t
  mRegularizePoses :: s_t
  mMarkerNames :: "string list"
  mMarkers :: "(nat \<times> VectorXs) list"
  mMarkerIsTracking :: "bool list"
  mPoses :: "MatrixXs list"
  mVels :: "MatrixXs list"
  mAccs :: "MatrixXs list"
  mForceBodyIndices :: "nat list"
  mLastX :: VectorXs

text \<open>
  The constructor. Positions are copied, velocities and accelerations are the finite
  differences of the input poses; a trial of \<open>N\<close> frames gets \<open>N - 1\<close> velocity and
  \<open>N - 2\<close> acceleration columns. (A trial with fewer than two frames asks Eigen for a
  matrix with a negative number of columns; the model has no such trial in any statement
  below.) \<open>mLastX\<close> starts as the empty vector.
\<close>

definition fitProblem_vels :: "MatrixXs \<Rightarrow> s_t \<Rightarrow> MatrixXs" where
  "fitProblem_vels inputPoses dt =
     map (\<lambda>j. map (\<lambda>v. v / dt) (vsub (inputPoses ! (j + 1)) (inputPoses ! j)))
       [0..<length inputPoses - 1]"

definition fitProblem_accs :: "MatrixXs \<Rightarrow> s_t \<Rightarrow> MatrixXs" where
  "fitProblem_accs inputPoses dt =
     map (\<lambda>j. map (\<lambda>v. v / (dt * dt))
                (vadd (vsub (inputPoses ! (j + 2)) (smul 2 (inputPoses ! (j + 1))))
                      (inputPoses ! j)))
       [0..<length inputPoses - 2]"

definition newDynamicsFitProblem ::
  "DynamicsInitialization \<Rightarrow> Skeleton \<Rightarrow> MarkerMap \<Rightarrow> string list \<Rightarrow> BodyNode list
     \<Rightarrow> DynamicsFitProblem" where
  "newDynamicsFitProblem init skeleton markerMap trackingMarkers footNodes =
     \<lparr> mInit = init,
       mSkeleton = skeleton,
       mMarkerMap = markerMap,
       mFootNodes = footNodes,
       mIncludeMasses = True,
       mIncludeCOMs = True,
       mIncludeInertias = True,
       mIncludeBodyScales = True,
       mIncludePoses = True,
       mIncludeMarkerOffsets = True,
       mResidualWeight = 1 / 10,
       mMarkerWeight = 1,
       mJointWeight = 1,
       mResidualUseL1 = False,
       mMarkerUseL1 = False,
       mRegularizeMasses = 1,
       mRegularizeCOMs = 1,
       mRegularizeInertias = 1,
       mRegularizeTrackingMarkerOffsets = 5 / 100,
       mRegularizeAnatomicalMarkerOffsets = 10,
       mRegularizeBodyScales = 2 / 10,
       mRegularizePoses = 0,
       mMarkerNames = map fst markerMap,
       mMarkers = map snd markerMap,
       mMarkerIsTracking = map (\<lambda>pair. fst pair \<in> set trackingMarkers) markerMap,
       mPoses = map (\<lambda>i. poseTrials init ! i) [0..<length (poseTrials init)],
       mVels = map (\<lambda>i. fitProblem_vels (poseTrials init ! i) (trialTimesteps init ! i))
                 [0..<length (poseTrials init)],
       mAccs = map (\<lambda>i. fitProblem_accs (poseTrials init ! i) (trialTimesteps init ! i))
                 [0..<length (poseTrials init)],
       mForceBodyIndices = map getIndexInSkeleton footNodes,
       mLastX = [] \<rparr>"

definition setIncludeMasses :: "DynamicsFitProblem \<Rightarrow> bool \<Rightarrow> DynamicsFitProblem" where
  "setIncludeMasses P v = P\<lparr>mIncludeMasses := v\<rparr>"

definition setIncludeCOMs :: "DynamicsFitProblem \<Rightarrow> bool \<Rightarrow> DynamicsFitProblem" where
  "setIncludeCOMs P v = P\<lparr>mIncludeCOMs := v\<rparr>"

definition setIncludeInertias :: "DynamicsFitProblem \<Rightarrow> bool \<Rightarrow> DynamicsFitProblem" where
  "setIncludeInertias P v = P\<lparr>mIncludeInertias := v\<rparr>"

definition setIncludePoses :: "DynamicsFitProblem \<Rightarrow> bool \<Rightarrow> DynamicsFitProblem" where
  "setIncludePoses P v = P\<lparr>mIncludePoses := v\<rparr>"

definition setIncludeMarkerOffsets :: "DynamicsFitProblem \<Rightarrow> bool \<Rightarrow> DynamicsFitProblem" where
  "setIncludeMarkerOffsets P v = P\<lparr>mIncludeMarkerOffsets := v\<rparr>"

definition setIncludeBodyScales :: "DynamicsFitProblem \<Rightarrow> bool \<Rightarrow> DynamicsFitProblem" where
  "setIncludeBodyScales P v = P\<lparr>mIncludeBodyScales := v\<rparr>"

definition setResidualWeight :: "DynamicsFitProblem \<Rightarrow> s_t \<Rightarrow> DynamicsFitProblem" where
  "setResidualWeight P w = P\<lparr>mResidualWeight := w\<rparr>"

definition setMarkerWeight :: "DynamicsFitProblem \<Rightarrow> s_t \<Rightarrow> DynamicsFitProblem" where
  "setMarkerWeight P w = P\<lparr>mMarkerWeight := w\<rparr>"

definition setResidualUseL1 :: "DynamicsFitProblem \<Rightarrow> bool \<Rightarrow> DynamicsFitProblem" where
  "setResidualUseL1 P l1 = P\<lparr>mResidualUseL1 := l1\<rparr>"

definition setMarkerUseL1 :: "DynamicsFitProblem \<Rightarrow> bool \<Rightarrow> DynamicsFitProblem" where
  "setMarkerUseL1 P l1 = P\<lparr>mMarkerUseL1 := l1\<rparr>"

subsection \<open>The problem that runOptimization hands to the solver\<close>

record DynamicsFitter =
  fitter_mSkeleton :: Skeleton
  fitter_mFootNodes :: "BodyNode list"
  fitter_mMarkerMap :: MarkerMap
  fitter_mTrackingMarkers :: "string list"

text \<open>
  The two weight setters as \<open>runOptimization\<close> calls them: each argument is the
  conditional expression of the source, read on the problem at that moment.
\<close>

definition runOptimization_setWeights ::
  "DynamicsFitProblem \<Rightarrow> s_t \<Rightarrow> s_t \<Rightarrow> DynamicsFitProblem" where
  "runOptimization_setWeights problem residualWeight markerWeight =
     (let p1 = setResidualWeight problem
                 (if mResidualUseL1 problem then residualWeight
                  else residualWeight * residualWeight);
          p2 = setMarkerWeight p1
                 (if mMarkerUseL1 p1 then markerWeight else markerWeight * markerWeight)
      in p2)"

text \<open>
  \<open>runOptimization\<close> up to the call of the solver. \<open>initialized\<close> is the answer of the
  solver's \<open>Initialize()\<close>: the function returns before building the problem when it is
  not \<open>Solve_Succeeded\<close>.
\<close>

definition runOptimization_problem ::
  "DynamicsFitter \<Rightarrow> bool \<Rightarrow> DynamicsInitialization \<Rightarrow> s_t \<Rightarrow> s_t
     \<Rightarrow> bool \<Rightarrow> bool \<Rightarrow> bool \<Rightarrow> bool \<Rightarrow> bool \<Rightarrow> bool \<Rightarrow> DynamicsFitProblem option" where
  "runOptimization_problem fitter initialized init residualWeight markerWeight
     includeMasses includeCOMs includeInertias includeBodyScales includePoses
     includeMarkerOffsets =
     (if \<not> initialized then None
      else
        (let problem = newDynamicsFitProblem init (fitter_mSkeleton fitter)
                         (fitter_mMarkerMap fitter) (fitter_mTrackingMarkers fitter)
                         (fitter_mFootNodes fitter);
             problem = runOptimization_setWeights problem residualWeight markerWeight;
             problem = setIncludeMasses problem includeMasses;
             problem = setIncludeCOMs problem includeCOMs;
             problem = setIncludeInertias problem includeInertias;
             problem = setIncludeBodyScales problem includeBodyScales;
             problem = setIncludePoses problem includePoses;
             problem = setIncludeMarkerOffsets problem includeMarkerOffsets
         in Some problem))"

subsection \<open>The flat decision vector\<close>

definition getProblemSize :: "DynamicsFitProblem \<Rightarrow> nat" where
  "getProblemSize P =
     (let size = 0;
          size = (if mIncludeMasses P then size + numScaleGroups (mSkeleton P) else size);
          size = (if mIncludeCOMs P then size + numScaleGroups (mSkeleton P) * 3 else size);
          size = (if mIncludeInertias P then size + numScaleGroups (mSkeleton P) * 6 else size);
          size = (if mIncludeBodyScales P then size + groupScaleDim (mSkeleton P) else size);
          size = (if mIncludeMarkerOffsets P then size + length (mMarkers P) * 3 else size);
          size = (if mIncludePoses P then
                    (let dofs = numDofs (mSkeleton P)
                     in fold (\<lambda>trial size. size + length (mAccs P ! trial) * dofs * 3 + dofs * 3)
                          [0..<length (mPoses P)] size)
                  else size)
      in size)"

text \<open>
  One step of the cursor: \<open>flat.segment(cursor, n) = v; cursor += n\<close>. Eigen requires
  \<open>v.size() = n\<close> and the segment to lie inside \<open>flat\<close>.
\<close>

definition write_segment :: "VectorXs \<times> nat \<Rightarrow> nat \<Rightarrow> VectorXs \<Rightarrow> VectorXs \<times> nat" where
  "write_segment fc n v = (set_segment (fst fc) (snd fc) v, snd fc + n)"

definition flatten_trial ::
  "nat \<Rightarrow> MatrixXs \<Rightarrow> MatrixXs \<Rightarrow> MatrixXs \<Rightarrow> VectorXs \<times> nat \<Rightarrow> VectorXs \<times> nat" where
  "flatten_trial dofs poses vels accs fc =
     (let fc = fold (\<lambda>t fc.
                  (let fc = write_segment fc dofs (poses ! t);
                       fc = write_segment fc dofs (vels ! t);
                       fc = write_segment fc dofs (accs ! t)
                   in fc))
                [0..<length accs] fc;
          lastAccT1 = length accs;
          fc = write_segment fc dofs (poses ! lastAccT1);
          fc = write_segment fc dofs (vels ! lastAccT1);
          fc = write_segment fc dofs (poses ! (lastAccT1 + 1))
      in fc)"

text \<open>
  In \<open>flatten_trial\<close> (and in \<open>unflatten_trial\<close> below) \<open>lastAccT1\<close> is the source's
  \<open>lastAccT + 1\<close>, where \<open>lastAccT = mAccs[trial].cols() - 1\<close> is a signed integer
  (\<open>-1\<close> for a trial without acceleration columns).
\<close>

definition flatten :: "DynamicsFitProblem \<Rightarrow> VectorXs" where
  "flatten P =
     (let fc = (Zero (getProblemSize P), 0);
          fc = (if mIncludeMasses P
                then write_segment fc (numScaleGroups (mSkeleton P)) (groupMasses (mSkeleton P))
                else fc);
          fc = (if mIncludeCOMs P
                then write_segment fc (numScaleGroups (mSkeleton P) * 3) (groupCOMs (mSkeleton P))
                else fc);
          fc = (if mIncludeInertias P
                then write_segment fc (numScaleGroups (mSkeleton P) * 6)
                       (groupInertias (mSkeleton P))
                else fc);
          fc = (if mIncludeBodyScales P
                then write_segment fc (groupScaleDim (mSkeleton P)) (groupScales (mSkeleton P))
                else fc);
          fc = (if mIncludeMarkerOffsets P
                then fold (\<lambda>i fc. write_segment fc 3 (snd (mMarkers P ! i)))
                       [0..<length (mMarkers P)] fc
                else fc);
          fc = (if mIncludePoses P
                then fold (\<lambda>trial fc. flatten_trial (numDofs (mSkeleton P))
                                         (mPoses P ! trial) (mVels P ! trial) (mAccs P ! trial) fc)
                       [0..<length (mPoses P)] fc
                else fc)
      in fst fc)"

text \<open>
  \<open>unflatten\<close>, one trial: the columns are overwritten in place from the segments of
  \<open>x\<close>; the state is the three matrices of the trial and the cursor.
\<close>

definition unflatten_trial ::
  "nat \<Rightarrow> VectorXs \<Rightarrow> MatrixXs \<times> MatrixXs \<times> MatrixXs \<times> nat
     \<Rightarrow> MatrixXs \<times> MatrixXs \<times> MatrixXs \<times> nat" where
  "unflatten_trial dofs x st =
     (case fold (\<lambda>t (poses, vels, accs, cursor).
                   (poses[t := segment x cursor dofs],
                    vels[t := segment x (cursor + dofs) dofs],
                    accs[t := segment x (cursor + dofs + dofs) dofs],
                    cursor + dofs + dofs + dofs))
             [0..<length (fst (snd (snd st)))] st of
        (poses, vels, accs, cursor) \<Rightarrow>
          (let lastAccT1 = length accs;
               poses = poses[lastAccT1 := segment x cursor dofs];
               vels = vels[lastAccT1 := segment x (cursor + dofs) dofs];
               poses = poses[lastAccT1 + 1 := segment x (cursor + dofs + dofs) dofs]
           in (poses, vels, accs, cursor + dofs + dofs + dofs)))"

definition unflatten_trials ::
  "nat \<Rightarrow> VectorXs \<Rightarrow> DynamicsFitProblem \<times> nat \<Rightarrow> DynamicsFitProblem \<times> nat" where
  "unflatten_trials dofs x Pc =
     fold (\<lambda>trial (P, cursor).
             (case unflatten_trial dofs x
                     (mPoses P ! trial, mVels P ! trial, mAccs P ! trial, cursor) of
                (poses, vels, accs, cursor') \<Rightarrow>
                  (P\<lparr>mPoses := (mPoses P)[trial := poses],
                     mVels := (mVels P)[trial := vels],
                     mAccs := (mAccs P)[trial := accs]\<rparr>, cursor')))
       [0..<length (mPoses (fst Pc))] Pc"

text \<open>
  \<open>unflatten\<close> proper: one step per \<open>if (mInclude...)\<close> block of the source, in the
  source's order, each on the problem and the cursor; then the guard on \<open>mLastX\<close> and the
  chain of the blocks.
\<close>

definition unflatten_masses :: "VectorXs \<Rightarrow> DynamicsFitProblem \<times> nat \<Rightarrow> DynamicsFitProblem \<times> nat" where
  "unflatten_masses x Pc =
     (case Pc of (P, cursor) \<Rightarrow>
        if mIncludeMasses P then
          (let dim' = numScaleGroups (mSkeleton P)
           in (P\<lparr>mSkeleton := (mSkeleton P)\<lparr>groupMasses := segment x cursor dim'\<rparr>\<rparr>,
               cursor + dim'))
        else (P, cursor))"

definition unflatten_COMs :: "VectorXs \<Rightarrow> DynamicsFitProblem \<times> nat \<Rightarrow> DynamicsFitProblem \<times> nat" where
  "unflatten_COMs x Pc =
     (case Pc of (P, cursor) \<Rightarrow>
        if mIncludeCOMs P then
          (let dim' = numScaleGroups (mSkeleton P) * 3
           in (P\<lparr>mSkeleton := (mSkeleton P)\<lparr>groupCOMs := segment x cursor dim'\<rparr>\<rparr>,
               cursor + dim'))
        else (P, cursor))"

definition unflatten_inertias :: "VectorXs \<Rightarrow> DynamicsFitProblem \<times> nat \<Rightarrow> DynamicsFitProblem \<times> nat" where
  "unflatten_inertias x Pc =
     (case Pc of (P, cursor) \<Rightarrow>
        if mIncludeInertias P then
          (let dim' = numScaleGroups (mSkeleton P) * 6
           in (P\<lparr>mSkeleton := (mSkeleton P)\<lparr>groupInertias := segment x cursor dim'\<rparr>\<rparr>,
               cursor + dim'))
        else (P, cursor))"

definition unflatten_bodyScales :: "VectorXs \<Rightarrow> DynamicsFitProblem \<times> nat \<Rightarrow> DynamicsFitProblem \<times> nat" where
  "unflatten_bodyScales x Pc =
     (case Pc of (P, cursor) \<Rightarrow>
        if mIncludeBodyScales P then
          (let dim' = groupScaleDim (mSkeleton P)
           in (P\<lparr>mSkeleton := (mSkeleton P)\<lparr>groupScales := segment x cursor dim'\<rparr>\<rparr>,
               cursor + dim'))
        else (P, cursor))"

definition unflatten_markerOffsets :: "VectorXs \<Rightarrow> DynamicsFitProblem \<times> nat \<Rightarrow> DynamicsFitProblem \<times> nat" where
  "unflatten_markerOffsets x Pc =
     (case Pc of (P, cursor) \<Rightarrow>
        if mIncludeMarkerOffsets P then
          fold (\<lambda>i (P, cursor).
                  (P\<lparr>mMarkers := (mMarkers P)
                        [i := (fst (mMarkers P ! i), segment x cursor 3)]\<rparr>,
                   cursor + 3))
            [0..<length (mMarkers P)] (P, cursor)
        else (P, cursor))"

definition unflatten_poses :: "VectorXs \<Rightarrow> DynamicsFitProblem \<times> nat \<Rightarrow> DynamicsFitProblem \<times> nat" where
  "unflatten_poses x Pc =
     (case Pc of (P, cursor) \<Rightarrow>
        if mIncludePoses P then unflatten_trials (numDofs (mSkeleton P)) x (P, cursor)
        else (P, cursor))"

definition unflatten :: "DynamicsFitProblem \<Rightarrow> VectorXs \<Rightarrow> DynamicsFitProblem" where
  "unflatten P x =
     (if length x = length (mLastX P) \<and> x = mLastX P then P
      else
        (let Pc = (P\<lparr>mLastX := x\<rparr>, 0);
             Pc = unflatten_masses x Pc;
             Pc = unflatten_COMs x Pc;
             Pc = unflatten_inertias x Pc;
             Pc = unflatten_bodyScales x Pc;
             Pc = unflatten_markerOffsets x Pc;
             Pc = unflatten_poses x Pc
         in fst Pc))"

subsection \<open>computeLoss\<close>

text \<open>\<open>exit(code)\<close> ends the process; a function that can reach it returns \<open>Inl (Exit code)\<close>.\<close>

datatype failure = Exit nat | EigenAssert

definition totalTimesteps :: "DynamicsFitProblem \<Rightarrow> nat" where
  "totalTimesteps P =
     fold (\<lambda>trial n. n + length (mPoses P ! trial)) [0..<length (mPoses P)] 0"

definition totalAccTimesteps :: "DynamicsFitProblem \<Rightarrow> nat" where
  "totalAccTimesteps P =
     fold (\<lambda>trial n. n + length (mAccs P ! trial)) [0..<length (mPoses P)] 0"

definition massRegularization :: "DynamicsFitProblem \<Rightarrow> s_t" where
  "massRegularization P =
     mRegularizeMasses P * (1 / real (numScaleGroups (mSkeleton P)))
       * squaredNorm (vsub (groupMasses (mSkeleton P)) (originalGroupMasses (mInit P)))"

definition comRegularization :: "DynamicsFitProblem \<Rightarrow> s_t" where
  "comRegularization P =
     mRegularizeCOMs P * (1 / real (numScaleGroups (mSkeleton P)))
       * squaredNorm (vsub (groupCOMs (mSkeleton P)) (originalGroupCOMs (mInit P)))"

definition inertiaRegularization :: "DynamicsFitProblem \<Rightarrow> s_t" where
  "inertiaRegularization P =
     mRegularizeInertias P * (1 / real (numScaleGroups (mSkeleton P)))
       * squaredNorm (vsub (groupInertias (mSkeleton P)) (originalGroupInertias (mInit P)))"

definition scaleRegularization :: "DynamicsFitProblem \<Rightarrow> s_t" where
  "scaleRegularization P =
     mRegularizeBodyScales P * (1 / real (numScaleGroups (mSkeleton P)))
       * squaredNorm (vsub (groupScales (mSkeleton P)) (originalGroupScales (mInit P)))"

definition markerRegularization :: "DynamicsFitProblem \<Rightarrow> s_t" where
  "markerRegularization P =
     fold (\<lambda>i markerRegularization.
             (case originalMarkerOffsets (mInit P) (mMarkerNames P ! i) of
                None \<Rightarrow> markerRegularization
              | Some original \<Rightarrow>
                  markerRegularization
                    + (if mMarkerIsTracking P ! i then mRegularizeTrackingMarkerOffsets P
                       else mRegularizeAnatomicalMarkerOffsets P)
                      * (1 / real (length (mMarkerNames P)))
                      * squaredNorm (vsub (snd (mMarkers P ! i)) original)))
       [0..<length (mMarkerNames P)] 0"

text \<open>
  The accumulators of the loop over trials and frames, with the skeleton whose
  positions each frame sets.
\<close>

record LossAcc =
  acc_skel :: Skeleton
  acc_residualRMS :: s_t
  acc_markerRMS :: s_t
  acc_poseRegularization :: s_t
  acc_jointRMS :: s_t
  acc_axisRMS :: s_t
  acc_markerCount :: nat

definition loss_frame :: "SkelOps \<Rightarrow> DynamicsFitProblem \<Rightarrow> nat \<Rightarrow> nat \<Rightarrow> LossAcc \<Rightarrow> LossAcc" where
  "loss_frame ops P trial t a =
     (let s0 = setPositions (acc_skel a) (mPoses P ! trial ! t);
          (s1, residualRMS) =
            (if t < length (mAccs P ! trial) \<and> \<not> probablyMissingGRF (mInit P) ! trial ! t
             then
               (case calculateResidualNorm ops (mForceBodyIndices P) s0
                       (mPoses P ! trial ! t) (mVels P ! trial ! t) (mAccs P ! trial ! t)
                       (grfTrials (mInit P) ! trial ! t) (mResidualUseL1 P) of
                  (s', n) \<Rightarrow>
                    (s', acc_residualRMS a
                           + mResidualWeight P * (1 / real (totalAccTimesteps P)) * n))
             else (s0, acc_residualRMS a));
          markerPoses = getMarkerWorldPositions ops s1 (mMarkers P);
          observedMarkerPoses = markerObservationTrials (mInit P) ! trial ! t;
          (markerRMS, markerCount) =
            fold (\<lambda>i (markerRMS, markerCount).
                    (case observedMarkerPoses (mMarkerNames P ! i) of
                       None \<Rightarrow> (markerRMS, markerCount)
                     | Some observed \<Rightarrow>
                         (let diff = vsub observed (segment markerPoses (i * 3) 3);
                              thisMarkerCost =
                                (if mMarkerUseL1 P then norm2 diff else squaredNorm diff)
                          in (markerRMS + thisMarkerCost, markerCount + 1))))
              [0..<length (mMarkerNames P)] (acc_markerRMS a, acc_markerCount a);
          jointPoses = getJointWorldPositions ops s1 (joints (mInit P));
          jointCenters = jointCenters (mInit P) ! trial ! t;
          jointAxis = jointAxis (mInit P) ! trial ! t;
          jointRMS =
            fold (\<lambda>i jointRMS.
                    jointRMS
                      + squaredNorm (vsub (segment jointPoses (i * 3) 3)
                                          (segment jointCenters (i * 3) 3))
                        * (jointWeights (mInit P) ! i))
              [0..<length (jointWeights (mInit P))] (acc_jointRMS a);
          axisRMS =
            fold (\<lambda>i axisRMS.
                    (let axisCenter = segment jointAxis (i * 6) 3;
                         axisDir = normalize (segment jointAxis (i * 6 + 3) 3);
                         actualJointPos = segment jointPoses (i * 3) 3;
                         jointDiff = vsub actualJointPos axisCenter;
                         jointDiff = vsub jointDiff (smul (dot jointDiff axisDir) axisDir)
                     in axisRMS + squaredNorm jointDiff * (axisWeights (mInit P) ! i)))
              [0..<length (axisWeights (mInit P))] (acc_axisRMS a);
          poseRegularization =
            acc_poseRegularization a
              + mRegularizePoses P * (1 / real (totalTimesteps P))
                * squaredNorm (vsub (mPoses P ! trial ! t) (originalPoses (mInit P) ! trial ! t))
      in \<lparr> acc_skel = s1, acc_residualRMS = residualRMS, acc_markerRMS = markerRMS,
           acc_poseRegularization = poseRegularization, acc_jointRMS = jointRMS,
           acc_axisRMS = axisRMS, acc_markerCount = markerCount \<rparr>)"

definition loss_trial :: "SkelOps \<Rightarrow> DynamicsFitProblem \<Rightarrow> nat \<Rightarrow> LossAcc \<Rightarrow> LossAcc" where
  "loss_trial ops P trial a = fold (loss_frame ops P trial) [0..<length (mPoses P ! trial)] a"

definition computeLoss_terms :: "SkelOps \<Rightarrow> DynamicsFitProblem \<Rightarrow> LossAcc" where
  "computeLoss_terms ops P =
     fold (loss_trial ops P) [0..<length (mPoses P)]
       \<lparr> acc_skel = mSkeleton P, acc_residualRMS = 0, acc_markerRMS = 0,
         acc_poseRegularization = 0, acc_jointRMS = 0, acc_axisRMS = 0,
         acc_markerCount = 0 \<rparr>"

text \<open>
  \<open>computeLoss\<close>: the state it leaves (the unflattened problem, the skeleton at the last
  pose) and the loss, or the exit. \<open>clearExternalForces()\<close> and the log line touch nothing
  that is modelled.
\<close>

definition computeLoss ::
  "SkelOps \<Rightarrow> DynamicsFitProblem \<Rightarrow> VectorXs \<Rightarrow> bool \<Rightarrow> failure + DynamicsFitProblem \<times> s_t" where
  "computeLoss ops P0 x logExplanation =
     (let P = unflatten P0 x
      in if length (probablyMissingGRF (mInit P)) < length (poseTrials (mInit P))
         then Inl (Exit 1)
         else
           (let sum = 0;
                sum = sum + massRegularization P;
                sum = sum + comRegularization P;
                sum = sum + inertiaRegularization P;
                sum = sum + scaleRegularization P;
                sum = sum + markerRegularization P;
                a = computeLoss_terms ops P;
                sum = sum + acc_residualRMS a;
                markerRMS = acc_markerRMS a * mMarkerWeight P;
                markerRMS = (if acc_markerCount a > 0
                             then markerRMS / real (acc_markerCount a) else markerRMS);
                sum = sum + markerRMS;
                jointRMS = acc_jointRMS a * mJointWeight P;
                sum = sum + jointRMS;
                axisRMS = acc_axisRMS a * mJointWeight P;
                sum = sum + axisRMS;
                sum = sum + acc_poseRegularization a
            in Inr (P\<lparr>mSkeleton := acc_skel a\<rparr>, sum)))"

subsection \<open>computeGradient\<close>

text \<open>\<open>grad.segment(c, v.size()) += v\<close>.\<close>

definition add_segment :: "VectorXs \<Rightarrow> nat \<Rightarrow> VectorXs \<Rightarrow> VectorXs" where
  "add_segment g c v = set_segment g c (vadd (segment g c (length v)) v)"

text \<open>
  The regularization part of the gradient, before the loop over the frames. For a marker
  without an entry in \<open>originalMarkerOffsets\<close> the source's \<open>operator[]\<close> reads a
  default-constructed vector, whose value nothing fixes (and stores it in the map, which
  is not modelled).
\<close>

definition gradient_regularization :: "DynamicsFitProblem \<Rightarrow> VectorXs \<times> nat" where
  "gradient_regularization P =
     (let grad = Zero (getProblemSize P);
          posesCursor = 0;
          k = 1 / real (numScaleGroups (mSkeleton P));
          (grad, posesCursor) =
            (if mIncludeMasses P then
               (add_segment grad posesCursor
                  (smul (mRegularizeMasses P * 2 * k)
                     (vsub (groupMasses (mSkeleton P)) (originalGroupMasses (mInit P)))),
                posesCursor + numScaleGroups (mSkeleton P))
             else (grad, posesCursor));
          (grad, posesCursor) =
            (if mIncludeCOMs P then
               (add_segment grad posesCursor
                  (smul (mRegularizeCOMs P * 2 * k)
                     (vsub (groupCOMs (mSkeleton P)) (originalGroupCOMs (mInit P)))),
                posesCursor + numScaleGroups (mSkeleton P) * 3)
             else (grad, posesCursor));
          (grad, posesCursor) =
            (if mIncludeInertias P then
               (add_segment grad posesCursor
                  (smul (mRegularizeInertias P * 2 * k)
                     (vsub (groupInertias (mSkeleton P)) (originalGroupInertias (mInit P)))),
                posesCursor + numScaleGroups (mSkeleton P) * 6)
             else (grad, posesCursor));
          (grad, posesCursor) =
            (if mIncludeBodyScales P then
               (add_segment grad posesCursor
                  (smul (mRegularizeBodyScales P * 2 * k)
                     (vsub (groupScales (mSkeleton P)) (originalGroupScales (mInit P)))),
                posesCursor + groupScaleDim (mSkeleton P))
             else (grad, posesCursor));
          (grad, posesCursor) =
            (if mIncludeMarkerOffsets P then
               fold (\<lambda>i (grad, posesCursor).
                       (add_segment grad posesCursor
                          (smul (2 * (if mMarkerIsTracking P ! i
                                      then mRegularizeTrackingMarkerOffsets P
                                      else mRegularizeAnatomicalMarkerOffsets P)
                                 * (1 / real (length (mMarkerNames P))))
                             (vsub (snd (mMarkers P ! i))
                                (case originalMarkerOffsets (mInit P) (mMarkerNames P ! i) of
                                   Some original \<Rightarrow> original
                                 | None \<Rightarrow> undefined))),
                        posesCursor + 3))
                 [0..<length (mMarkers P)] (grad, posesCursor)
             else (grad, posesCursor))
      in (grad, posesCursor))"

definition gradient_markerCount :: "DynamicsFitProblem \<Rightarrow> nat" where
  "gradient_markerCount P =
     fold (\<lambda>trial markerCount.
             fold (\<lambda>t markerCount.
                     fold (\<lambda>i markerCount.
                             (case (markerObservationTrials (mInit P) ! trial ! t)
                                     (mMarkerNames P ! i) of
                                None \<Rightarrow> markerCount
                              | Some _ \<Rightarrow> markerCount + 1))
                       [0..<length (mMarkers P)] markerCount)
               [0..<length (mPoses P ! trial)] markerCount)
       [0..<length (mPoses P)] 0"

text \<open>
  The marker error of one frame. The world positions come from \<open>mMarkerMap\<close>, the map the
  constructor received, as in the source; every marker name is a key of that map, so
  \<open>markerMap.at\<close> finds it.
\<close>

definition lossGradWrtMarkerError ::
  "SkelOps \<Rightarrow> DynamicsFitProblem \<Rightarrow> Skeleton \<Rightarrow> nat \<Rightarrow> nat \<Rightarrow> nat \<Rightarrow> VectorXs" where
  "lossGradWrtMarkerError ops P s markerCount trial t =
     (let markerObservations = markerObservationTrials (mInit P) ! trial ! t;
          markerMap = getMarkerMapWorldPositions ops s (mMarkerMap P)
      in fold (\<lambda>i g.
                 (case markerObservations (mMarkerNames P ! i) of
                    None \<Rightarrow> g
                  | Some observed \<Rightarrow>
                      (let markerOffset = vsub (the (markerMap (mMarkerNames P ! i))) observed;
                           markerOffset = (if mMarkerUseL1 P then normalize markerOffset
                                           else smul 2 markerOffset)
                       in set_segment g (i * 3)
                            (smul (mMarkerWeight P / real markerCount) markerOffset))))
           [0..<length (mMarkers P)] (Zero (length (mMarkers P) * 3)))"

definition jointGrad :: "SkelOps \<Rightarrow> DynamicsFitProblem \<Rightarrow> Skeleton \<Rightarrow> nat \<Rightarrow> nat \<Rightarrow> VectorXs" where
  "jointGrad ops P s trial t =
     (let worldJoints = getJointWorldPositions ops s (joints (mInit P));
          targetJoints = jointCenters (mInit P) ! trial ! t;
          targetAxis = jointAxis (mInit P) ! trial ! t;
          g = fold (\<lambda>i g.
                 (let worldDiff = vsub (segment worldJoints (i * 3) 3)
                                       (segment targetJoints (i * 3) 3);
                      g = add_segment g (i * 3)
                            (smul (jointWeights (mInit P) ! i) (smul 2 worldDiff));
                      axisDiff = vsub (segment worldJoints (i * 3) 3)
                                      (segment targetAxis (i * 6) 3);
                      axis = normalize (segment targetAxis (i * 6 + 3) 3);
                      axisDiff = vsub axisDiff (smul (dot axisDiff axis) axis);
                      g = add_segment g (i * 3)
                            (smul (axisWeights (mInit P) ! i) (smul 2 axisDiff))
                  in g))
               [0..<length (joints (mInit P))] (Zero (length (joints (mInit P)) * 3))
      in smul (mJointWeight P) g)"

text \<open>
  \<open>grad.segment(c, n) += mResidualWeight * (1.0 / totalAccTimesteps) *
  calculateResidualNormGradientWrt(..., wrt, mResidualUseL1)\<close>, with the skeleton the call
  leaves.
\<close>

definition add_residual_gradient ::
  "SkelOps \<Rightarrow> DynamicsFitProblem \<Rightarrow> nat \<Rightarrow> nat \<Rightarrow> WithRespectTo \<Rightarrow> nat
     \<Rightarrow> Skeleton \<times> VectorXs \<Rightarrow> Skeleton \<times> VectorXs" where
  "add_residual_gradient ops P trial t wrt c sg =
     (case calculateResidualNormGradientWrt ops (mForceBodyIndices P) (fst sg)
             (mPoses P ! trial ! t) (mVels P ! trial ! t) (mAccs P ! trial ! t)
             (grfTrials (mInit P) ! trial ! t) wrt (mResidualUseL1 P) of
        (s', g) \<Rightarrow>
          (s', add_segment (snd sg) c
                 (smul (mResidualWeight P * (1 / real (totalAccTimesteps P))) g)))"

definition gradient_frame ::
  "SkelOps \<Rightarrow> DynamicsFitProblem \<Rightarrow> nat \<Rightarrow> nat \<Rightarrow> nat
     \<Rightarrow> Skeleton \<times> VectorXs \<times> nat \<Rightarrow> Skeleton \<times> VectorXs \<times> nat" where
  "gradient_frame ops P markerCount trial t st =
     (case st of (s, grad, posesCursor) \<Rightarrow>
      (let dofs = numDofs (mSkeleton P);
           s = setPositions s (mPoses P ! trial ! t);
           markerErr = lossGradWrtMarkerError ops P s markerCount trial t;
           jGrad = jointGrad ops P s trial t;
           missing = probablyMissingGRF (mInit P) ! trial ! t;
           nGroups = numScaleGroups (mSkeleton P)
       in if t < length (mAccs P ! trial) then
            (let cursor = 0;
                 (sg, cursor) =
                   (if mIncludeMasses P then
                      ((if \<not> missing
                        then add_residual_gradient ops P trial t GROUP_MASSES cursor (s, grad)
                        else (s, grad)), cursor + nGroups)
                    else ((s, grad), cursor));
                 (sg, cursor) =
                   (if mIncludeCOMs P then
                      ((if \<not> missing
                        then add_residual_gradient ops P trial t GROUP_COMS cursor sg
                        else sg), cursor + nGroups * 3)
                    else (sg, cursor));
                 (sg, cursor) =
                   (if mIncludeInertias P then
                      ((if \<not> missing
                        then add_residual_gradient ops P trial t GROUP_INERTIAS cursor sg
                        else sg), cursor + nGroups * 6)
                    else (sg, cursor));
                 (sg, cursor) =
                   (if mIncludeBodyScales P then
                      (let sg = (if \<not> missing
                                 then add_residual_gradient ops P trial t GROUP_SCALES cursor sg
                                 else sg);
                           g = add_segment (snd sg) cursor
                                 (getMarkerLossGradientWrtGroupScales ops (fst sg) (mMarkers P)
                                    markerErr);
                           g = add_segment g cursor
                                 (transpose_mat_vec
                                    (getJointWorldPositionsJacobianWrtGroupScales ops (fst sg)
                                       (joints (mInit P))) jGrad)
                       in ((fst sg, g), cursor + groupScaleDim (mSkeleton P)))
                    else (sg, cursor));
                 (sg, cursor) =
                   (if mIncludeMarkerOffsets P then
                      ((fst sg, add_segment (snd sg) cursor
                                  (getMarkerLossGradientWrtMarkerOffsets ops (fst sg) (mMarkers P)
                                     markerErr)),
                       cursor + length (mMarkers P) * 3)
                    else (sg, cursor))
             in if mIncludePoses P then
                  (let sg = (if \<not> missing
                             then add_residual_gradient ops P trial t POSITION posesCursor sg
                             else sg);
                       g = add_segment (snd sg) posesCursor
                             (getMarkerLossGradientWrtJoints ops (fst sg) (mMarkers P) markerErr);
                       g = add_segment g posesCursor
                             (smul (mRegularizePoses P * 2 * (1 / real (totalTimesteps P)))
                                (vsub (mPoses P ! trial ! t)
                                      (originalPoses (mInit P) ! trial ! t)));
                       g = add_segment g posesCursor
                             (transpose_mat_vec
                                (getJointWorldPositionsJacobianWrtJointPositions ops (fst sg)
                                   (joints (mInit P))) jGrad);
                       posesCursor = posesCursor + dofs;
                       sg = (if \<not> missing
                             then add_residual_gradient ops P trial t VELOCITY posesCursor
                                    (fst sg, g)
                             else (fst sg, g));
                       posesCursor = posesCursor + dofs;
                       sg = (if \<not> missing
                             then add_residual_gradient ops P trial t ACCELERATION posesCursor sg
                             else sg);
                       posesCursor = posesCursor + dofs
                   in (fst sg, snd sg, posesCursor))
                else (fst sg, snd sg, posesCursor))
          else
            (let cursor = 0;
                 cursor = (if mIncludeMasses P then cursor + nGroups else cursor);
                 cursor = (if mIncludeCOMs P then cursor + nGroups * 3 else cursor);
                 cursor = (if mIncludeInertias P then cursor + nGroups * 6 else cursor);
                 (grad, cursor) =
                   (if mIncludeBodyScales P then
                      (let g = add_segment grad cursor
                                 (getMarkerLossGradientWrtGroupScales ops s (mMarkers P)
                                    markerErr);
                           g = add_segment g cursor
                                 (transpose_mat_vec
                                    (getJointWorldPositionsJacobianWrtGroupScales ops s
                                       (joints (mInit P))) jGrad)
                       in (g, cursor + groupScaleDim (mSkeleton P)))
                    else (grad, cursor));
                 (grad, cursor) =
                   (if mIncludeMarkerOffsets P then
                      (add_segment grad cursor
                         (getMarkerLossGradientWrtMarkerOffsets ops s (mMarkers P) markerErr),
                       cursor + length (mMarkers P) * 3)
                    else (grad, cursor))
             in if mIncludePoses P then
                  (let g = add_segment grad posesCursor
                             (getMarkerLossGradientWrtJoints ops s (mMarkers P) markerErr);
                       g = add_segment g posesCursor
                             (smul (mRegularizePoses P * 2 * (1 / real (totalTimesteps P)))
                                (vsub (mPoses P ! trial ! t)
                                      (originalPoses (mInit P) ! trial ! t)));
                       g = add_segment g posesCursor
                             (transpose_mat_vec
                                (getJointWorldPositionsJacobianWrtJointPositions ops s
                                   (joints (mInit P))) jGrad);
                       posesCursor = posesCursor + dofs;
                       posesCursor = (if t < length (mVels P ! trial)
                                      then posesCursor + dofs else posesCursor)
                   in (s, g, posesCursor))
                else (s, grad, posesCursor))))"

text \<open>
  \<open>computeGradient\<close>: the state it leaves and the gradient, or the exit. The check of
  \<open>probablyMissingGRF\<close> comes right after \<open>unflatten\<close>, before anything is accumulated.
\<close>

definition computeGradient ::
  "SkelOps \<Rightarrow> DynamicsFitProblem \<Rightarrow> VectorXs \<Rightarrow> failure + DynamicsFitProblem \<times> VectorXs" where
  "computeGradient ops P0 x =
     (let P = unflatten P0 x
      in if length (probablyMissingGRF (mInit P)) < length (poseTrials (mInit P))
         then Inl (Exit 1)
         else
           (case gradient_regularization P of
              (grad, posesCursor) \<Rightarrow>
                (let markerCount = gradient_markerCount P
                 in case fold (\<lambda>trial st.
                                 fold (gradient_frame ops P markerCount trial)
                                   [0..<length (mPoses P ! trial)] st)
                           [0..<length (mPoses P)] (mSkeleton P, grad, posesCursor) of
                      (s, grad, posesCursor) \<Rightarrow> Inr (P\<lparr>mSkeleton := s\<rparr>, grad))))"

subsection \<open>The finite-difference constraints\<close>

definition getConstraintSize :: "DynamicsFitProblem \<Rightarrow> nat" where
  "getConstraintSize P =
     (if mIncludePoses P then
        (let numConstraints = 0;
             dofs = numDofs (mSkeleton P);
             numConstraints =
               fold (\<lambda>trial numConstraints. numConstraints + length (mAccs P ! trial) * dofs * 2)
                 [0..<length (mAccs P)] numConstraints;
             numConstraints = numConstraints + dofs
         in numConstraints)
      else 0)"

text \<open>
  \<open>constraints(cursor) = v; cursor++\<close>. Eigen checks the index and the source asserts
  \<open>cursor == constraints.size()\<close> at the end; a failed check is the failure
  \<open>EigenAssert\<close>. (Compiled without assertions, the write past the end is undefined.)
\<close>

definition write_coeff :: "failure + VectorXs \<times> nat \<Rightarrow> s_t \<Rightarrow> failure + VectorXs \<times> nat" where
  "write_coeff st v =
     (case st of
        Inl e \<Rightarrow> Inl e
      | Inr (constraints, cursor) \<Rightarrow>
          if cursor < length constraints then Inr (constraints[cursor := v], cursor + 1)
          else Inl EigenAssert)"

definition constraints_trial ::
  "nat \<Rightarrow> s_t \<Rightarrow> MatrixXs \<Rightarrow> MatrixXs \<Rightarrow> MatrixXs \<Rightarrow> failure + VectorXs \<times> nat
     \<Rightarrow> failure + VectorXs \<times> nat" where
  "constraints_trial dofs dt poses vels accs st =
     (let st = fold (\<lambda>t st.
                  (let st = fold (\<lambda>i st.
                               (let fd = poses ! (t + 1) ! i - poses ! t ! i
                                in write_coeff st ((vels ! t ! i * dt) - fd)))
                             [0..<dofs] st;
                       st = fold (\<lambda>i st.
                               (let fd = vels ! (t + 1) ! i - vels ! t ! i
                                in write_coeff st ((accs ! t ! i * dt) - fd)))
                             [0..<dofs] st
                   in st))
                [0..<length accs] st;
          lastAccT1 = length accs;
          st = fold (\<lambda>i st.
                  (let fd = poses ! (lastAccT1 + 1) ! i - poses ! lastAccT1 ! i
                   in write_coeff st ((vels ! lastAccT1 ! i * dt) - fd)))
                [0..<dofs] st
      in st)"

definition computeConstraints ::
  "DynamicsFitProblem \<Rightarrow> VectorXs \<Rightarrow> failure + DynamicsFitProblem \<times> VectorXs" where
  "computeConstraints P0 x =
     (if mIncludePoses P0 then
        (let P = unflatten P0 x;
             dim' = getConstraintSize P;
             dofs = numDofs (mSkeleton P)
         in case fold (\<lambda>trial st.
                         constraints_trial dofs (trialTimesteps (mInit P) ! trial)
                           (mPoses P ! trial) (mVels P ! trial) (mAccs P ! trial) st)
                   [0..<length (mAccs P)] (Inr (Zero dim', 0)) of
              Inl e \<Rightarrow> Inl e
            | Inr (constraints, cursor) \<Rightarrow>
                if cursor = length constraints then Inr (P, constraints) else Inl EigenAssert)
      else Inr (P0, Zero 0))"

text \<open>
  The sparse Jacobian: the triples in the order of \<open>emplace_back\<close>, the row and column
  cursors, and whether the assertions on the column cursor inside the loops have held.
\<close>

type_synonym triple = "nat \<times> nat \<times> s_t"

definition sparse_trial ::
  "nat \<Rightarrow> s_t \<Rightarrow> nat \<Rightarrow> nat \<Rightarrow> triple list \<times> nat \<times> nat \<times> bool
     \<Rightarrow> triple list \<times> nat \<times> nat \<times> bool" where
  "sparse_trial dofs dt nAccs cols st =
     (case fold (\<lambda>t (result, rowCursor, colCursor, ok).
                   (case fold (\<lambda>i (result, rowCursor).
                                 (let q_i_t0 = colCursor + i;
                                      q_i_t1 = colCursor + (dofs * 3) + i;
                                      dq_i_t0 = colCursor + dofs + i
                                  in (result @ [(rowCursor, q_i_t0, 1), (rowCursor, q_i_t1, - 1),
                                                (rowCursor, dq_i_t0, dt)],
                                      rowCursor + 1)))
                           [0..<dofs] (result, rowCursor) of
                      (result, rowCursor) \<Rightarrow>
                   (case fold (\<lambda>i (result, rowCursor).
                                 (let dq_i_t0 = colCursor + dofs + i;
                                      dq_i_t1 = colCursor + (dofs * 3) + dofs + i;
                                      ddq_i_t0 = colCursor + (dofs * 2) + i
                                  in (result @ [(rowCursor, dq_i_t0, 1), (rowCursor, dq_i_t1, - 1),
                                                (rowCursor, ddq_i_t0, dt)],
                                      rowCursor + 1)))
                           [0..<dofs] (result, rowCursor) of
                      (result, rowCursor) \<Rightarrow>
                        (let colCursor = colCursor + dofs * 3
                         in (result, rowCursor, colCursor, ok \<and> colCursor < cols)))))
             [0..<nAccs] st of
        (result, rowCursor, colCursor, ok) \<Rightarrow>
          (case fold (\<lambda>i (result, rowCursor).
                        (let q_i_t0 = colCursor + i;
                             q_i_t1 = colCursor + (dofs * 2) + i;
                             dq_i_t0 = colCursor + dofs + i
                         in (result @ [(rowCursor, q_i_t0, 1), (rowCursor, q_i_t1, - 1),
                                       (rowCursor, dq_i_t0, dt)],
                             rowCursor + 1)))
                  [0..<dofs] (result, rowCursor) of
             (result, rowCursor) \<Rightarrow>
               (let colCursor = colCursor + dofs * 3
                in (result, rowCursor, colCursor, ok \<and> colCursor \<le> cols))))"

definition sparse_colCursor0 :: "DynamicsFitProblem \<Rightarrow> nat" where
  "sparse_colCursor0 P =
     (let colCursor = 0;
          colCursor = (if mIncludeMasses P then colCursor + numScaleGroups (mSkeleton P)
                       else colCursor);
          colCursor = (if mIncludeCOMs P then colCursor + numScaleGroups (mSkeleton P) * 3
                       else colCursor);
          colCursor = (if mIncludeInertias P then colCursor + numScaleGroups (mSkeleton P) * 6
                       else colCursor);
          colCursor = (if mIncludeBodyScales P then colCursor + groupScaleDim (mSkeleton P)
                       else colCursor);
          colCursor = (if mIncludeMarkerOffsets P then colCursor + 3 * length (mMarkers P)
                       else colCursor)
      in colCursor)"

definition computeSparseConstraintsJacobian :: "DynamicsFitProblem \<Rightarrow> failure + triple list" where
  "computeSparseConstraintsJacobian P =
     (let colCursor = sparse_colCursor0 P;
          cols = getProblemSize P;
          (result, rowCursor, colCursor, ok) =
            (if mIncludePoses P then
               fold (\<lambda>trial st.
                       sparse_trial (numDofs (mSkeleton P)) (trialTimesteps (mInit P) ! trial)
                         (length (mAccs P ! trial)) cols st)
                 [0..<length (mAccs P)] ([], 0, colCursor, True)
             else ([], 0, colCursor, True))
      in if ok \<and> colCursor = cols then Inr result else Inl EigenAssert)"

text \<open>
  The dense Jacobian, as the list of its rows: \<open>J(row, col) = value\<close> for every triple, on
  a zero matrix of \<open>getConstraintSize()\<close> rows and \<open>getProblemSize()\<close> columns; Eigen
  checks both indices.
\<close>

definition computeConstraintsJacobian :: "DynamicsFitProblem \<Rightarrow> failure + MatrixXs" where
  "computeConstraintsJacobian P =
     (if \<not> mIncludePoses P then Inr []
      else
        (let problemDim = getProblemSize P;
             constraintDim = getConstraintSize P
         in case computeSparseConstraintsJacobian P of
              Inl e \<Rightarrow> Inl e
            | Inr sparseConstraints \<Rightarrow>
                fold (\<lambda>tuple J.
                        (case J of
                           Inl e \<Rightarrow> Inl e
                         | Inr J \<Rightarrow>
                             (case tuple of (row, col, v) \<Rightarrow>
                                if row < constraintDim \<and> col < problemDim
                                then Inr (J[row := (J ! row)[col := v]])
                                else Inl EigenAssert)))
                  sparseConstraints (Inr (replicate constraintDim (Zero problemDim)))))"

subsection \<open>estimateFootGroundContacts\<close>

text \<open>Comparison and the operations the function applies to heights and distances.\<close>

fun ext_less :: "ext \<Rightarrow> ext \<Rightarrow> bool" where
  "ext_less MInf MInf = False"
| "ext_less MInf _ = True"
| "ext_less (Fin a) (Fin b) = (a < b)"
| "ext_less (Fin a) PInf = True"
| "ext_less (Fin a) MInf = False"
| "ext_less PInf _ = False"

text \<open>\<open>y - ground\<close> for a finite \<open>y\<close>.\<close>

fun distToGround :: "s_t \<Rightarrow> ext \<Rightarrow> ext" where
  "distToGround y (Fin g) = Fin (y - g)"
| "distToGround y PInf = MInf"
| "distToGround y MInf = PInf"

fun ext_add :: "ext \<Rightarrow> s_t \<Rightarrow> ext" where
  "ext_add (Fin a) p = Fin (a + p)"
| "ext_add PInf p = PInf"
| "ext_add MInf p = MInf"

text \<open>
  The two functions of the geometry library the function calls, which are outside the
  sources: the test whether a point lies in a convex shape (in the X-Z plane) and the
  preparation (sorting) of the corners of such a shape. Corners carry extended
  coordinates, since the corners of the default plate are computed from running minima
  and maxima that start at the infinities.
\<close>

record GeometryOps =
  convex2DShapeContains :: "VectorXs \<Rightarrow> ext list list \<Rightarrow> ext list \<Rightarrow> bool"
  prepareConvex2DShape :: "ext list list \<Rightarrow> ext list \<Rightarrow> ext list list"

text \<open>
  Step 0: a ground-reaction body and its descendants that are not ground-reaction bodies
  themselves, in breadth-first order; the argument is the queue.
\<close>

function bfsContactBodies :: "BodyNode list \<Rightarrow> BodyNode list \<Rightarrow> BodyNode list" where
  "bfsContactBodies grf [] = []"
| "bfsContactBodies grf (cursor # queue) =
     cursor # bfsContactBodies grf
                (queue @ filter (\<lambda>child. child \<notin> set grf) (getChildBodyNodes cursor))"
  by pat_completeness auto
termination
proof (relation "measure (\<lambda>(grf, queue). sum_list (map size queue))")
  show "wf (measure (\<lambda>(grf, queue). sum_list (map size queue)))" by simp
next
  fix grf :: "BodyNode list" and cursor :: BodyNode and queue :: "BodyNode list"
  have le: "sum_list (map size (filter P xs)) \<le> sum_list (map size xs)"
    for P and xs :: "BodyNode list"
    by (induction xs) simp_all
  have "sum_list (map size (getChildBodyNodes cursor)) < size cursor"
    by (cases cursor) (simp add: size_list_conv_sum_list)
  then show "((grf, queue @ filter (\<lambda>child. child \<notin> set grf) (getChildBodyNodes cursor)),
              (grf, cursor # queue))
               \<in> measure (\<lambda>(grf, queue). sum_list (map size queue))"
    using le[of "\<lambda>child. child \<notin> set grf" "getChildBodyNodes cursor"] by simp
qed

text \<open>Step 1.1: the ground level and the flat-ground flag from the corners of the plates.\<close>

definition groundFromCorners :: "ForcePlate list \<Rightarrow> bool \<times> ext \<times> bool" where
  "groundFromCorners plates =
     fold (\<lambda>forcePlate st.
             fold (\<lambda>corner (noGroundCorners, ground, flat).
                     if noGroundCorners then (False, Fin (corner ! 1), flat)
                     else
                       (case ground of
                          Fin g \<Rightarrow>
                            if \<bar>g - corner ! 1\<bar> < 1 / 100000000
                            then (noGroundCorners, ground, False)
                            else (noGroundCorners, ground, flat)
                        | _ \<Rightarrow> (noGroundCorners, ground, flat)))
               (corners forcePlate) st)
       plates (True, PInf, True)"

text \<open>Step 1.2: without corners, the lowest center of pressure.\<close>

definition groundFromCOP :: "ForcePlate list \<Rightarrow> nat \<Rightarrow> bool \<times> ext \<Rightarrow> bool \<times> ext" where
  "groundFromCOP plates cols st =
     fold (\<lambda>t st.
             fold (\<lambda>forcePlate (noGroundCorners, ground).
                     (let height = centersOfPressure forcePlate ! t ! 1
                      in if noGroundCorners then (False, Fin height)
                         else if ext_less (Fin height) ground then (noGroundCorners, Fin height)
                         else (noGroundCorners, ground)))
               plates st)
       [0..<cols] st"

definition footActive :: "DynamicsInitialization \<Rightarrow> nat \<Rightarrow> nat \<Rightarrow> nat \<Rightarrow> bool" where
  "footActive init trial t b =
     (squaredNorm (segment (grfTrials init ! trial ! t) (b * 6) 6) > 1 / 1000)"

text \<open>The height of contact body \<open>c\<close> of ground-reaction body \<open>b\<close> above the ground.\<close>

definition contactDist ::
  "SkelOps \<Rightarrow> Skeleton \<Rightarrow> DynamicsInitialization \<Rightarrow> ext \<Rightarrow> nat \<Rightarrow> nat \<Rightarrow> ext" where
  "contactDist ops s init ground b c =
     (let body = contactBodies init ! b ! c;
          worldPos = bodyWorldPosition ops s (getIndexInSkeleton body)
      in distToGround (worldPos ! 1) ground)"

text \<open>
  Step 2: the contact spheres grow until every frame with an active force has its lowest
  contact body in contact. \<open>closestBody\<close> is \<open>None\<close> for the source's \<open>-1\<close>, which a
  ground-reaction body with an empty list of contact bodies would leave; step 0 puts the
  body itself into its list.
\<close>

definition growSpheres ::
  "SkelOps \<Rightarrow> DynamicsInitialization \<Rightarrow> nat \<Rightarrow> ext \<Rightarrow> nat
     \<Rightarrow> Skeleton \<times> s_t list list \<Rightarrow> Skeleton \<times> s_t list list" where
  "growSpheres ops init trial ground t st =
     (case st of (s, sizes) \<Rightarrow>
      (let s = setPositions s (poseTrials init ! trial ! t)
       in (s,
           fold (\<lambda>b sizes.
                   if footActive init trial t b then
                     (case fold (\<lambda>c (minDist, closestBody).
                                   (let dist = contactDist ops s init ground b c
                                    in if ext_less dist minDist then (dist, Some c)
                                       else (minDist, closestBody)))
                             [0..<length (contactBodies init ! b)] (PInf, None) of
                        (minDist, Some closestBody) \<Rightarrow>
                          (case minDist of
                             Fin m \<Rightarrow>
                               if sizes ! b ! closestBody < m
                               then sizes[b := (sizes ! b)[closestBody := m]]
                               else sizes
                           | _ \<Rightarrow> sizes)
                      | (minDist, None) \<Rightarrow> sizes)
                   else sizes)
             [0..<length (grfBodyNodes init)] sizes)))"

text \<open>Step 3: the default plate, the padded bounding box of all centers of pressure.\<close>

definition defaultCornersOf :: "ForcePlate list \<Rightarrow> nat \<Rightarrow> ext \<Rightarrow> ext list list" where
  "defaultCornersOf plates cols ground =
     (if list_ex (\<lambda>forcePlate. length (corners forcePlate) = 0) plates then
        (case fold (\<lambda>t st.
                      fold (\<lambda>forcePlate (minX, maxX, minZ, maxZ).
                              (let cop = centersOfPressure forcePlate ! t;
                                   minX = (if ext_less (Fin (cop ! 0)) minX then Fin (cop ! 0)
                                           else minX);
                                   maxX = (if ext_less maxX (Fin (cop ! 0)) then Fin (cop ! 0)
                                           else maxX);
                                   minZ = (if ext_less (Fin (cop ! 2)) minZ then Fin (cop ! 2)
                                           else minZ);
                                   maxZ = (if ext_less maxZ (Fin (cop ! 2)) then Fin (cop ! 2)
                                           else maxZ)
                               in (minX, maxX, minZ, maxZ)))
                        plates st)
                [0..<cols] (PInf, MInf, PInf, MInf) of
           (minX, maxX, minZ, maxZ) \<Rightarrow>
             (let padding = 1 / 10;
                  minX = ext_add minX (- padding);
                  maxX = ext_add maxX padding;
                  minZ = ext_add minZ (- padding);
                  maxZ = ext_add maxZ padding
              in [[minX, ground, minZ], [minX, ground, maxZ],
                  [maxX, ground, maxZ], [maxX, ground, minZ]]))
      else [])"

text \<open>
  Step 4, one frame and one ground-reaction body: whether the sphere of some contact body
  reaches the ground, and whether some contact body lies over a plate with corners or over
  the default plate of the trial. The loops of the source leave at the first hit.
\<close>

definition sphereInContact ::
  "SkelOps \<Rightarrow> Skeleton \<Rightarrow> DynamicsInitialization \<Rightarrow> ext \<Rightarrow> s_t list list \<Rightarrow> nat \<Rightarrow> bool" where
  "sphereInContact ops s init ground sizes b =
     list_ex (\<lambda>c. ext_less (contactDist ops s init ground b c) (Fin (sizes ! b ! c)))
       [0..<length (contactBodies init ! b)]"

definition bodyInPlate ::
  "SkelOps \<Rightarrow> GeometryOps \<Rightarrow> Skeleton \<Rightarrow> DynamicsInitialization \<Rightarrow> nat \<Rightarrow> nat \<Rightarrow> nat \<Rightarrow> bool" where
  "bodyInPlate ops geo s init trial b c =
     (let body = contactBodies init ! b ! c;
          worldPos = bodyWorldPosition ops s (getIndexInSkeleton body)
      in list_ex (\<lambda>plate. length (corners plate) > 0
                    \<and> convex2DShapeContains geo worldPos (map (map Fin) (corners plate))
                          (map Fin (worldOrigin plate)))
           (forcePlateTrials init ! trial)
         \<or> (length (defaultForcePlateCorners init ! trial) > 0
              \<and> convex2DShapeContains geo worldPos (defaultForcePlateCorners init ! trial)
                    (defaultForcePlateCorners init ! trial ! 0)))"

definition anyInPlate ::
  "SkelOps \<Rightarrow> GeometryOps \<Rightarrow> Skeleton \<Rightarrow> DynamicsInitialization \<Rightarrow> nat \<Rightarrow> nat \<Rightarrow> bool" where
  "anyInPlate ops geo s init trial b =
     list_ex (bodyInPlate ops geo s init trial b) [0..<length (contactBodies init ! b)]"

definition contactIsSus ::
  "SkelOps \<Rightarrow> GeometryOps \<Rightarrow> Skeleton \<Rightarrow> DynamicsInitialization \<Rightarrow> ext \<Rightarrow> s_t list list
     \<Rightarrow> nat \<Rightarrow> nat \<Rightarrow> nat \<Rightarrow> bool" where
  "contactIsSus ops geo s init ground sizes trial t b =
     (let inContact = sphereInContact ops s init ground sizes b
      in if inContact \<and> \<not> footActive init trial t b
         then \<not> anyInPlate ops geo s init trial b
         else False)"

text \<open>
  One trial. The flags of a frame are computed with the skeleton at the pose of that frame;
  the skeleton is left at the last pose. \<open>sortedForcePlateCorners\<close> is a local of the
  source that nothing reads, and is left out.
\<close>

definition estimateTrial ::
  "SkelOps \<Rightarrow> GeometryOps \<Rightarrow> nat \<Rightarrow> Skeleton \<times> DynamicsInitialization
     \<Rightarrow> Skeleton \<times> DynamicsInitialization" where
  "estimateTrial ops geo trial st =
     (case st of (s, init) \<Rightarrow>
      (let plates = forcePlateTrials init ! trial;
           cols = length (poseTrials init ! trial);
           (noGroundCorners, ground, flat) = groundFromCorners plates;
           (noGroundCorners, ground) =
             (if noGroundCorners then groundFromCOP plates cols (noGroundCorners, ground)
              else (noGroundCorners, ground));
           grfContactSphereSizes =
             map (\<lambda>b. replicate (length (contactBodies init ! b)) 0)
               [0..<length (contactBodies init)];
           (s, grfContactSphereSizes) =
             fold (growSpheres ops init trial ground) [0..<cols]
               (s, grfContactSphereSizes);
           init = init\<lparr>grfBodyContactSphereRadius :=
                          grfBodyContactSphereRadius init @ [grfContactSphereSizes],
                        groundHeight := groundHeight init @ [ground],
                        flatGround := flatGround init @ [flat]\<rparr>;
           defaultCorners = defaultCornersOf plates cols ground;
           init = init\<lparr>defaultForcePlateCorners :=
                          defaultForcePlateCorners init @ [defaultCorners]\<rparr>;
           init = (if length (defaultForcePlateCorners init ! trial) > 0
                   then init\<lparr>defaultForcePlateCorners :=
                          (defaultForcePlateCorners init)
                            [trial := prepareConvex2DShape geo
                                        (defaultForcePlateCorners init ! trial)
                                        (defaultForcePlateCorners init ! trial ! 0)]\<rparr>
                   else init);
           pose = (\<lambda>t. setPositions s (poseTrials init ! trial ! t));
           bodies = [0..<length (grfBodyNodes init)];
           trialForceActive = map (\<lambda>t. map (footActive init trial t) bodies) [0..<cols];
           trialSphereInContact =
             map (\<lambda>t. map (sphereInContact ops (pose t) init ground
                              grfContactSphereSizes) bodies) [0..<cols];
           trialOffForcePlate =
             map (\<lambda>t. map (contactIsSus ops geo (pose t) init ground
                              grfContactSphereSizes trial t) bodies) [0..<cols];
           trialAnyOffForcePlate =
             map (\<lambda>t. list_ex (contactIsSus ops geo (pose t) init ground
                                  grfContactSphereSizes trial t) bodies) [0..<cols];
           s = fold (\<lambda>t s. setPositions s (poseTrials init ! trial ! t)) [0..<cols] s
       in (s, init\<lparr>grfBodyForceActive := grfBodyForceActive init @ [trialForceActive],
                    grfBodySphereInContact :=
                      grfBodySphereInContact init @ [trialSphereInContact],
                    grfBodyOffForcePlate := grfBodyOffForcePlate init @ [trialOffForcePlate],
                    probablyMissingGRF := probablyMissingGRF init @ [trialAnyOffForcePlate]\<rparr>)))"

definition estimateFootGroundContacts ::
  "SkelOps \<Rightarrow> GeometryOps \<Rightarrow> Skeleton \<Rightarrow> DynamicsInitialization
     \<Rightarrow> Skeleton \<times> DynamicsInitialization" where
  "estimateFootGroundContacts ops geo skel init =
     (let init = fold (\<lambda>i init.
                   init\<lparr>contactBodies :=
                          contactBodies init
                            @ [bfsContactBodies (grfBodyNodes init) [grfBodyNodes init ! i]]\<rparr>)
                 [0..<length (grfBodyNodes init)] init
      in fold (estimateTrial ops geo) [0..<length (forcePlateTrials init)] (skel, init))"


section \<open>Concrete inputs\<close>

text \<open>
  A skeleton with six degrees of freedom and one scale group, whose velocities and
  accelerations differ, and skeleton operations that can be evaluated: the mass matrix is
  twice the identity, the Coriolis and gravity vector is the velocity, a contact wrench is
  its own generalized force, and a marker sits at its offset (the body frames are the world
  frame). Every other operation returns an empty result.
\<close>

definition nullOps :: SkelOps where
  "nullOps =
     \<lparr> getMassMatrix = (\<lambda>s. []),
       getCoriolisAndGravityForces = (\<lambda>s. []),
       computeTau = (\<lambda>s b w. []),
       getJacobianOfM = (\<lambda>s ddq wrt. []),
       getJacobianOfC = (\<lambda>s wrt. []),
       getJacobianOfTauWrt = (\<lambda>s b w wrt. []),
       wrtDim = (\<lambda>wrt s. 0),
       wrtGet = (\<lambda>wrt s. []),
       wrtSet = (\<lambda>wrt s v. s),
       finiteDifferenceVec = (\<lambda>f n eps ridders s. (s, [])),
       finiteDifferenceScalar = (\<lambda>f n eps ridders s. (s, [])),
       getMarkerWorldPositions = (\<lambda>s markers. concat (map snd markers)),
       getMarkerMapWorldPositions = (\<lambda>s markerMap. map_of (map (\<lambda>e. (fst e, snd (snd e))) markerMap)),
       getJointWorldPositions = (\<lambda>s js. []),
       getMarkerLossGradientWrtGroupScales = (\<lambda>s markers g. []),
       getMarkerLossGradientWrtMarkerOffsets = (\<lambda>s markers g. g),
       getMarkerLossGradientWrtJoints = (\<lambda>s markers g. []),
       getJointWorldPositionsJacobianWrtGroupScales = (\<lambda>s js. []),
       getJointWorldPositionsJacobianWrtJointPositions = (\<lambda>s js. []),
       bodyWorldPosition = (\<lambda>s b. [0, 0, 0]) \<rparr>"

definition sixOps :: SkelOps where
  "sixOps = nullOps
     \<lparr> getMassMatrix := (\<lambda>s. [[2, 0, 0, 0, 0, 0], [0, 2, 0, 0, 0, 0], [0, 0, 2, 0, 0, 0],
                              [0, 0, 0, 2, 0, 0], [0, 0, 0, 0, 2, 0], [0, 0, 0, 0, 0, 2]]),
       getCoriolisAndGravityForces := (\<lambda>s. velocities s),
       computeTau := (\<lambda>s b w. w) \<rparr>"

definition sixSkel :: Skeleton where
  "sixSkel =
     \<lparr> numDofs = 6, numScaleGroups = 1, groupScaleDim = 3,
       positions = [0, 0, 0, 0, 0, 0],
       velocities = [1, 1, 1, 1, 1, 1],
       accelerations = [0, 0, 0, 0, 0, 0],
       groupMasses = [1], groupCOMs = [0, 0, 0], groupInertias = [1, 1, 1, 0, 0, 0],
       groupScales = [1, 1, 1] \<rparr>"

text \<open>
  An initialization with nothing in it, a skeleton with one degree of freedom, and a problem
  with one marker and one trial of three frames, fresh from the constructor.
\<close>

definition emptyInit :: DynamicsInitialization where
  "emptyInit =
     \<lparr> poseTrials = [], grfTrials = [], trialTimesteps = [], forcePlateTrials = [],
       grfBodyNodes = [], markerObservationTrials = [],
       originalGroupMasses = [], originalGroupCOMs = [], originalGroupInertias = [],
       originalGroupScales = [], originalMarkerOffsets = Map.empty, originalPoses = [],
       joints = [], jointCenters = [], jointAxis = [], jointWeights = [], axisWeights = [],
       contactBodies = [], grfBodyContactSphereRadius = [], groundHeight = [],
       flatGround = [], defaultForcePlateCorners = [], grfBodyForceActive = [],
       grfBodySphereInContact = [], grfBodyOffForcePlate = [], probablyMissingGRF = [] \<rparr>"

definition oneDofSkel :: Skeleton where
  "oneDofSkel =
     \<lparr> numDofs = 1, numScaleGroups = 1, groupScaleDim = 3,
       positions = [0], velocities = [0], accelerations = [0],
       groupMasses = [1], groupCOMs = [0, 0, 0], groupInertias = [1, 1, 1, 0, 0, 0],
       groupScales = [1, 1, 1] \<rparr>"

definition roundtripProblem :: DynamicsFitProblem where
  "roundtripProblem =
     newDynamicsFitProblem
       (emptyInit\<lparr>poseTrials := [[[0], [0], [0]]], trialTimesteps := [1]\<rparr>)
       oneDofSkel [(''M'', 0, [0, 0, 0])] [] []"

section \<open>Well-formed problems and the layout of the flat vector\<close>

text \<open>
  The dimensions a problem must have for the segment assignments of \<open>flatten\<close> to be
  legal: the group vectors have the lengths the skeleton announces, a marker offset has
  three entries, and every trial has \<open>n + 2\<close> position, \<open>n + 1\<close> velocity and \<open>n\<close>
  acceleration columns of one entry per degree of freedom. \<open>wf_input\<close> states the same
  of the constructor's arguments (at least two frames per trial).
\<close>

definition wf_trial :: "nat \<Rightarrow> MatrixXs \<Rightarrow> MatrixXs \<Rightarrow> MatrixXs \<Rightarrow> bool" where
  "wf_trial dofs poses vels accs \<longleftrightarrow>
     length poses = length accs + 2 \<and> length vels = length accs + 1
     \<and> list_all (\<lambda>c. length c = dofs) poses
     \<and> list_all (\<lambda>c. length c = dofs) vels
     \<and> list_all (\<lambda>c. length c = dofs) accs"

definition wf_problem :: "DynamicsFitProblem \<Rightarrow> bool" where
  "wf_problem P \<longleftrightarrow>
     length (groupMasses (mSkeleton P)) = numScaleGroups (mSkeleton P)
     \<and> length (groupCOMs (mSkeleton P)) = numScaleGroups (mSkeleton P) * 3
     \<and> length (groupInertias (mSkeleton P)) = numScaleGroups (mSkeleton P) * 6
     \<and> length (groupScales (mSkeleton P)) = groupScaleDim (mSkeleton P)
     \<and> list_all (\<lambda>m. length (snd m) = 3) (mMarkers P)
     \<and> length (mVels P) = length (mPoses P)
     \<and> length (mAccs P) = length (mPoses P)
     \<and> list_all (\<lambda>trial. wf_trial (numDofs (mSkeleton P))
                            (mPoses P ! trial) (mVels P ! trial) (mAccs P ! trial))
          [0..<length (mPoses P)]"

definition shape_ok :: "DynamicsFitProblem \<Rightarrow> bool" where
  "shape_ok P \<longleftrightarrow>
     length (mVels P) = length (mPoses P) \<and> length (mAccs P) = length (mPoses P)
     \<and> (\<forall>j<length (mPoses P). length (mPoses P ! j) = length (mAccs P ! j) + 2
                              \<and> length (mVels P ! j) = length (mAccs P ! j) + 1)"

definition wf_input :: "DynamicsInitialization \<Rightarrow> Skeleton \<Rightarrow> MarkerMap \<Rightarrow> bool" where
  "wf_input init skeleton markerMap \<longleftrightarrow>
     length (groupMasses skeleton) = numScaleGroups skeleton
     \<and> length (groupCOMs skeleton) = numScaleGroups skeleton * 3
     \<and> length (groupInertias skeleton) = numScaleGroups skeleton * 6
     \<and> length (groupScales skeleton) = groupScaleDim skeleton
     \<and> list_all (\<lambda>e. length (snd (snd e)) = 3) markerMap
     \<and> list_all (\<lambda>inputPoses. 2 \<le> length inputPoses
                      \<and> list_all (\<lambda>c. length c = numDofs skeleton) inputPoses)
          (poseTrials init)"

text \<open>
  The states the round trip is about: a well-formed problem that has not seen a vector yet
  (as the constructor leaves it, whatever the inclusion flags have been set to), and every
  state that calls of \<open>unflatten\<close> with vectors of the problem's size lead to from there.
\<close>

inductive reachable :: "DynamicsFitProblem \<Rightarrow> bool" where
  fresh: "wf_problem P \<Longrightarrow> mLastX P = [] \<Longrightarrow> reachable P"
| unflattened: "reachable P \<Longrightarrow> length x = getProblemSize P \<Longrightarrow> reachable (unflatten P x)"

text \<open>
  What \<open>flatten\<close> writes, as a concatenation: the content of one trial, of the markers and
  of all trials, and the whole vector. \<open>written fc pre N\<close> says that the cursor state
  \<open>fc\<close> of a vector of length \<open>N\<close> has written exactly \<open>pre\<close> so far.
\<close>

definition trial_content :: "MatrixXs \<Rightarrow> MatrixXs \<Rightarrow> MatrixXs \<Rightarrow> VectorXs" where
  "trial_content poses vels accs =
     concat (map (\<lambda>t. poses ! t @ vels ! t @ accs ! t) [0..<length accs])
       @ poses ! length accs @ vels ! length accs @ poses ! (length accs + 1)"

definition markers_content :: "DynamicsFitProblem \<Rightarrow> VectorXs" where
  "markers_content P = concat (map (\<lambda>i. snd (mMarkers P ! i)) [0..<length (mMarkers P)])"

definition trials_content :: "DynamicsFitProblem \<Rightarrow> VectorXs" where
  "trials_content P =
     concat (map (\<lambda>j. trial_content (mPoses P ! j) (mVels P ! j) (mAccs P ! j))
               [0..<length (mPoses P)])"

definition flat_content :: "DynamicsFitProblem \<Rightarrow> VectorXs" where
  "flat_content P =
     (if mIncludeMasses P then groupMasses (mSkeleton P) else [])
     @ (if mIncludeCOMs P then groupCOMs (mSkeleton P) else [])
     @ (if mIncludeInertias P then groupInertias (mSkeleton P) else [])
     @ (if mIncludeBodyScales P then groupScales (mSkeleton P) else [])
     @ (if mIncludeMarkerOffsets P then markers_content P else [])
     @ (if mIncludePoses P then trials_content P else [])"

definition written :: "VectorXs \<times> nat \<Rightarrow> VectorXs \<Rightarrow> nat \<Rightarrow> bool" where
  "written fc pre N \<longleftrightarrow>
     length (fst fc) = N \<and> length pre \<le> N \<and> snd fc = length pre
     \<and> take (length pre) (fst fc) = pre"

text \<open>
  What \<open>unflatten\<close> stores, in closed form: the columns of a trial read at cursor \<open>c\<close>,
  the offsets \<open>offs\<close> of the trials, the trials and the markers after the first \<open>k\<close>
  have been read, and the whole problem after \<open>unflatten\<close> has read a new vector.
\<close>

definition uf_poses :: "nat \<Rightarrow> VectorXs \<Rightarrow> nat \<Rightarrow> nat \<Rightarrow> MatrixXs" where
  "uf_poses d x c nA =
     map (\<lambda>t. segment x (c + 3 * d * t) d) [0..<nA + 1] @ [segment x (c + 3 * d * nA + 2 * d) d]"

definition uf_vels :: "nat \<Rightarrow> VectorXs \<Rightarrow> nat \<Rightarrow> nat \<Rightarrow> MatrixXs" where
  "uf_vels d x c nA = map (\<lambda>t. segment x (c + 3 * d * t + d) d) [0..<nA + 1]"

definition uf_accs :: "nat \<Rightarrow> VectorXs \<Rightarrow> nat \<Rightarrow> nat \<Rightarrow> MatrixXs" where
  "uf_accs d x c nA = map (\<lambda>t. segment x (c + 3 * d * t + 2 * d) d) [0..<nA]"

definition offs :: "(nat \<Rightarrow> nat) \<Rightarrow> nat \<Rightarrow> nat" where
  "offs s j = sum_list (map s [0..<j])"

definition tsize :: "nat \<Rightarrow> DynamicsFitProblem \<Rightarrow> nat \<Rightarrow> nat" where
  "tsize d P j = 3 * d * (length (mAccs P ! j) + 1)"

definition uf_trials :: "nat \<Rightarrow> VectorXs \<Rightarrow> nat \<Rightarrow> nat \<Rightarrow> DynamicsFitProblem \<Rightarrow> DynamicsFitProblem" where
  "uf_trials d x c k P =
     P\<lparr>mPoses := map (\<lambda>j. if j < k then uf_poses d x (c + offs (tsize d P) j) (length (mAccs P ! j))
                            else mPoses P ! j) [0..<length (mPoses P)],
       mVels := map (\<lambda>j. if j < k then uf_vels d x (c + offs (tsize d P) j) (length (mAccs P ! j))
                            else mVels P ! j) [0..<length (mPoses P)],
       mAccs := map (\<lambda>j. if j < k then uf_accs d x (c + offs (tsize d P) j) (length (mAccs P ! j))
                            else mAccs P ! j) [0..<length (mPoses P)]\<rparr>"

definition uf_markers :: "VectorXs \<Rightarrow> nat \<Rightarrow> nat \<Rightarrow> (nat \<times> VectorXs) list \<Rightarrow> (nat \<times> VectorXs) list" where
  "uf_markers x c k ms =
     map (\<lambda>i. if i < k then (fst (ms ! i), segment x (c + 3 * i) 3) else ms ! i) [0..<length ms]"

definition uf_c5 :: "DynamicsFitProblem \<Rightarrow> nat" where
  "uf_c5 P =
     (if mIncludeMasses P then numScaleGroups (mSkeleton P) else 0)
     + (if mIncludeCOMs P then numScaleGroups (mSkeleton P) * 3 else 0)
     + (if mIncludeInertias P then numScaleGroups (mSkeleton P) * 6 else 0)
     + (if mIncludeBodyScales P then groupScaleDim (mSkeleton P) else 0)
     + (if mIncludeMarkerOffsets P then length (mMarkers P) * 3 else 0)"

definition uf_Q5 :: "DynamicsFitProblem \<Rightarrow> VectorXs \<Rightarrow> DynamicsFitProblem" where
  "uf_Q5 P x =
     (let sk = mSkeleton P; n = numScaleGroups sk;
          c1 = (if mIncludeMasses P then n else 0);
          c2 = c1 + (if mIncludeCOMs P then n * 3 else 0);
          c3 = c2 + (if mIncludeInertias P then n * 6 else 0);
          c4 = c3 + (if mIncludeBodyScales P then groupScaleDim sk else 0)
      in P\<lparr>mLastX := x,
            mSkeleton := sk
              \<lparr>groupMasses := (if mIncludeMasses P then segment x 0 n else groupMasses sk),
               groupCOMs := (if mIncludeCOMs P then segment x c1 (n * 3) else groupCOMs sk),
               groupInertias :=
                 (if mIncludeInertias P then segment x c2 (n * 6) else groupInertias sk),
               groupScales :=
                 (if mIncludeBodyScales P then segment x c3 (groupScaleDim sk)
                  else groupScales sk)\<rparr>,
            mMarkers := (if mIncludeMarkerOffsets P
                         then uf_markers x c4 (length (mMarkers P)) (mMarkers P)
                         else mMarkers P)\<rparr>)"

definition uf_result :: "DynamicsFitProblem \<Rightarrow> VectorXs \<Rightarrow> DynamicsFitProblem" where
  "uf_result P x =
     (let sk = mSkeleton P; n = numScaleGroups sk;
          c1 = (if mIncludeMasses P then n else 0);
          c2 = c1 + (if mIncludeCOMs P then n * 3 else 0);
          c3 = c2 + (if mIncludeInertias P then n * 6 else 0);
          c4 = c3 + (if mIncludeBodyScales P then groupScaleDim sk else 0);
          c5 = c4 + (if mIncludeMarkerOffsets P then length (mMarkers P) * 3 else 0);
          Q5 = P\<lparr>mLastX := x,
                 mSkeleton := sk
                   \<lparr>groupMasses := (if mIncludeMasses P then segment x 0 n else groupMasses sk),
                    groupCOMs := (if mIncludeCOMs P then segment x c1 (n * 3) else groupCOMs sk),
                    groupInertias :=
                      (if mIncludeInertias P then segment x c2 (n * 6) else groupInertias sk),
                    groupScales :=
                      (if mIncludeBodyScales P then segment x c3 (groupScaleDim sk)
                       else groupScales sk)\<rparr>,
                 mMarkers := (if mIncludeMarkerOffsets P
                              then uf_markers x c4 (length (mMarkers P)) (mMarkers P)
                              else mMarkers P)\<rparr>
      in if mIncludePoses P then uf_trials (numDofs sk) x c5 (length (mPoses P)) Q5 else Q5)"









text \<open>
  Two trials of two frames each on the one-dof skeleton, with only the poses included:
  no trial has an acceleration timestep, and each has its trailing velocity block.
\<close>

definition twoTrialInit :: DynamicsInitialization where
  "twoTrialInit = emptyInit
     \<lparr> poseTrials := [[[1], [2]], [[3], [5]]],
       trialTimesteps := [1, 1],
       probablyMissingGRF := [[False, False], [False, False]] \<rparr>"

definition twoTrialProblem :: DynamicsFitProblem where
  "twoTrialProblem =
     setIncludeMarkerOffsets
       (setIncludeBodyScales
          (setIncludeInertias
             (setIncludeCOMs
                (setIncludeMasses (newDynamicsFitProblem twoTrialInit oneDofSkel [] [] []) False)
                False)
             False)
          False)
       False"

text \<open>
  What the function records for one frame of one trial, read off its result: the
  force-active flags are the thresholded wrenches, and the frame is flagged in
  \<open>probablyMissingGRF\<close> exactly when some ground-reaction body has a sphere in contact, no
  active force and no contact body over a plate.
\<close>

definition frameFlagsOK ::
  "SkelOps \<Rightarrow> GeometryOps \<Rightarrow> Skeleton \<Rightarrow> DynamicsInitialization \<Rightarrow> nat \<Rightarrow> nat \<Rightarrow> bool" where
  "frameFlagsOK ops geo skel I trial t \<longleftrightarrow>
     grfBodyForceActive I ! trial ! t
       = map (footActive I trial t) [0..<length (grfBodyNodes I)]
     \<and> probablyMissingGRF I ! trial ! t
       = list_ex (\<lambda>b. grfBodySphereInContact I ! trial ! t ! b
                       \<and> \<not> footActive I trial t b
                       \<and> \<not> anyInPlate ops geo (setPositions skel (poseTrials I ! trial ! t))
                              I trial b)
           [0..<length (grfBodyNodes I)]"

text \<open>The inputs of the function, which it never writes.\<close>

definition sameInputs :: "DynamicsInitialization \<Rightarrow> DynamicsInitialization \<Rightarrow> bool" where
  "sameInputs I J \<longleftrightarrow>
     poseTrials J = poseTrials I \<and> grfTrials J = grfTrials I
     \<and> forcePlateTrials J = forcePlateTrials I \<and> grfBodyNodes J = grfBodyNodes I
     \<and> contactBodies J = contactBodies I"

text \<open>The entries of trial \<open>j\<close> in the vectors the function appends to.\<close>

definition sameTrial :: "DynamicsInitialization \<Rightarrow> DynamicsInitialization \<Rightarrow> nat \<Rightarrow> bool" where
  "sameTrial I J j \<longleftrightarrow>
     defaultForcePlateCorners J ! j = defaultForcePlateCorners I ! j
     \<and> grfBodyForceActive J ! j = grfBodyForceActive I ! j
     \<and> grfBodySphereInContact J ! j = grfBodySphereInContact I ! j
     \<and> probablyMissingGRF J ! j = probablyMissingGRF I ! j"

definition trialsDone :: "DynamicsInitialization \<Rightarrow> nat \<Rightarrow> bool" where
  "trialsDone I k \<longleftrightarrow>
     length (defaultForcePlateCorners I) = k \<and> length (grfBodyForceActive I) = k
     \<and> length (grfBodySphereInContact I) = k \<and> length (probablyMissingGRF I) = k"

text \<open>
  A skeleton that is a single point body whose world position is the position vector, and
  a containment test that takes the bounding box of the corners in the X-Z plane.
\<close>

definition pointOps :: SkelOps where
  "pointOps = nullOps\<lparr>bodyWorldPosition := (\<lambda>s b. positions s)\<rparr>"

definition pointSkel :: Skeleton where
  "pointSkel = oneDofSkel\<lparr>numDofs := 3, positions := [0, 0, 0], velocities := [0, 0, 0],
                           accelerations := [0, 0, 0]\<rparr>"

definition boxGeo :: GeometryOps where
  "boxGeo =
     \<lparr> convex2DShapeContains =
         (\<lambda>p shape origin.
            list_ex (\<lambda>a. \<not> ext_less (Fin (p ! 0)) (a ! 0)) shape
            \<and> list_ex (\<lambda>a. \<not> ext_less (a ! 0) (Fin (p ! 0))) shape
            \<and> list_ex (\<lambda>a. \<not> ext_less (Fin (p ! 2)) (a ! 2)) shape
            \<and> list_ex (\<lambda>a. \<not> ext_less (a ! 2) (Fin (p ! 2))) shape),
       prepareConvex2DShape = (\<lambda>shape origin. shape) \<rparr>"

text \<open>
  One trial of two frames over a unit force plate at height 0. In the first frame the body
  stands on the plate at height 1/2 with a measured force; in the second it is at height
  1/4 beside the plate, without a measured force.
\<close>

definition contactInit :: DynamicsInitialization where
  "contactInit =
     emptyInit\<lparr>poseTrials := [[[1 / 2, 1 / 2, 1 / 2], [5, 1 / 4, 5]]],
                grfTrials := [[[0, 1, 0, 0, 0, 0], [0, 0, 0, 0, 0, 0]]],
                forcePlateTrials :=
                  [[\<lparr>corners = [[0, 0, 0], [1, 0, 0], [1, 0, 1], [0, 0, 1]],
                     centersOfPressure = [[1 / 2, 0, 1 / 2], [0, 0, 0]],
                     worldOrigin = [0, 0, 0]\<rparr>]],
                grfBodyNodes := [BodyNode 0 []]\<rparr>"

text \<open>
  One trial of two frames on the one-dof skeleton with a single anatomical marker \<open>M\<close>,
  observed at the origin in both frames; the original values equal those of the skeleton,
  so that every regularization term but the one of the marker offsets is zero. Only the
  marker offsets are included, and the flat vector is the offset of \<open>M\<close>. The operations
  of \<open>nullOps\<close> put the body of the marker at the origin: the world position of a marker
  is its offset, and the Jacobian of the positions with respect to the offsets is the
  identity.
\<close>

definition markerInit :: DynamicsInitialization where
  "markerInit = emptyInit
     \<lparr> poseTrials := [[[0], [0]]],
       grfTrials := [[[], []]],
       trialTimesteps := [1],
       markerObservationTrials := [[[''M'' \<mapsto> [0, 0, 0]], [''M'' \<mapsto> [0, 0, 0]]]],
       originalGroupMasses := [1],
       originalGroupCOMs := [0, 0, 0],
       originalGroupInertias := [1, 1, 1, 0, 0, 0],
       originalGroupScales := [1, 1, 1],
       originalMarkerOffsets := [''M'' \<mapsto> [0, 0, 0]],
       originalPoses := [[[0], [0]]],
       jointCenters := [[[], []]],
       jointAxis := [[[], []]],
       probablyMissingGRF := [[False, False]] \<rparr>"

definition markerProblem :: DynamicsFitProblem where
  "markerProblem =
     setIncludePoses
       (setIncludeBodyScales
          (setIncludeInertias
             (setIncludeCOMs
                (setIncludeMasses
                   (newDynamicsFitProblem markerInit oneDofSkel [(''M'', 0, [0, 0, 0])] [] [])
                   False) False) False) False) False"

text \<open>
  The quantity the gradient is tested against: the loss as a number, and its central
  difference in coordinate \<open>i\<close> with step \<open>h\<close>.
\<close>

definition lossValue :: "SkelOps \<Rightarrow> DynamicsFitProblem \<Rightarrow> VectorXs \<Rightarrow> s_t" where
  "lossValue ops P x = (case computeLoss ops P x False of Inr (P', loss) \<Rightarrow> loss | Inl e \<Rightarrow> 0)"

definition centralDifference :: "(VectorXs \<Rightarrow> s_t) \<Rightarrow> VectorXs \<Rightarrow> nat \<Rightarrow> s_t \<Rightarrow> s_t" where
  "centralDifference f x i h = (f (x[i := x ! i + h]) - f (x[i := x ! i - h])) / (2 * h)"

text \<open>
  Entry \<open>k\<close> of \<open>M(q) ddq + C(q, dq) - sum of the contact forces\<close>, written with sums
  over the degrees of freedom and over the contact bodies; \<open>s\<close> is the skeleton in the
  state \<open>(q, dq, ddq)\<close>.
\<close>

definition residual_entry ::
  "SkelOps \<Rightarrow> nat list \<Rightarrow> Skeleton \<Rightarrow> VectorXs \<Rightarrow> VectorXs \<Rightarrow> nat \<Rightarrow> s_t" where
  "residual_entry ops mForces s ddq forcesConcat k =
     (\<Sum>j<length ddq. getMassMatrix ops s ! k ! j * ddq ! j)
       + getCoriolisAndGravityForces ops s ! k
       - (\<Sum>i<length mForces.
            computeTau ops s (mForces ! i) (segment forcesConcat (i * 6) 6) ! k)"


section \<open>Vector lemmas\<close>

lemma length_vadd [simp]: "length (vadd a b) = min (length a) (length b)"
  by (simp add: vadd_def)

lemma length_vsub [simp]: "length (vsub a b) = min (length a) (length b)"
  by (simp add: vsub_def)

lemma nth_vadd: "k < length a \<Longrightarrow> k < length b \<Longrightarrow> vadd a b ! k = a ! k + b ! k"
  by (simp add: vadd_def)

lemma nth_vsub: "k < length a \<Longrightarrow> k < length b \<Longrightarrow> vsub a b ! k = a ! k - b ! k"
  by (simp add: vsub_def)

lemma dot_sum: "length a = length b \<Longrightarrow> dot a b = (\<Sum>j<length b. a ! j * b ! j)"
  by (simp add: dot_def sum_list_sum_nth atLeast0LessThan)

lemma fold_vadd_upt:
  assumes "\<forall>i<m. length (f i) = n"
  shows "length (fold (\<lambda>i Fs. vadd Fs (f i)) [0..<m] (Zero n)) = n \<and>
         (\<forall>k<n. fold (\<lambda>i Fs. vadd Fs (f i)) [0..<m] (Zero n) ! k = (\<Sum>i<m. f i ! k))"
  using assms
proof (induction m)
  case 0
  then show ?case by (simp add: Zero_def)
next
  case (Suc m)
  then show ?case by (simp add: nth_vadd)
qed

section \<open>ResidualForceHelper: the residual\<close>

text \<open>
  C4. For a skeleton with \<open>n \<ge> 6\<close> degrees of freedom, accelerations \<open>ddq\<close> of length
  \<open>n\<close>, an \<open>n \<times> n\<close> mass matrix, and Coriolis vector and contact forces of length \<open>n\<close>,
  \<open>calculateResidual\<close> returns the six first entries of
  \<open>M(q) ddq + C(q, dq) - sum of contact forces\<close>, all evaluated with the skeleton set to
  \<open>(q, dq, ddq)\<close>; contact body \<open>i\<close> reads the wrench \<open>forcesConcat.segment<6>(6 i)\<close>.
\<close>

theorem calculateResidual_value:
  assumes s1: "s1 = mSkel\<lparr>positions := q, velocities := dq, accelerations := ddq\<rparr>"
    and n: "numDofs mSkel = n" "6 \<le> n" "length ddq = n"
    and M: "length (getMassMatrix ops s1) = n"
           "\<forall>row \<in> set (getMassMatrix ops s1). length row = n"
    and C: "length (getCoriolisAndGravityForces ops s1) = n"
    and F: "\<forall>i<length mForces.
              length (computeTau ops s1 (mForces ! i) (segment forcesConcat (i * 6) 6)) = n"
  shows "snd (calculateResidual ops mForces mSkel q dq ddq forcesConcat)
           = map (residual_entry ops mForces s1 ddq forcesConcat) [0..<6]"
proof -
  let ?M = "getMassMatrix ops s1" and ?C = "getCoriolisAndGravityForces ops s1"
  let ?Fs = "sumTaus ops mForces s1 forcesConcat"
  have s1': "setAccelerations (setVelocities (setPositions mSkel q) dq) ddq = s1"
    by (simp add: s1 setAccelerations_def setVelocities_def setPositions_def)
  have nd: "numDofs s1 = n" using n by (simp add: s1)
  have Fs: "length ?Fs = n" "\<And>k. k < n \<Longrightarrow> ?Fs ! k
       = (\<Sum>i<length mForces.
            computeTau ops s1 (mForces ! i) (segment forcesConcat (i * 6) 6) ! k)"
    using fold_vadd_upt[OF F] by (simp_all add: sumTaus_def nd)
  have Mv: "length (mat_vec ?M ddq) = n" by (simp add: mat_vec_def M)
  have Mk: "\<And>k. k < n \<Longrightarrow> mat_vec ?M ddq ! k = (\<Sum>j<length ddq. ?M ! k ! j * ddq ! j)"
    using M n by (simp add: mat_vec_def dot_sum)
  have res: "snd (calculateResidual ops mForces mSkel q dq ddq forcesConcat)
        = take 6 (vsub (vadd (mat_vec ?M ddq) ?C) ?Fs)"
    by (simp add: calculateResidual_def Let_def s1')
  show ?thesis
  proof (rule nth_equalityI)
    show "length (snd (calculateResidual ops mForces mSkel q dq ddq forcesConcat))
            = length (map (residual_entry ops mForces s1 ddq forcesConcat) [0..<6])"
      using n by (simp add: res Mv C Fs)
  next
    fix k assume "k < length (snd (calculateResidual ops mForces mSkel q dq ddq forcesConcat))"
    then have k: "k < 6" by (simp add: res)
    then have kn: "k < n" using n by simp
    show "snd (calculateResidual ops mForces mSkel q dq ddq forcesConcat) ! k
            = map (residual_entry ops mForces s1 ddq forcesConcat) [0..<6] ! k"
      using k kn by (simp add: res nth_vsub nth_vadd Mv C Fs Mk residual_entry_def)
  qed
qed

lemma upt6: "[0..<6] = [0, 1, 2, 3, 4, 5::nat]"
  by (simp add: upt_rec)

theorem calculateResidual_value_witness:
  "snd (calculateResidual sixOps [0] sixSkel [0, 0, 0, 0, 0, 0] [1, 2, 3, 4, 5, 6]
          [1, 0, 0, 0, 0, 1] [1, 1, 1, 1, 1, 1]) = [2, 1, 2, 3, 4, 7]"
proof -
  have "snd (calculateResidual sixOps [0] sixSkel [0, 0, 0, 0, 0, 0] [1, 2, 3, 4, 5, 6]
          [1, 0, 0, 0, 0, 1] [1, 1, 1, 1, 1, 1])
        = map (residual_entry sixOps [0]
                 (sixSkel\<lparr>positions := [0, 0, 0, 0, 0, 0], velocities := [1, 2, 3, 4, 5, 6],
                    accelerations := [1, 0, 0, 0, 0, 1]\<rparr>) [1, 0, 0, 0, 0, 1] [1, 1, 1, 1, 1, 1])
            [0..<6]"
    by (rule calculateResidual_value[where n = 6])
       (simp_all add: sixOps_def nullOps_def sixSkel_def segment_def)
  then show ?thesis
    by (simp add: residual_entry_def sixOps_def nullOps_def upt6 lessThan_nat_numeral
          lessThan_Suc segment_def)
qed

section \<open>ResidualForceHelper: the skeleton state after a call\<close>

text \<open>
  \<open>calculateResidual\<close>, \<open>calculateResidualNorm\<close> and the two finite-difference methods
  put positions, velocities and accelerations back.
\<close>

lemma calculateResidual_state:
  "fst (calculateResidual ops mForces mSkel q dq ddq forcesConcat) = mSkel"
  by (simp add: calculateResidual_def Let_def setAccelerations_def setVelocities_def
        setPositions_def)


lemma finiteDifferenceResidualJacobianWrt_state:
  "positions (fst (finiteDifferenceResidualJacobianWrt ops mForces mSkel q dq ddq fc wrt))
     = positions mSkel
   \<and> velocities (fst (finiteDifferenceResidualJacobianWrt ops mForces mSkel q dq ddq fc wrt))
     = velocities mSkel
   \<and> accelerations (fst (finiteDifferenceResidualJacobianWrt ops mForces mSkel q dq ddq fc wrt))
     = accelerations mSkel"
  by (simp add: finiteDifferenceResidualJacobianWrt_def Let_def setAccelerations_def
        setVelocities_def setPositions_def split: prod.splits)

lemma finiteDifferenceResidualNormGradientWrt_state:
  "positions (fst (finiteDifferenceResidualNormGradientWrt ops mForces mSkel q dq ddq fc wrt l1))
     = positions mSkel
   \<and> velocities (fst (finiteDifferenceResidualNormGradientWrt ops mForces mSkel q dq ddq fc wrt l1))
     = velocities mSkel
   \<and> accelerations (fst (finiteDifferenceResidualNormGradientWrt ops mForces mSkel q dq ddq fc wrt l1))
     = accelerations mSkel"
  by (simp add: finiteDifferenceResidualNormGradientWrt_def Let_def setAccelerations_def
        setVelocities_def setPositions_def split: prod.splits)

text \<open>
  \<open>calculateResidualJacobianWrt\<close> restores positions and velocities, and writes the saved
  velocities into the accelerations, in every branch; \<open>calculateResidualNormGradientWrt\<close>
  ends with that call.
\<close>

lemma calculateResidualJacobianWrt_state:
  "positions (fst (calculateResidualJacobianWrt ops mForces mSkel q dq ddq fc wrt))
     = positions mSkel
   \<and> velocities (fst (calculateResidualJacobianWrt ops mForces mSkel q dq ddq fc wrt))
     = velocities mSkel
   \<and> accelerations (fst (calculateResidualJacobianWrt ops mForces mSkel q dq ddq fc wrt))
     = velocities mSkel"
  by (simp add: calculateResidualJacobianWrt_def Let_def setAccelerations_def
        setVelocities_def setPositions_def split: prod.splits)

lemma calculateResidualNormGradientWrt_state:
  "accelerations (fst (calculateResidualNormGradientWrt ops mForces mSkel q dq ddq fc wrt l1))
     = velocities mSkel"
proof -
  obtain s1 res where r: "calculateResidual ops mForces mSkel q dq ddq fc = (s1, res)"
    by (cases "calculateResidual ops mForces mSkel q dq ddq fc")
  then have s1: "s1 = mSkel"
    using calculateResidual_state[of ops mForces mSkel q dq ddq fc] by simp
  obtain s2 jac where j: "calculateResidualJacobianWrt ops mForces s1 q dq ddq fc wrt = (s2, jac)"
    by (cases "calculateResidualJacobianWrt ops mForces s1 q dq ddq fc wrt")
  then have "accelerations s2 = velocities mSkel"
    using calculateResidualJacobianWrt_state[of ops mForces s1 q dq ddq fc wrt] s1 by simp
  then show ?thesis
    by (simp add: calculateResidualNormGradientWrt_def r j)
qed

text \<open>
  C5 (fails on the code). On the six-dof skeleton, whose velocities are all \<open>1\<close> and whose
  accelerations are all \<open>0\<close>, \<open>calculateResidualJacobianWrt\<close> with respect to the
  accelerations returns the skeleton with its accelerations overwritten by its velocities:
  the state after the call is not the state before it.
\<close>

theorem calculateResidualJacobianWrt_clobbers_accelerations:
  "fst (calculateResidualJacobianWrt sixOps [0] sixSkel [0, 0, 0, 0, 0, 0] [1, 2, 3, 4, 5, 6]
          [1, 0, 0, 0, 0, 1] [1, 1, 1, 1, 1, 1] ACCELERATION)
     = sixSkel\<lparr>accelerations := velocities sixSkel\<rparr>
   \<and> accelerations (fst (calculateResidualJacobianWrt sixOps [0] sixSkel [0, 0, 0, 0, 0, 0]
          [1, 2, 3, 4, 5, 6] [1, 0, 0, 0, 0, 1] [1, 1, 1, 1, 1, 1] ACCELERATION))
       \<noteq> accelerations sixSkel"
  by (simp add: calculateResidualJacobianWrt_def Let_def setAccelerations_def
        setVelocities_def setPositions_def sixSkel_def)

section \<open>runOptimization: the weights\<close>

text \<open>
  C10. The residual weight handed to the problem is the argument squared when the
  problem's residual L1 flag is false and the argument itself when it is true, and the same
  holds for the marker weight and the marker L1 flag. The problem \<open>runOptimization\<close>
  builds comes fresh from the constructor, where both flags are false, so the problem it
  hands to the solver carries the squares of both arguments.
\<close>

theorem runOptimization_weights:
  "mResidualWeight (runOptimization_setWeights p rw mw)
     = (if mResidualUseL1 p then rw else rw * rw)
   \<and> mMarkerWeight (runOptimization_setWeights p rw mw)
     = (if mMarkerUseL1 p then mw else mw * mw)
   \<and> map_option (\<lambda>q. (mResidualUseL1 q, mResidualWeight q, mMarkerUseL1 q, mMarkerWeight q))
        (runOptimization_problem fitter True init rw mw a b c d e f)
       = Some (False, rw * rw, False, mw * mw)"
  by (simp add: runOptimization_setWeights_def runOptimization_problem_def Let_def
        setResidualWeight_def setMarkerWeight_def newDynamicsFitProblem_def
        setIncludeMasses_def setIncludeCOMs_def setIncludeInertias_def setIncludeBodyScales_def
        setIncludePoses_def setIncludeMarkerOffsets_def)

section \<open>The flat vector: flatten and unflatten\<close>

lemma segment_append: "segment x c a @ segment x (c + a) b = segment x c (a + b)"
  by (simp add: segment_def take_add add.commute)

lemma length_segment: "c + n \<le> length x \<Longrightarrow> length (segment x c n) = n"
  by (simp add: segment_def)

lemma segment_all: "segment x 0 (length x) = x"
  by (simp add: segment_def)

lemma concat_segments:
  "concat (map (\<lambda>i. segment x (c + k * i) k) [0..<m]) = segment x c (k * m)"
proof (induction m)
  case 0
  then show ?case by (simp add: segment_def)
next
  case (Suc m)
  have "segment x c (k * m) @ segment x (c + k * m) k = segment x c (k * m + k)"
    by (rule segment_append)
  with Suc show ?case by (simp add: add.commute)
qed

lemma written_write_segment:
  assumes "written fc pre N" "length v = k" "length pre + k \<le> N"
  shows "written (write_segment fc k v) (pre @ v) N"
proof -
  obtain flat c where fc: "fc = (flat, c)" by (cases fc)
  from assms(1) have l: "length flat = N" and c: "c = length pre"
    and t: "take (length pre) flat = pre"
    by (simp_all add: written_def fc)
  have c_le: "length pre \<le> length flat" using assms(3) l by simp
  have "length (set_segment flat (length pre) v) = N"
    using assms l by (simp add: set_segment_def)
  moreover have "take (length pre + k) (set_segment flat (length pre) v) = pre @ v"
    using assms(2) c_le t by (simp add: set_segment_def)
  ultimately show ?thesis
    using c assms(2,3) by (simp add: written_def write_segment_def fc)
qed

lemma written_final:
  assumes "written fc pre N" "length pre = N"
  shows "fst fc = pre"
proof -
  from assms have "take (length (fst fc)) (fst fc) = pre"
    by (simp add: written_def)
  then show ?thesis by simp
qed

lemma written_init: "written (Zero N, 0) [] N"
  by (simp add: written_def Zero_def)

lemma wf_trial_cols:
  assumes "wf_trial d poses vels accs"
  shows "\<And>t. t < length accs + 2 \<Longrightarrow> length (poses ! t) = d"
    and "\<And>t. t < length accs + 1 \<Longrightarrow> length (vels ! t) = d"
    and "\<And>t. t < length accs \<Longrightarrow> length (accs ! t) = d"
  using assms by (auto simp: wf_trial_def list_all_length)

lemma length_frames:
  assumes "wf_trial d poses vels accs" "k \<le> length accs"
  shows "length (concat (map (\<lambda>t. poses ! t @ vels ! t @ accs ! t) [0..<k])) = 3 * d * k"
  using assms(2)
proof (induction k)
  case 0
  then show ?case by simp
next
  case (Suc k)
  then show ?case using wf_trial_cols[OF assms(1)] by (simp add: algebra_simps)
qed

lemma length_trial_content:
  assumes "wf_trial d poses vels accs"
  shows "length (trial_content poses vels accs) = 3 * d * length accs + 3 * d"
  using length_frames[OF assms, of "length accs"] wf_trial_cols[OF assms]
  by (simp add: trial_content_def)

lemma flatten_frames_written:
  assumes w: "written fc pre N" and wf: "wf_trial d poses vels accs"
    and k: "k \<le> length accs" and N: "length pre + 3 * d * k \<le> N"
  shows "written (fold (\<lambda>t fc.
                  (let fc = write_segment fc d (poses ! t);
                       fc = write_segment fc d (vels ! t);
                       fc = write_segment fc d (accs ! t)
                   in fc)) [0..<k] fc)
           (pre @ concat (map (\<lambda>t. poses ! t @ vels ! t @ accs ! t) [0..<k])) N"
  using k N
proof (induction k)
  case 0
  then show ?case using w by simp
next
  case (Suc k)
  let ?pre = "pre @ concat (map (\<lambda>t. poses ! t @ vels ! t @ accs ! t) [0..<k])"
  let ?fc = "fold (\<lambda>t fc.
                  (let fc = write_segment fc d (poses ! t);
                       fc = write_segment fc d (vels ! t);
                       fc = write_segment fc d (accs ! t)
                   in fc)) [0..<k] fc"
  have kk: "k < length accs" using Suc.prems by simp
  have IH: "written ?fc ?pre N" using Suc by simp
  have lp: "length ?pre = length pre + 3 * d * k"
    using length_frames[OF wf, of k] kk by simp
  have cols: "length (poses ! k) = d" "length (vels ! k) = d" "length (accs ! k) = d"
    using wf_trial_cols[OF wf] kk by simp_all
  have 1: "written (write_segment ?fc d (poses ! k)) (?pre @ poses ! k) N"
    using written_write_segment[OF IH cols(1)] lp Suc.prems by simp
  have 2: "written (write_segment (write_segment ?fc d (poses ! k)) d (vels ! k))
             ((?pre @ poses ! k) @ vels ! k) N"
    using written_write_segment[OF 1 cols(2)] lp cols Suc.prems by simp
  have 3: "written (write_segment (write_segment (write_segment ?fc d (poses ! k)) d (vels ! k))
               d (accs ! k))
             (((?pre @ poses ! k) @ vels ! k) @ accs ! k) N"
    using written_write_segment[OF 2 cols(3)] lp cols Suc.prems by simp
  then show ?case by (simp add: Let_def)
qed

lemma flatten_trial_written:
  assumes w: "written fc pre N" and wf: "wf_trial d poses vels accs"
    and N: "length pre + (3 * d * length accs + 3 * d) \<le> N"
  shows "written (flatten_trial d poses vels accs fc) (pre @ trial_content poses vels accs) N"
proof -
  let ?pre = "pre @ concat (map (\<lambda>t. poses ! t @ vels ! t @ accs ! t) [0..<length accs])"
  let ?fc = "fold (\<lambda>t fc.
                  (let fc = write_segment fc d (poses ! t);
                       fc = write_segment fc d (vels ! t);
                       fc = write_segment fc d (accs ! t)
                   in fc)) [0..<length accs] fc"
  have 0: "written ?fc ?pre N"
    using flatten_frames_written[OF w wf, of "length accs"] N by simp
  have lp: "length ?pre = length pre + 3 * d * length accs"
    using length_frames[OF wf, of "length accs"] by simp
  have cols: "length (poses ! length accs) = d" "length (vels ! length accs) = d"
    "length (poses ! (length accs + 1)) = d"
    using wf_trial_cols[OF wf] by simp_all
  have 1: "written (write_segment ?fc d (poses ! length accs)) (?pre @ poses ! length accs) N"
    using written_write_segment[OF 0 cols(1)] lp N by simp
  have 2: "written (write_segment (write_segment ?fc d (poses ! length accs)) d
                      (vels ! length accs))
             ((?pre @ poses ! length accs) @ vels ! length accs) N"
    using written_write_segment[OF 1 cols(2)] lp cols N by simp
  have 3: "written (write_segment (write_segment (write_segment ?fc d (poses ! length accs)) d
                      (vels ! length accs)) d (poses ! (length accs + 1)))
             (((?pre @ poses ! length accs) @ vels ! length accs) @ poses ! (length accs + 1)) N"
    using written_write_segment[OF 2 cols(3)] lp cols N by simp
  then show ?thesis by (simp add: flatten_trial_def Let_def trial_content_def)
qed

lemma fold_add_sum_list:
  "fold (\<lambda>j (s::nat). s + g j + h j) xs s0 = s0 + sum_list (map (\<lambda>j. g j + h j) xs)"
  by (induction xs arbitrary: s0) (simp_all add: add.assoc)

lemma wf_problem_trial:
  "wf_problem P \<Longrightarrow> j < length (mPoses P) \<Longrightarrow>
     wf_trial (numDofs (mSkeleton P)) (mPoses P ! j) (mVels P ! j) (mAccs P ! j)"
  by (simp add: wf_problem_def list_all_length)

lemma wf_problem_marker:
  "wf_problem P \<Longrightarrow> i < length (mMarkers P) \<Longrightarrow> length (snd (mMarkers P ! i)) = 3"
  by (simp add: wf_problem_def list_all_length)

lemma length_markers_prefix:
  assumes "wf_problem P" "k \<le> length (mMarkers P)"
  shows "length (concat (map (\<lambda>i. snd (mMarkers P ! i)) [0..<k])) = 3 * k"
  using assms(2)
  by (induction k) (simp_all add: wf_problem_marker[OF assms(1)])

lemma length_markers_content:
  "wf_problem P \<Longrightarrow> length (markers_content P) = length (mMarkers P) * 3"
  using length_markers_prefix[of P "length (mMarkers P)"] by (simp add: markers_content_def)

lemma length_trials_prefix:
  assumes "wf_problem P" "k \<le> length (mPoses P)"
  shows "length (concat (map (\<lambda>j. trial_content (mPoses P ! j) (mVels P ! j) (mAccs P ! j))
                      [0..<k]))
         = sum_list (map (\<lambda>j. length (mAccs P ! j) * numDofs (mSkeleton P) * 3
                               + numDofs (mSkeleton P) * 3) [0..<k])"
  using assms(2)
proof (induction k)
  case 0
  then show ?case by simp
next
  case (Suc k)
  then show ?case
    using length_trial_content[OF wf_problem_trial[OF assms(1), of k]]
    by (simp add: algebra_simps)
qed

lemma getProblemSize_content:
  assumes "wf_problem P"
  shows "getProblemSize P = length (flat_content P)"
proof -
  have wf: "length (groupMasses (mSkeleton P)) = numScaleGroups (mSkeleton P)"
     "length (groupCOMs (mSkeleton P)) = numScaleGroups (mSkeleton P) * 3"
     "length (groupInertias (mSkeleton P)) = numScaleGroups (mSkeleton P) * 6"
     "length (groupScales (mSkeleton P)) = groupScaleDim (mSkeleton P)"
    using assms by (simp_all add: wf_problem_def)
  have t: "length (trials_content P)
      = sum_list (map (\<lambda>j. length (mAccs P ! j) * numDofs (mSkeleton P) * 3
                               + numDofs (mSkeleton P) * 3) [0..<length (mPoses P)])"
    using length_trials_prefix[OF assms, of "length (mPoses P)"]
    by (simp add: trials_content_def)
  show ?thesis
    by (simp add: getProblemSize_def flat_content_def Let_def fold_add_sum_list wf t
          length_markers_content[OF assms])
qed

lemma flatten_markers_written:
  assumes w: "written fc pre N" and wf: "wf_problem P"
    and k: "k \<le> length (mMarkers P)" and N: "length pre + 3 * k \<le> N"
  shows "written (fold (\<lambda>i fc. write_segment fc 3 (snd (mMarkers P ! i))) [0..<k] fc)
           (pre @ concat (map (\<lambda>i. snd (mMarkers P ! i)) [0..<k])) N"
  using k N
proof (induction k)
  case 0
  then show ?case using w by simp
next
  case (Suc k)
  let ?pre = "pre @ concat (map (\<lambda>i. snd (mMarkers P ! i)) [0..<k])"
  let ?fc = "fold (\<lambda>i fc. write_segment fc 3 (snd (mMarkers P ! i))) [0..<k] fc"
  have IH: "written ?fc ?pre N" using Suc by simp
  have lp: "length ?pre = length pre + 3 * k"
    using length_markers_prefix[OF wf, of k] Suc.prems by simp
  have l3: "length (snd (mMarkers P ! k)) = 3"
    using wf_problem_marker[OF wf, of k] Suc.prems by simp
  have "written (write_segment ?fc 3 (snd (mMarkers P ! k))) (?pre @ snd (mMarkers P ! k)) N"
    using written_write_segment[OF IH l3] lp Suc.prems by simp
  then show ?case by simp
qed

lemma flatten_trials_written:
  assumes w: "written fc pre N" and wf: "wf_problem P"
    and k: "k \<le> length (mPoses P)"
    and N: "length pre + length (concat (map (\<lambda>j. trial_content (mPoses P ! j) (mVels P ! j)
               (mAccs P ! j)) [0..<k])) \<le> N"
  shows "written (fold (\<lambda>trial fc. flatten_trial (numDofs (mSkeleton P))
                                         (mPoses P ! trial) (mVels P ! trial) (mAccs P ! trial) fc)
                    [0..<k] fc)
           (pre @ concat (map (\<lambda>j. trial_content (mPoses P ! j) (mVels P ! j) (mAccs P ! j))
                            [0..<k])) N"
  using k N
proof (induction k)
  case 0
  then show ?case using w by simp
next
  case (Suc k)
  let ?pre = "pre @ concat (map (\<lambda>j. trial_content (mPoses P ! j) (mVels P ! j) (mAccs P ! j))
                            [0..<k])"
  let ?fc = "fold (\<lambda>trial fc. flatten_trial (numDofs (mSkeleton P))
                                         (mPoses P ! trial) (mVels P ! trial) (mAccs P ! trial) fc)
                    [0..<k] fc"
  have wt: "wf_trial (numDofs (mSkeleton P)) (mPoses P ! k) (mVels P ! k) (mAccs P ! k)"
    using wf_problem_trial[OF wf, of k] Suc.prems by simp
  have IH: "written ?fc ?pre N" using Suc by simp
  have "written (flatten_trial (numDofs (mSkeleton P)) (mPoses P ! k) (mVels P ! k)
                   (mAccs P ! k) ?fc)
          (?pre @ trial_content (mPoses P ! k) (mVels P ! k) (mAccs P ! k)) N"
    using flatten_trial_written[OF IH wt] Suc.prems(2) length_trial_content[OF wt]
    by simp
  then show ?case by simp
qed

lemma written_if:
  assumes "written fc pre N" "b \<Longrightarrow> written (f fc) (pre @ v) N"
  shows "written (if b then f fc else fc) (pre @ (if b then v else [])) N"
  using assms by simp

lemma flatten_content:
  assumes wf: "wf_problem P"
  shows "flatten P = flat_content P"
proof -
  let ?N = "getProblemSize P"
  let ?sk = "mSkeleton P"
  have N: "?N = length (flat_content P)" by (rule getProblemSize_content[OF wf])
  have lens: "length (groupMasses ?sk) = numScaleGroups ?sk"
     "length (groupCOMs ?sk) = numScaleGroups ?sk * 3"
     "length (groupInertias ?sk) = numScaleGroups ?sk * 6"
     "length (groupScales ?sk) = groupScaleDim ?sk"
    using wf by (simp_all add: wf_problem_def)
  define p1 where "p1 = (if mIncludeMasses P then groupMasses ?sk else [])"
  define p2 where "p2 = p1 @ (if mIncludeCOMs P then groupCOMs ?sk else [])"
  define p3 where "p3 = p2 @ (if mIncludeInertias P then groupInertias ?sk else [])"
  define p4 where "p4 = p3 @ (if mIncludeBodyScales P then groupScales ?sk else [])"
  define p5 where "p5 = p4 @ (if mIncludeMarkerOffsets P then markers_content P else [])"
  define p6 where "p6 = p5 @ (if mIncludePoses P then trials_content P else [])"
  have p6: "p6 = flat_content P"
    by (simp add: p6_def p5_def p4_def p3_def p2_def p1_def flat_content_def)
  have le: "length p1 \<le> ?N" "length p2 \<le> ?N" "length p3 \<le> ?N" "length p4 \<le> ?N"
      "length p5 \<le> ?N" "length p6 = ?N"
    unfolding N p6[symmetric] by (simp_all add: p6_def p5_def p4_def p3_def p2_def)
  define f0 :: "VectorXs \<times> nat" where "f0 = (Zero ?N, 0)"
  define f1 where "f1 = (if mIncludeMasses P
                then write_segment f0 (numScaleGroups ?sk) (groupMasses ?sk) else f0)"
  define f2 where "f2 = (if mIncludeCOMs P
                then write_segment f1 (numScaleGroups ?sk * 3) (groupCOMs ?sk) else f1)"
  define f3 where "f3 = (if mIncludeInertias P
                then write_segment f2 (numScaleGroups ?sk * 6) (groupInertias ?sk) else f2)"
  define f4 where "f4 = (if mIncludeBodyScales P
                then write_segment f3 (groupScaleDim ?sk) (groupScales ?sk) else f3)"
  define f5 where "f5 = (if mIncludeMarkerOffsets P
                then fold (\<lambda>i fc. write_segment fc 3 (snd (mMarkers P ! i)))
                       [0..<length (mMarkers P)] f4 else f4)"
  define f6 where "f6 = (if mIncludePoses P
                then fold (\<lambda>trial fc. flatten_trial (numDofs ?sk)
                                         (mPoses P ! trial) (mVels P ! trial) (mAccs P ! trial) fc)
                       [0..<length (mPoses P)] f5 else f5)"
  have fl: "flatten P = fst f6"
    by (simp add: flatten_def Let_def f6_def f5_def f4_def f3_def f2_def f1_def f0_def)
  have w0: "written f0 [] ?N" unfolding f0_def by (rule written_init)
  have w1: "written f1 p1 ?N"
  proof (cases "mIncludeMasses P")
    case True
    then show ?thesis
      using written_write_segment[OF w0 lens(1)] le(1) by (simp add: f1_def p1_def lens)
  next
    case False
    then show ?thesis using w0 by (simp add: f1_def p1_def)
  qed
  have w2: "written f2 p2 ?N"
  proof (cases "mIncludeCOMs P")
    case True
    then show ?thesis
      using written_write_segment[OF w1 lens(2)] le(2) by (simp add: f2_def p2_def lens)
  next
    case False
    then show ?thesis using w1 by (simp add: f2_def p2_def)
  qed
  have w3: "written f3 p3 ?N"
  proof (cases "mIncludeInertias P")
    case True
    then show ?thesis
      using written_write_segment[OF w2 lens(3)] le(3) by (simp add: f3_def p3_def lens)
  next
    case False
    then show ?thesis using w2 by (simp add: f3_def p3_def)
  qed
  have w4: "written f4 p4 ?N"
  proof (cases "mIncludeBodyScales P")
    case True
    then show ?thesis
      using written_write_segment[OF w3 lens(4)] le(4) by (simp add: f4_def p4_def lens)
  next
    case False
    then show ?thesis using w3 by (simp add: f4_def p4_def)
  qed
  have w5: "written f5 p5 ?N"
  proof (cases "mIncludeMarkerOffsets P")
    case True
    then show ?thesis
      using flatten_markers_written[OF w4 wf, of "length (mMarkers P)"] le(5)
        length_markers_content[OF wf]
      by (simp add: f5_def p5_def markers_content_def)
  next
    case False
    then show ?thesis using w4 by (simp add: f5_def p5_def)
  qed
  have w6: "written f6 p6 ?N"
  proof (cases "mIncludePoses P")
    case True
    then show ?thesis
      using flatten_trials_written[OF w5 wf, of "length (mPoses P)"] le(6)
      by (simp add: f6_def p6_def trials_content_def)
  next
    case False
    then show ?thesis using w5 by (simp add: f6_def p6_def)
  qed
  show ?thesis using written_final[OF w6 le(6)] fl p6 by simp
qed

lemma map_upt_update:
  assumes "k < n"
  shows "(map (\<lambda>t. if t < k then f t else g t) [0..<n])[k := f k]
           = map (\<lambda>t. if t < Suc k then f t else g t) [0..<n]"
  using assms by (auto intro!: nth_equalityI simp: nth_list_update less_Suc_eq)

lemma map_upt_nth_id: "length xs = n \<Longrightarrow> map (\<lambda>t. xs ! t) [0..<n] = xs"
  by (auto intro!: nth_equalityI)

lemma uf_lengths [simp]:
  "length (uf_poses d x c nA) = nA + 2" "length (uf_vels d x c nA) = nA + 1"
  "length (uf_accs d x c nA) = nA"
  by (simp_all add: uf_poses_def uf_vels_def uf_accs_def)

lemma unflatten_frames:
  assumes "length poses = Suc (Suc nA)" "length vels = Suc nA" "length accs = nA" "k \<le> nA"
  shows "fold (\<lambda>t (poses, vels, accs, cursor).
                   (poses[t := segment x cursor d],
                    vels[t := segment x (cursor + d) d],
                    accs[t := segment x (cursor + d + d) d],
                    cursor + d + d + d))
             [0..<k] (poses, vels, accs, c)
         = (map (\<lambda>t. if t < k then segment x (c + 3 * d * t) d else poses ! t)
              [0..<Suc (Suc nA)],
            map (\<lambda>t. if t < k then segment x (c + 3 * d * t + d) d else vels ! t) [0..<Suc nA],
            map (\<lambda>t. if t < k then segment x (c + 3 * d * t + 2 * d) d else accs ! t) [0..<nA],
            c + 3 * d * k)"
  using assms(4)
proof (induction k)
  case 0
  then show ?case using assms(1-3) by (simp del: upt_Suc add: map_upt_nth_id)
next
  case (Suc k)
  let ?step = "\<lambda>t (poses, vels, accs, cursor).
                   (poses[t := segment x cursor d],
                    vels[t := segment x (cursor + d) d],
                    accs[t := segment x (cursor + d + d) d],
                    cursor + d + d + d)"
  have k: "k < nA" "k < Suc nA" "k < Suc (Suc nA)" using Suc.prems by simp_all
  have e: "c + 3 * d * k + d + d = c + 3 * d * k + 2 * d"
     "c + 3 * d * k + d + d + d = c + 3 * d * Suc k" by (simp_all add: algebra_simps)
  have "fold ?step [0..<Suc k] (poses, vels, accs, c)
          = ?step k (fold ?step [0..<k] (poses, vels, accs, c))" by simp
  also have "\<dots> = ?step k
       (map (\<lambda>t. if t < k then segment x (c + 3 * d * t) d else poses ! t) [0..<Suc (Suc nA)],
        map (\<lambda>t. if t < k then segment x (c + 3 * d * t + d) d else vels ! t) [0..<Suc nA],
        map (\<lambda>t. if t < k then segment x (c + 3 * d * t + 2 * d) d else accs ! t) [0..<nA],
        c + 3 * d * k)"
    using Suc.IH k by simp
  also have "\<dots> =
       (map (\<lambda>t. if t < Suc k then segment x (c + 3 * d * t) d else poses ! t)
          [0..<Suc (Suc nA)],
        map (\<lambda>t. if t < Suc k then segment x (c + 3 * d * t + d) d else vels ! t) [0..<Suc nA],
        map (\<lambda>t. if t < Suc k then segment x (c + 3 * d * t + 2 * d) d else accs ! t) [0..<nA],
        c + 3 * d * Suc k)"
    unfolding prod.case e
    using map_upt_update[OF k(3), where ?f = "\<lambda>t. segment x (c + 3 * d * t) d"
            and ?g = "\<lambda>t. poses ! t"]
       map_upt_update[OF k(2), where ?f = "\<lambda>t. segment x (c + 3 * d * t + d) d"
            and ?g = "\<lambda>t. vels ! t"]
       map_upt_update[OF k(1), where ?f = "\<lambda>t. segment x (c + 3 * d * t + 2 * d) d"
            and ?g = "\<lambda>t. accs ! t"]
    by (simp only:) (simp del: upt_Suc add: algebra_simps)
  finally show ?case .
qed

lemma unflatten_trial_eq:
  assumes "length poses = nA + 2" "length vels = nA + 1" "length accs = nA"
  shows "unflatten_trial d x (poses, vels, accs, c)
           = (uf_poses d x c nA, uf_vels d x c nA, uf_accs d x c nA, c + 3 * d * (nA + 1))"
proof -
  have e: "c + 3 * d * nA + d + d = c + 3 * d * nA + 2 * d"
     "c + 3 * d * nA + d + d + d = c + 3 * d * (nA + 1)" by (simp_all add: algebra_simps)
  have p: "(map (\<lambda>t. if t < nA then segment x (c + 3 * d * t) d else poses ! t)
              [0..<Suc (Suc nA)])
             [nA := segment x (c + 3 * d * nA) d, nA + 1 := segment x (c + 3 * d * nA + 2 * d) d]
           = uf_poses d x c nA"
    by (auto intro!: nth_equalityI simp del: upt_Suc
          simp: uf_poses_def nth_list_update nth_append less_Suc_eq)
  have v: "(map (\<lambda>t. if t < nA then segment x (c + 3 * d * t + d) d else vels ! t) [0..<Suc nA])
             [nA := segment x (c + 3 * d * nA + d) d]
           = uf_vels d x c nA"
    by (auto intro!: nth_equalityI simp del: upt_Suc
          simp: uf_vels_def nth_list_update less_Suc_eq)
  have a: "map (\<lambda>t. if t < nA then segment x (c + 3 * d * t + 2 * d) d else accs ! t) [0..<nA]
           = uf_accs d x c nA"
    by (simp add: uf_accs_def)
  have f: "fold (\<lambda>t (poses, vels, accs, cursor).
                   (poses[t := segment x cursor d],
                    vels[t := segment x (cursor + d) d],
                    accs[t := segment x (cursor + d + d) d],
                    cursor + d + d + d))
             [0..<nA] (poses, vels, accs, c)
         = (map (\<lambda>t. if t < nA then segment x (c + 3 * d * t) d else poses ! t)
              [0..<Suc (Suc nA)],
            map (\<lambda>t. if t < nA then segment x (c + 3 * d * t + d) d else vels ! t) [0..<Suc nA],
            uf_accs d x c nA,
            c + 3 * d * nA)"
    using unflatten_frames[of poses nA vels accs nA x d c] assms by (simp only: a)
  show ?thesis
    unfolding unflatten_trial_def
    by (simp only: fst_conv snd_conv assms f prod.case Let_def uf_lengths e p v)
       (simp add: algebra_simps)
qed

lemma triple_segment:
  "segment x c d @ segment x (c + d) d @ segment x (c + 2 * d) d = segment x c (3 * d)"
proof -
  have "segment x c d @ segment x (c + d) d = segment x c (d + d)" by (rule segment_append)
  moreover have "segment x c (d + d) @ segment x (c + (d + d)) d = segment x c (d + d + d)"
    by (rule segment_append)
  moreover have "d + d = 2 * d" "d + d + d = 3 * d" by simp_all
  ultimately show ?thesis by (metis append.assoc)
qed

lemma uf_trial_content:
  "trial_content (uf_poses d x c nA) (uf_vels d x c nA) (uf_accs d x c nA)
     = segment x c (3 * d * (nA + 1))"
proof -
  have fr: "concat (map (\<lambda>t. uf_poses d x c nA ! t @ uf_vels d x c nA ! t @ uf_accs d x c nA ! t)
               [0..<nA])
         = concat (map (\<lambda>t. segment x (c + 3 * d * t) (3 * d)) [0..<nA])"
  proof -
    have "\<And>t. t < nA \<Longrightarrow>
         uf_poses d x c nA ! t @ uf_vels d x c nA ! t @ uf_accs d x c nA ! t
         = segment x (c + 3 * d * t) (3 * d)"
    proof -
      fix t assume t: "t < nA"
      have "uf_poses d x c nA ! t = segment x (c + 3 * d * t) d"
        using t by (simp del: upt_Suc add: uf_poses_def nth_append)
      moreover have "uf_vels d x c nA ! t = segment x (c + 3 * d * t + d) d"
        using t by (simp del: upt_Suc add: uf_vels_def)
      moreover have "uf_accs d x c nA ! t = segment x (c + 3 * d * t + 2 * d) d"
        using t by (simp add: uf_accs_def)
      ultimately show "uf_poses d x c nA ! t @ uf_vels d x c nA ! t @ uf_accs d x c nA ! t
         = segment x (c + 3 * d * t) (3 * d)"
        using triple_segment[of x "c + 3 * d * t" d] by simp
    qed
    then show ?thesis by (auto intro!: arg_cong[where f = concat])
  qed
  have last3: "uf_poses d x c nA ! nA @ uf_vels d x c nA ! nA @ uf_poses d x c nA ! (nA + 1)
         = segment x (c + 3 * d * nA) (3 * d)"
  proof -
    have "uf_poses d x c nA ! nA = segment x (c + 3 * d * nA) d"
      by (simp del: upt_Suc add: uf_poses_def nth_append)
    moreover have "uf_vels d x c nA ! nA = segment x (c + 3 * d * nA + d) d"
      by (simp del: upt_Suc add: uf_vels_def)
    moreover have "uf_poses d x c nA ! (nA + 1) = segment x (c + 3 * d * nA + 2 * d) d"
      by (simp del: upt_Suc add: uf_poses_def nth_append)
    ultimately show ?thesis using triple_segment[of x "c + 3 * d * nA" d] by simp
  qed
  have "trial_content (uf_poses d x c nA) (uf_vels d x c nA) (uf_accs d x c nA)
        = concat (map (\<lambda>t. segment x (c + 3 * d * t) (3 * d)) [0..<nA + 1])"
    using fr last3 by (simp add: trial_content_def)
  then show ?thesis using concat_segments[of x c "3 * d" "nA + 1"] by simp
qed

lemma uf_wf_trial:
  assumes "c + 3 * d * (nA + 1) \<le> length x"
  shows "wf_trial d (uf_poses d x c nA) (uf_vels d x c nA) (uf_accs d x c nA)"
proof -
  have b: "\<And>t. t \<le> nA \<Longrightarrow> c + 3 * d * t + 3 * d \<le> length x"
  proof -
    fix t assume "t \<le> nA"
    then have h: "3 * d * t \<le> 3 * d * nA" by (intro mult_le_mono2)
    have "c + 3 * d * (nA + 1) = c + 3 * d * nA + 3 * d" by (simp add: algebra_simps)
    then show "c + 3 * d * t + 3 * d \<le> length x" using assms h by linarith
  qed
  have 1: "\<And>t. t \<le> nA \<Longrightarrow> length (segment x (c + 3 * d * t) d) = d"
    using b by (intro length_segment) fastforce
  have 2: "\<And>t. t \<le> nA \<Longrightarrow> length (segment x (c + 3 * d * t + d) d) = d"
    using b by (intro length_segment) fastforce
  have 3: "\<And>t. t \<le> nA \<Longrightarrow> length (segment x (c + 3 * d * t + 2 * d) d) = d"
    using b by (intro length_segment) fastforce
  show ?thesis
    using 1 2 3
    by (auto simp del: upt_Suc simp: wf_trial_def uf_poses_def uf_vels_def uf_accs_def
          list_all_iff)
qed

lemma offs_0 [simp]: "offs s 0 = 0" by (simp add: offs_def)

lemma offs_Suc [simp]: "offs s (Suc j) = offs s j + s j" by (simp add: offs_def)

lemma offs_mono: "j \<le> k \<Longrightarrow> offs s j \<le> offs s k"
  by (induction k) (auto simp: le_Suc_eq)

lemma concat_var_segments:
  "concat (map (\<lambda>j. segment x (c + offs s j) (s j)) [0..<k]) = segment x c (offs s k)"
proof (induction k)
  case 0
  then show ?case by (simp add: segment_def)
next
  case (Suc k)
  have "segment x c (offs s k) @ segment x (c + offs s k) (s k) = segment x c (offs s k + s k)"
    by (rule segment_append)
  with Suc show ?case by simp
qed

lemma wf_shape_ok: "wf_problem P \<Longrightarrow> shape_ok P"
  by (simp add: wf_problem_def shape_ok_def wf_trial_def list_all_length)

lemma uf_trials_0: "shape_ok P \<Longrightarrow> uf_trials d x c 0 P = P"
  by (simp add: uf_trials_def shape_ok_def map_upt_nth_id)

lemma unflatten_trials_prefix:
  assumes s: "shape_ok P" and k: "k \<le> length (mPoses P)"
  shows "fold (\<lambda>trial (P, cursor).
             (case unflatten_trial d x
                     (mPoses P ! trial, mVels P ! trial, mAccs P ! trial, cursor) of
                (poses, vels, accs, cursor') \<Rightarrow>
                  (P\<lparr>mPoses := (mPoses P)[trial := poses],
                     mVels := (mVels P)[trial := vels],
                     mAccs := (mAccs P)[trial := accs]\<rparr>, cursor')))
           [0..<k] (P, c)
         = (uf_trials d x c k P, c + offs (tsize d P) k)"
  using k
proof (induction k)
  case 0
  then show ?case using uf_trials_0[OF s] by simp
next
  case (Suc k)
  let ?step = "\<lambda>trial (P, cursor).
             (case unflatten_trial d x
                     (mPoses P ! trial, mVels P ! trial, mAccs P ! trial, cursor) of
                (poses, vels, accs, cursor') \<Rightarrow>
                  (P\<lparr>mPoses := (mPoses P)[trial := poses],
                     mVels := (mVels P)[trial := vels],
                     mAccs := (mAccs P)[trial := accs]\<rparr>, cursor'))"
  let ?T = "length (mPoses P)"
  let ?c = "c + offs (tsize d P) k"
  let ?nA = "length (mAccs P ! k)"
  have k: "k < ?T" using Suc.prems by simp
  have lens: "length (mPoses P ! k) = ?nA + 2" "length (mVels P ! k) = ?nA + 1"
    using s k by (simp_all add: shape_ok_def)
  have cur: "mPoses (uf_trials d x c k P) ! k = mPoses P ! k"
     "mVels (uf_trials d x c k P) ! k = mVels P ! k"
     "mAccs (uf_trials d x c k P) ! k = mAccs P ! k"
    using k by (simp_all add: uf_trials_def)
  have ut: "unflatten_trial d x (mPoses P ! k, mVels P ! k, mAccs P ! k, ?c)
       = (uf_poses d x ?c ?nA, uf_vels d x ?c ?nA, uf_accs d x ?c ?nA, ?c + 3 * d * (?nA + 1))"
    by (rule unflatten_trial_eq[OF lens refl])
  have upd: "(uf_trials d x c k P)
        \<lparr>mPoses := (mPoses (uf_trials d x c k P))[k := uf_poses d x ?c ?nA],
         mVels := (mVels (uf_trials d x c k P))[k := uf_vels d x ?c ?nA],
         mAccs := (mAccs (uf_trials d x c k P))[k := uf_accs d x ?c ?nA]\<rparr>
       = uf_trials d x c (Suc k) P"
    using k
      map_upt_update[OF k, where ?f = "\<lambda>j. uf_poses d x (c + offs (tsize d P) j) (length (mAccs P ! j))"
          and ?g = "\<lambda>j. mPoses P ! j"]
      map_upt_update[OF k, where ?f = "\<lambda>j. uf_vels d x (c + offs (tsize d P) j) (length (mAccs P ! j))"
          and ?g = "\<lambda>j. mVels P ! j"]
      map_upt_update[OF k, where ?f = "\<lambda>j. uf_accs d x (c + offs (tsize d P) j) (length (mAccs P ! j))"
          and ?g = "\<lambda>j. mAccs P ! j"]
    by (simp add: uf_trials_def)
  have "fold ?step [0..<Suc k] (P, c) = ?step k (fold ?step [0..<k] (P, c))" by simp
  also have "\<dots> = ?step k (uf_trials d x c k P, ?c)" using Suc.IH k by simp
  also have "\<dots> = (uf_trials d x c (Suc k) P, c + offs (tsize d P) (Suc k))"
    by (simp add: cur ut upd tsize_def)
  finally show ?case .
qed

lemma unflatten_trials_eq:
  assumes "shape_ok P"
  shows "unflatten_trials d x (P, c)
           = (uf_trials d x c (length (mPoses P)) P, c + offs (tsize d P) (length (mPoses P)))"
  using unflatten_trials_prefix[OF assms, of "length (mPoses P)" d x c]
  by (simp add: unflatten_trials_def)

lemma length_uf_markers [simp]: "length (uf_markers x c k ms) = length ms"
  by (simp add: uf_markers_def)

lemma unflatten_markers_prefix:
  assumes k: "k \<le> length (mMarkers P)"
  shows "fold (\<lambda>i (P, cursor).
                 (P\<lparr>mMarkers := (mMarkers P)[i := (fst (mMarkers P ! i), segment x cursor 3)]\<rparr>,
                  cursor + 3))
           [0..<k] (P, c)
         = (P\<lparr>mMarkers := uf_markers x c k (mMarkers P)\<rparr>, c + 3 * k)"
  using k
proof (induction k)
  case 0
  then show ?case by (simp add: uf_markers_def map_upt_nth_id)
next
  case (Suc k)
  let ?step = "\<lambda>i (P, cursor).
                 (P\<lparr>mMarkers := (mMarkers P)[i := (fst (mMarkers P ! i), segment x cursor 3)]\<rparr>,
                  cursor + 3)"
  have k: "k < length (mMarkers P)" using Suc.prems by simp
  have cur: "uf_markers x c k (mMarkers P) ! k = mMarkers P ! k"
    using k by (simp add: uf_markers_def)
  have upd: "(uf_markers x c k (mMarkers P))[k := (fst (mMarkers P ! k), segment x (c + 3 * k) 3)]
        = uf_markers x c (Suc k) (mMarkers P)"
    unfolding uf_markers_def
    using map_upt_update[OF k, where ?f = "\<lambda>i. (fst (mMarkers P ! i), segment x (c + 3 * i) 3)"
            and ?g = "\<lambda>i. mMarkers P ! i"]
    by simp
  have "fold ?step [0..<Suc k] (P, c) = ?step k (fold ?step [0..<k] (P, c))" by simp
  also have "\<dots> = ?step k (P\<lparr>mMarkers := uf_markers x c k (mMarkers P)\<rparr>, c + 3 * k)"
    using Suc.IH k by simp
  also have "\<dots> = (P\<lparr>mMarkers := uf_markers x c (Suc k) (mMarkers P)\<rparr>, c + 3 * Suc k)"
    by (simp add: cur upd)
  finally show ?case .
qed

lemma uf_markers_content:
  "concat (map (\<lambda>i. snd (uf_markers x c (length ms) ms ! i)) [0..<length ms])
     = segment x c (3 * length ms)"
proof -
  have eq: "map (\<lambda>i. snd (uf_markers x c (length ms) ms ! i)) [0..<length ms]
        = map (\<lambda>i. segment x (c + 3 * i) 3) [0..<length ms]"
    by (simp add: uf_markers_def)
  show ?thesis unfolding eq by (rule concat_segments)
qed

lemma uf_markers_wf:
  assumes "c + 3 * length ms \<le> length x"
  shows "list_all (\<lambda>m. length (snd m) = 3) (uf_markers x c (length ms) ms)"
proof -
  have "\<And>i. i < length ms \<Longrightarrow> length (segment x (c + 3 * i) 3) = 3"
    using assms by (intro length_segment) simp
  then show ?thesis by (simp add: uf_markers_def list_all_iff)
qed

lemma if_add: "(if b then (s::nat) + k else s) = s + (if b then k else 0)"
  by simp

lemma getProblemSize_sum:
  "getProblemSize P =
     (if mIncludeMasses P then numScaleGroups (mSkeleton P) else 0)
     + (if mIncludeCOMs P then numScaleGroups (mSkeleton P) * 3 else 0)
     + (if mIncludeInertias P then numScaleGroups (mSkeleton P) * 6 else 0)
     + (if mIncludeBodyScales P then groupScaleDim (mSkeleton P) else 0)
     + (if mIncludeMarkerOffsets P then length (mMarkers P) * 3 else 0)
     + (if mIncludePoses P then offs (tsize (numDofs (mSkeleton P)) P) (length (mPoses P)) else 0)"
proof -
  have t: "(\<lambda>j. length (mAccs P ! j) * numDofs (mSkeleton P) * 3 + numDofs (mSkeleton P) * 3)
             = tsize (numDofs (mSkeleton P)) P"
    by (auto simp: tsize_def fun_eq_iff)
  have "fold (\<lambda>trial size. size + length (mAccs P ! trial) * numDofs (mSkeleton P) * 3
                 + numDofs (mSkeleton P) * 3) [0..<length (mPoses P)] s
        = s + offs (tsize (numDofs (mSkeleton P)) P) (length (mPoses P))" for s
    unfolding offs_def t[symmetric] by (rule fold_add_sum_list)
  then show ?thesis
    by (simp only: getProblemSize_def Let_def if_add)
qed

lemma segment_empty [simp]: "segment x c 0 = []"
  by (simp add: segment_def)

lemma if_segment: "(if b then segment x c n else []) = segment x c (if b then n else 0)"
  by simp

lemma uf_trials_content:
  assumes "shape_ok P"
  shows "trials_content (uf_trials d x c (length (mPoses P)) P)
           = segment x c (offs (tsize d P) (length (mPoses P)))"
proof -
  let ?T = "length (mPoses P)"
  let ?Q = "uf_trials d x c ?T P"
  have "map (\<lambda>j. trial_content (mPoses ?Q ! j) (mVels ?Q ! j) (mAccs ?Q ! j)) [0..<length (mPoses ?Q)]
        = map (\<lambda>j. segment x (c + offs (tsize d P) j) (tsize d P j)) [0..<?T]"
    by (simp add: uf_trials_def uf_trial_content tsize_def)
  then show ?thesis
    unfolding trials_content_def by (simp only: concat_var_segments)
qed

lemma uf_trials_wf_trials:
  assumes c: "c + offs (tsize d P) (length (mPoses P)) \<le> length x"
    and j: "j < length (mPoses P)"
  shows "wf_trial d (mPoses (uf_trials d x c (length (mPoses P)) P) ! j)
           (mVels (uf_trials d x c (length (mPoses P)) P) ! j)
           (mAccs (uf_trials d x c (length (mPoses P)) P) ! j)"
proof -
  have "offs (tsize d P) (Suc j) \<le> offs (tsize d P) (length (mPoses P))"
    using j by (intro offs_mono) simp
  then have "c + offs (tsize d P) j + 3 * d * (length (mAccs P ! j) + 1) \<le> length x"
    using c by (simp add: tsize_def)
  then show ?thesis
    using j uf_wf_trial[of "c + offs (tsize d P) j" d "length (mAccs P ! j)" x]
    by (simp add: uf_trials_def)
qed

lemma unflatten_explicit:
  assumes ne: "x \<noteq> mLastX P" and sh: "shape_ok P"
  shows "unflatten P x = uf_result P x"
proof -
  let ?sk = "mSkeleton P"
  let ?n = "numScaleGroups ?sk"
  define c1 where "c1 = (if mIncludeMasses P then ?n else 0)"
  define c2 where "c2 = c1 + (if mIncludeCOMs P then ?n * 3 else 0)"
  define c3 where "c3 = c2 + (if mIncludeInertias P then ?n * 6 else 0)"
  define c4 where "c4 = c3 + (if mIncludeBodyScales P then groupScaleDim ?sk else 0)"
  define c5 where "c5 = c4 + (if mIncludeMarkerOffsets P then length (mMarkers P) * 3 else 0)"
  define g1 where "g1 = (if mIncludeMasses P then segment x 0 ?n else groupMasses ?sk)"
  define g2 where "g2 = (if mIncludeCOMs P then segment x c1 (?n * 3) else groupCOMs ?sk)"
  define g3 where "g3 = (if mIncludeInertias P then segment x c2 (?n * 6) else groupInertias ?sk)"
  define g4 where "g4 = (if mIncludeBodyScales P then segment x c3 (groupScaleDim ?sk)
                         else groupScales ?sk)"
  define ms where "ms = (if mIncludeMarkerOffsets P
                         then uf_markers x c4 (length (mMarkers P)) (mMarkers P)
                         else mMarkers P)"
  define s0 :: "DynamicsFitProblem \<times> nat" where "s0 = (P\<lparr>mLastX := x\<rparr>, 0)"
  define s1 where "s1 = unflatten_masses x s0"
  define s2 where "s2 = unflatten_COMs x s1"
  define s3 where "s3 = unflatten_inertias x s2"
  define s4 where "s4 = unflatten_bodyScales x s3"
  define s5 where "s5 = unflatten_markerOffsets x s4"
  define s6 where "s6 = unflatten_poses x s5"
  have unf: "unflatten P x = fst s6"
    using ne
    by (simp add: unflatten_def Let_def s6_def s5_def s4_def s3_def s2_def s1_def s0_def)
  have e1: "s1 = (P\<lparr>mLastX := x, mSkeleton := ?sk\<lparr>groupMasses := g1\<rparr>\<rparr>, c1)"
    by (simp add: s1_def s0_def g1_def c1_def unflatten_masses_def Let_def)
  have e2: "s2 = (P\<lparr>mLastX := x, mSkeleton := ?sk\<lparr>groupMasses := g1, groupCOMs := g2\<rparr>\<rparr>, c2)"
    by (simp add: s2_def e1 g2_def c2_def unflatten_COMs_def Let_def)
  have e3: "s3 = (P\<lparr>mLastX := x, mSkeleton := ?sk\<lparr>groupMasses := g1, groupCOMs := g2,
                      groupInertias := g3\<rparr>\<rparr>, c3)"
    by (simp add: s3_def e2 g3_def c3_def unflatten_inertias_def Let_def)
  have e4: "s4 = (P\<lparr>mLastX := x, mSkeleton := ?sk\<lparr>groupMasses := g1, groupCOMs := g2,
                      groupInertias := g3, groupScales := g4\<rparr>\<rparr>, c4)"
    by (simp add: s4_def e3 g4_def c4_def unflatten_bodyScales_def Let_def)
  have e5: "s5 = (P\<lparr>mLastX := x, mSkeleton := ?sk\<lparr>groupMasses := g1, groupCOMs := g2,
                      groupInertias := g3, groupScales := g4\<rparr>, mMarkers := ms\<rparr>, c5)"
  proof (cases "mIncludeMarkerOffsets P")
    case True
    then show ?thesis
      by (simp add: s5_def e4 ms_def c5_def unflatten_markers_prefix algebra_simps
            unflatten_markerOffsets_def)
  next
    case False
    then show ?thesis by (simp add: s5_def e4 ms_def c5_def unflatten_markerOffsets_def)
  qed
  let ?Q5 = "P\<lparr>mLastX := x, mSkeleton := ?sk\<lparr>groupMasses := g1, groupCOMs := g2,
                      groupInertias := g3, groupScales := g4\<rparr>, mMarkers := ms\<rparr>"
  have sh5: "shape_ok ?Q5" using sh by (simp add: shape_ok_def)
  have e6: "fst s6 = (if mIncludePoses P then uf_trials (numDofs ?sk) x c5 (length (mPoses P)) ?Q5
                      else ?Q5)"
    using unflatten_trials_eq[OF sh5, of "numDofs ?sk" x c5]
    by (simp add: s6_def e5 unflatten_poses_def)
  show ?thesis
    unfolding unf e6
    by (simp add: uf_result_def Let_def c1_def c2_def c3_def c4_def c5_def g1_def g2_def
          g3_def g4_def ms_def)
qed

lemma uf_trials_fields [simp]:
  "mSkeleton (uf_trials d x c k P) = mSkeleton P"
  "mMarkers (uf_trials d x c k P) = mMarkers P"
  "mInit (uf_trials d x c k P) = mInit P"
  "mLastX (uf_trials d x c k P) = mLastX P"
  "mIncludeMasses (uf_trials d x c k P) = mIncludeMasses P"
  "mIncludeCOMs (uf_trials d x c k P) = mIncludeCOMs P"
  "mIncludeInertias (uf_trials d x c k P) = mIncludeInertias P"
  "mIncludeBodyScales (uf_trials d x c k P) = mIncludeBodyScales P"
  "mIncludeMarkerOffsets (uf_trials d x c k P) = mIncludeMarkerOffsets P"
  "mIncludePoses (uf_trials d x c k P) = mIncludePoses P"
  "length (mPoses (uf_trials d x c k P)) = length (mPoses P)"
  "length (mVels (uf_trials d x c k P)) = length (mPoses P)"
  "length (mAccs (uf_trials d x c k P)) = length (mPoses P)"
  by (simp_all add: uf_trials_def)

lemma uf_result_Q5:
  "uf_result P x =
     (if mIncludePoses P
      then uf_trials (numDofs (mSkeleton P)) x (uf_c5 P) (length (mPoses P)) (uf_Q5 P x)
      else uf_Q5 P x)"
  by (simp add: uf_result_def uf_Q5_def uf_c5_def Let_def)

lemma uf_Q5_shape: "shape_ok P \<Longrightarrow> shape_ok (uf_Q5 P x)"
  by (simp add: shape_ok_def uf_Q5_def Let_def)

lemma uf_Q5_trials [simp]:
  "mPoses (uf_Q5 P x) = mPoses P" "mVels (uf_Q5 P x) = mVels P" "mAccs (uf_Q5 P x) = mAccs P"
  "tsize d (uf_Q5 P x) = tsize d P"
  by (simp_all add: uf_Q5_def Let_def tsize_def fun_eq_iff)

lemma uf_Q5_flags [simp]:
  "mIncludeMasses (uf_Q5 P x) = mIncludeMasses P"
  "mIncludeCOMs (uf_Q5 P x) = mIncludeCOMs P"
  "mIncludeInertias (uf_Q5 P x) = mIncludeInertias P"
  "mIncludeBodyScales (uf_Q5 P x) = mIncludeBodyScales P"
  "mIncludeMarkerOffsets (uf_Q5 P x) = mIncludeMarkerOffsets P"
  "mIncludePoses (uf_Q5 P x) = mIncludePoses P"
  "mInit (uf_Q5 P x) = mInit P"
  "mLastX (uf_Q5 P x) = x"
  by (simp_all add: uf_Q5_def Let_def)

lemma uf_result_flags [simp]:
  "mIncludeMasses (uf_result P x) = mIncludeMasses P"
  "mIncludeCOMs (uf_result P x) = mIncludeCOMs P"
  "mIncludeInertias (uf_result P x) = mIncludeInertias P"
  "mIncludeBodyScales (uf_result P x) = mIncludeBodyScales P"
  "mIncludeMarkerOffsets (uf_result P x) = mIncludeMarkerOffsets P"
  "mIncludePoses (uf_result P x) = mIncludePoses P"
  "mInit (uf_result P x) = mInit P"
  "mLastX (uf_result P x) = x"
  "mSkeleton (uf_result P x) = mSkeleton (uf_Q5 P x)"
  "mMarkers (uf_result P x) = mMarkers (uf_Q5 P x)"
  by (simp_all add: uf_result_Q5)

lemma uf_result_content:
  assumes sh: "shape_ok P" and len: "length x = getProblemSize P"
  shows "flat_content (uf_result P x) = x"
proof -
  let ?sk = "mSkeleton P" and ?n = "numScaleGroups (mSkeleton P)"
  let ?Q = "uf_result P x"
  define l1 where "l1 = (if mIncludeMasses P then ?n else 0)"
  define l2 where "l2 = (if mIncludeCOMs P then ?n * 3 else 0)"
  define l3 where "l3 = (if mIncludeInertias P then ?n * 6 else 0)"
  define l4 where "l4 = (if mIncludeBodyScales P then groupScaleDim ?sk else 0)"
  define l5 where "l5 = (if mIncludeMarkerOffsets P then length (mMarkers P) * 3 else 0)"
  define l6 where "l6 = (if mIncludePoses P
                         then offs (tsize (numDofs ?sk) P) (length (mPoses P)) else 0)"
  have N: "length x = l1 + l2 + l3 + l4 + l5 + l6"
    unfolding len getProblemSize_sum l1_def l2_def l3_def l4_def l5_def l6_def ..
  have c5: "uf_c5 P = l1 + l2 + l3 + l4 + l5"
    by (simp add: uf_c5_def l1_def l2_def l3_def l4_def l5_def)
  have p1: "(if mIncludeMasses ?Q then groupMasses (mSkeleton ?Q) else []) = segment x 0 l1"
    by (simp add: uf_Q5_def Let_def l1_def)
  have p2: "(if mIncludeCOMs ?Q then groupCOMs (mSkeleton ?Q) else []) = segment x l1 l2"
    by (simp add: uf_Q5_def Let_def l1_def l2_def)
  have p3: "(if mIncludeInertias ?Q then groupInertias (mSkeleton ?Q) else [])
             = segment x (l1 + l2) l3"
    by (simp add: uf_Q5_def Let_def l1_def l2_def l3_def)
  have p4: "(if mIncludeBodyScales ?Q then groupScales (mSkeleton ?Q) else [])
             = segment x (l1 + l2 + l3) l4"
    by (simp add: uf_Q5_def Let_def l1_def l2_def l3_def l4_def)
  have p5: "(if mIncludeMarkerOffsets ?Q then markers_content ?Q else [])
             = segment x (l1 + l2 + l3 + l4) l5"
  proof (cases "mIncludeMarkerOffsets P")
    case True
    have "markers_content ?Q
          = segment x (l1 + l2 + l3 + l4) (3 * length (mMarkers P))"
      using True uf_markers_content[of x "l1 + l2 + l3 + l4" "mMarkers P"]
      by (simp add: markers_content_def uf_Q5_def Let_def l1_def l2_def l3_def l4_def)
    then show ?thesis using True by (simp add: l5_def mult.commute)
  next
    case False
    then show ?thesis by (simp add: l5_def)
  qed
  have p6: "(if mIncludePoses ?Q then trials_content ?Q else [])
             = segment x (l1 + l2 + l3 + l4 + l5) l6"
  proof (cases "mIncludePoses P")
    case True
    then show ?thesis
      using uf_trials_content[OF uf_Q5_shape[OF sh, of x], of "numDofs ?sk" x "uf_c5 P"]
      by (simp add: uf_result_Q5 c5 l6_def)
  next
    case False
    then show ?thesis by (simp add: l6_def)
  qed
  have "flat_content ?Q = segment x 0 l1 @ segment x l1 l2 @ segment x (l1 + l2) l3
          @ segment x (l1 + l2 + l3) l4 @ segment x (l1 + l2 + l3 + l4) l5
          @ segment x (l1 + l2 + l3 + l4 + l5) l6"
    unfolding flat_content_def p1 p2 p3 p4 p5 p6 ..
  also have "\<dots> = segment x 0 (l1 + l2 + l3 + l4 + l5 + l6)"
    using segment_append[of x 0 l1 l2] segment_append[of x 0 "l1 + l2" l3]
      segment_append[of x 0 "l1 + l2 + l3" l4] segment_append[of x 0 "l1 + l2 + l3 + l4" l5]
      segment_append[of x 0 "l1 + l2 + l3 + l4 + l5" l6]
    by (metis add_0 append.assoc)
  also have "\<dots> = x" using N segment_all[of x] by simp
  finally show ?thesis .
qed

lemma uf_result_wf:
  assumes wf: "wf_problem P" and len: "length x = getProblemSize P"
  shows "wf_problem (uf_result P x)"
proof -
  let ?sk = "mSkeleton P" and ?n = "numScaleGroups (mSkeleton P)"
  let ?Q = "uf_result P x"
  have sh: "shape_ok P" by (rule wf_shape_ok[OF wf])
  define l1 where "l1 = (if mIncludeMasses P then ?n else 0)"
  define l2 where "l2 = (if mIncludeCOMs P then ?n * 3 else 0)"
  define l3 where "l3 = (if mIncludeInertias P then ?n * 6 else 0)"
  define l4 where "l4 = (if mIncludeBodyScales P then groupScaleDim ?sk else 0)"
  define l5 where "l5 = (if mIncludeMarkerOffsets P then length (mMarkers P) * 3 else 0)"
  define l6 where "l6 = (if mIncludePoses P
                         then offs (tsize (numDofs ?sk) P) (length (mPoses P)) else 0)"
  have N: "length x = l1 + l2 + l3 + l4 + l5 + l6"
    unfolding len getProblemSize_sum l1_def l2_def l3_def l4_def l5_def l6_def ..
  have c5: "uf_c5 P = l1 + l2 + l3 + l4 + l5"
    by (simp add: uf_c5_def l1_def l2_def l3_def l4_def l5_def)
  have old: "length (groupMasses ?sk) = ?n" "length (groupCOMs ?sk) = ?n * 3"
    "length (groupInertias ?sk) = ?n * 6" "length (groupScales ?sk) = groupScaleDim ?sk"
    "list_all (\<lambda>m. length (snd m) = 3) (mMarkers P)"
    using wf by (simp_all add: wf_problem_def)
  have dims: "numScaleGroups (mSkeleton (uf_Q5 P x)) = ?n"
    "groupScaleDim (mSkeleton (uf_Q5 P x)) = groupScaleDim ?sk"
    "numDofs (mSkeleton (uf_Q5 P x)) = numDofs ?sk"
    by (simp_all add: uf_Q5_def Let_def)
  have g1: "length (groupMasses (mSkeleton ?Q)) = ?n"
  proof (cases "mIncludeMasses P")
    case True
    then have "0 + ?n \<le> length x" using N by (simp add: l1_def)
    then show ?thesis using True length_segment[of 0 ?n x] by (simp add: uf_Q5_def Let_def)
  next
    case False
    then show ?thesis using old by (simp add: uf_Q5_def Let_def)
  qed
  have g2: "length (groupCOMs (mSkeleton ?Q)) = ?n * 3"
  proof (cases "mIncludeCOMs P")
    case True
    then have "l1 + ?n * 3 \<le> length x" using N by (simp add: l2_def)
    then show ?thesis
      using True length_segment[of l1 "?n * 3" x] by (simp add: uf_Q5_def Let_def l1_def)
  next
    case False
    then show ?thesis using old by (simp add: uf_Q5_def Let_def)
  qed
  have g3: "length (groupInertias (mSkeleton ?Q)) = ?n * 6"
  proof (cases "mIncludeInertias P")
    case True
    then have "l1 + l2 + ?n * 6 \<le> length x" using N by (simp add: l3_def)
    then show ?thesis
      using True length_segment[of "l1 + l2" "?n * 6" x]
      by (simp add: uf_Q5_def Let_def l1_def l2_def)
  next
    case False
    then show ?thesis using old by (simp add: uf_Q5_def Let_def)
  qed
  have g4: "length (groupScales (mSkeleton ?Q)) = groupScaleDim ?sk"
  proof (cases "mIncludeBodyScales P")
    case True
    then have "l1 + l2 + l3 + groupScaleDim ?sk \<le> length x" using N by (simp add: l4_def)
    then show ?thesis
      using True length_segment[of "l1 + l2 + l3" "groupScaleDim ?sk" x]
      by (simp add: uf_Q5_def Let_def l1_def l2_def l3_def)
  next
    case False
    then show ?thesis using old by (simp add: uf_Q5_def Let_def)
  qed
  have mk: "list_all (\<lambda>m. length (snd m) = 3) (mMarkers ?Q)"
  proof (cases "mIncludeMarkerOffsets P")
    case True
    then have "l1 + l2 + l3 + l4 + 3 * length (mMarkers P) \<le> length x"
      using N by (simp add: l5_def)
    then show ?thesis
      using True uf_markers_wf[of "l1 + l2 + l3 + l4" "mMarkers P" x]
      by (simp add: uf_Q5_def Let_def l1_def l2_def l3_def l4_def)
  next
    case False
    then show ?thesis using old by (simp add: uf_Q5_def Let_def)
  qed
  have ln: "length (mVels ?Q) = length (mPoses ?Q)" "length (mAccs ?Q) = length (mPoses ?Q)"
    "length (mPoses ?Q) = length (mPoses P)"
    using sh by (simp_all add: uf_result_Q5 shape_ok_def)
  have tr: "wf_trial (numDofs ?sk) (mPoses ?Q ! j) (mVels ?Q ! j) (mAccs ?Q ! j)"
    if j: "j < length (mPoses P)" for j
  proof (cases "mIncludePoses P")
    case True
    have "uf_c5 P + offs (tsize (numDofs ?sk) (uf_Q5 P x)) (length (mPoses (uf_Q5 P x)))
            \<le> length x"
      using True N c5 by (simp add: l6_def)
    then show ?thesis
      using True j
        uf_trials_wf_trials[of "uf_c5 P" "numDofs ?sk" "uf_Q5 P x" x j]
      by (simp add: uf_result_Q5)
  next
    case False
    then show ?thesis using wf_problem_trial[OF wf j] by (simp add: uf_result_Q5)
  qed
  show ?thesis
    unfolding wf_problem_def
    using g1 g2 g3 g4 mk ln tr by (simp add: dims list_all_length)
qed

lemma unflatten_new:
  assumes wf: "wf_problem P" and len: "length x = getProblemSize P" and ne: "x \<noteq> mLastX P"
  shows "wf_problem (unflatten P x)" "flatten (unflatten P x) = x" "mLastX (unflatten P x) = x"
    "getProblemSize (unflatten P x) = getProblemSize P"
proof -
  have sh: "shape_ok P" by (rule wf_shape_ok[OF wf])
  have e: "unflatten P x = uf_result P x" by (rule unflatten_explicit[OF ne sh])
  show w: "wf_problem (unflatten P x)" unfolding e by (rule uf_result_wf[OF wf len])
  show f: "flatten (unflatten P x) = x"
    using flatten_content[OF w] uf_result_content[OF sh len] by (simp add: e)
  show "mLastX (unflatten P x) = x" by (simp add: e)
  show "getProblemSize (unflatten P x) = getProblemSize P"
    using getProblemSize_content[OF w] flatten_content[OF w] f len by simp
qed

lemma unflatten_same: "x = mLastX P \<Longrightarrow> unflatten P x = P"
  by (simp add: unflatten_def)

lemma unflatten_mInit: "shape_ok P \<Longrightarrow> mInit (unflatten P x) = mInit P"
  by (cases "x = mLastX P") (simp_all add: unflatten_same unflatten_explicit)

lemma reachable_invariant:
  "reachable P \<Longrightarrow>
     wf_problem P \<and> (length (mLastX P) = getProblemSize P \<longrightarrow> flatten P = mLastX P)"
proof (induction rule: reachable.induct)
  case (fresh P)
  have "flatten P = flat_content P" by (rule flatten_content[OF fresh(1)])
  moreover have "getProblemSize P = length (flat_content P)"
    by (rule getProblemSize_content[OF fresh(1)])
  ultimately show ?case using fresh by auto
next
  case (unflattened P x)
  show ?case
  proof (cases "x = mLastX P")
    case True
    then show ?thesis using unflattened by (simp add: unflatten_same)
  next
    case False
    then show ?thesis
      using unflatten_new[OF _ unflattened(2) False] unflattened(3) by simp
  qed
qed

text \<open>
  C1. In every state reached from a fresh well-formed problem by calls of \<open>unflatten\<close>,
  for every combination of the inclusion flags and every \<open>x\<close> of length
  \<open>getProblemSize()\<close>: \<open>unflatten(x)\<close> followed by \<open>flatten()\<close> returns \<open>x\<close>, and
  \<open>flatten()\<close> has length \<open>getProblemSize()\<close>.
\<close>

theorem flatten_unflatten_roundtrip:
  assumes "reachable P" and "length x = getProblemSize P"
  shows "flatten (unflatten P x) = x \<and> length (flatten P) = getProblemSize P"
proof -
  have wf: "wf_problem P" and co: "length (mLastX P) = getProblemSize P \<longrightarrow> flatten P = mLastX P"
    using reachable_invariant[OF assms(1)] by simp_all
  have l: "length (flatten P) = getProblemSize P"
    using flatten_content[OF wf] getProblemSize_content[OF wf] by simp
  have "flatten (unflatten P x) = x"
  proof (cases "x = mLastX P")
    case True
    then show ?thesis using co assms(2) by (simp add: unflatten_same)
  next
    case False
    then show ?thesis using unflatten_new(2)[OF wf assms(2) False] by simp
  qed
  then show ?thesis using l by simp
qed

lemma fitProblem_cols:
  assumes "2 \<le> length inputPoses" "list_all (\<lambda>c. length c = d) inputPoses"
  shows "wf_trial d inputPoses (fitProblem_vels inputPoses dt) (fitProblem_accs inputPoses dt)"
  using assms
  by (auto simp: wf_trial_def fitProblem_vels_def fitProblem_accs_def list_all_length smul_def)

lemma newDynamicsFitProblem_wf:
  assumes "wf_input init skeleton markerMap"
  shows "wf_problem (newDynamicsFitProblem init skeleton markerMap trackingMarkers footNodes)"
  using assms fitProblem_cols
  by (auto simp: wf_problem_def wf_input_def newDynamicsFitProblem_def list_all_length)

lemma setters_keep_wf:
  "wf_problem (setIncludeMasses P b) = wf_problem P"
  "wf_problem (setIncludeCOMs P b) = wf_problem P"
  "wf_problem (setIncludeInertias P b) = wf_problem P"
  "wf_problem (setIncludeBodyScales P b) = wf_problem P"
  "wf_problem (setIncludePoses P b) = wf_problem P"
  "wf_problem (setIncludeMarkerOffsets P b) = wf_problem P"
  by (simp_all add: wf_problem_def setIncludeMasses_def setIncludeCOMs_def
        setIncludeInertias_def setIncludeBodyScales_def setIncludePoses_def
        setIncludeMarkerOffsets_def)

lemma roundtripProblem_size: "getProblemSize roundtripProblem = 22"
  by (simp add: getProblemSize_sum roundtripProblem_def newDynamicsFitProblem_def
        oneDofSkel_def emptyInit_def fitProblem_accs_def tsize_def offs_def)

theorem flatten_unflatten_roundtrip_witness:
  "flatten (unflatten roundtripProblem
      [1, 2, 3, 4, 5, 6, 7, 8, 9, 10, 11, 12, 13, 14, 15, 16, 17, 18, 19, 20, 21, 22])
     = [1, 2, 3, 4, 5, 6, 7, 8, 9, 10, 11, 12, 13, 14, 15, 16, 17, 18, 19, 20, 21, 22]
   \<and> length (flatten roundtripProblem) = 22"
proof -
  have wf: "wf_problem roundtripProblem"
    unfolding roundtripProblem_def
    by (rule newDynamicsFitProblem_wf) (simp add: wf_input_def emptyInit_def oneDofSkel_def)
  have r: "reachable roundtripProblem"
    by (rule reachable.fresh[OF wf]) (simp add: roundtripProblem_def newDynamicsFitProblem_def)
  show ?thesis
    using flatten_unflatten_roundtrip[OF r,
        of "[1, 2, 3, 4, 5, 6, 7, 8, 9, 10, 11, 12, 13, 14, 15, 16, 17, 18, 19, 20, 21, 22]"]
    by (simp add: roundtripProblem_size)
qed

section \<open>The fatal check of computeLoss and computeGradient\<close>

lemma fold_preserves:
  assumes "\<And>x s. Q s \<Longrightarrow> Q (f x s)" and "Q s"
  shows "Q (fold f xs s)"
  using assms(2) by (induction xs arbitrary: s) (simp_all add: assms(1))

lemma unflatten_trials_mInit: "mInit (fst (unflatten_trials d x Pc)) = mInit (fst Pc)"
  unfolding unflatten_trials_def
  by (rule fold_preserves[where Q = "\<lambda>s. mInit (fst s) = mInit (fst Pc)"])
     (auto split: prod.splits)

lemma unflatten_steps_mInit:
  "mInit (fst (unflatten_masses x Pc)) = mInit (fst Pc)"
  "mInit (fst (unflatten_COMs x Pc)) = mInit (fst Pc)"
  "mInit (fst (unflatten_inertias x Pc)) = mInit (fst Pc)"
  "mInit (fst (unflatten_bodyScales x Pc)) = mInit (fst Pc)"
  "mInit (fst (unflatten_poses x Pc)) = mInit (fst Pc)"
  by (simp_all add: unflatten_masses_def unflatten_COMs_def unflatten_inertias_def
        unflatten_bodyScales_def unflatten_poses_def Let_def unflatten_trials_mInit
        split: prod.splits)

lemma unflatten_markerOffsets_mInit:
  "mInit (fst (unflatten_markerOffsets x Pc)) = mInit (fst Pc)"
proof -
  have h: "mInit (fst (fold (\<lambda>i (P, cursor).
                  (P\<lparr>mMarkers := (mMarkers P)
                        [i := (fst (mMarkers P ! i), segment x cursor 3)]\<rparr>,
                   cursor + 3)) xs s)) = mInit (fst s)" for xs s
    by (rule fold_preserves[where Q = "\<lambda>t. mInit (fst t) = mInit (fst s)"])
       (auto split: prod.splits)
  show ?thesis
    by (simp add: unflatten_markerOffsets_def h split: prod.splits)
qed

lemma unflatten_keeps_mInit: "mInit (unflatten P x) = mInit P"
  by (simp add: unflatten_def Let_def unflatten_steps_mInit unflatten_markerOffsets_mInit)

text \<open>
  C8. \<open>computeLoss\<close> and \<open>computeGradient\<close> end the process with exit code 1 exactly
  when \<open>probablyMissingGRF\<close> has fewer entries than \<open>poseTrials\<close>; when it has an entry
  for every trial, both return a value.
\<close>

theorem missing_contact_annotation_exit:
  "(computeLoss ops P x logExplanation = Inl (Exit 1))
      = (length (probablyMissingGRF (mInit P)) < length (poseTrials (mInit P)))
   \<and> isl (computeLoss ops P x logExplanation)
      = (length (probablyMissingGRF (mInit P)) < length (poseTrials (mInit P)))
   \<and> (computeGradient ops P x = Inl (Exit 1))
      = (length (probablyMissingGRF (mInit P)) < length (poseTrials (mInit P)))
   \<and> isl (computeGradient ops P x)
      = (length (probablyMissingGRF (mInit P)) < length (poseTrials (mInit P)))"
  by (simp add: computeLoss_def computeGradient_def Let_def unflatten_keeps_mInit
        split: prod.splits)

section \<open>computeLoss: the residual term\<close>


















section \<open>The constraints of a problem with two trials\<close>

lemma twoTrialProblem_fields:
  "mPoses twoTrialProblem = [[[1], [2]], [[3], [5]]]"
  "mVels twoTrialProblem = [[[1]], [[2]]]"
  "mAccs twoTrialProblem = [[], []]"
  "mSkeleton twoTrialProblem = oneDofSkel"
  "mMarkers twoTrialProblem = []"
  "mIncludeMasses twoTrialProblem = False"
  "mIncludeCOMs twoTrialProblem = False"
  "mIncludeInertias twoTrialProblem = False"
  "mIncludeBodyScales twoTrialProblem = False"
  "mIncludeMarkerOffsets twoTrialProblem = False"
  "mIncludePoses twoTrialProblem = True"
  "mLastX twoTrialProblem = []"
  "trialTimesteps (mInit twoTrialProblem) = [1, 1]"
  by (simp_all add: twoTrialProblem_def newDynamicsFitProblem_def twoTrialInit_def emptyInit_def
        fitProblem_vels_def fitProblem_accs_def vsub_def vadd_def smul_def upt_rec
        setIncludeMasses_def setIncludeCOMs_def setIncludeInertias_def
        setIncludeBodyScales_def setIncludeMarkerOffsets_def)

lemma twoTrialProblem_sizes:
  "getProblemSize twoTrialProblem = 6" "getConstraintSize twoTrialProblem = 1"
  by (simp_all add: getProblemSize_def getConstraintSize_def Let_def twoTrialProblem_fields
        oneDofSkel_def upt_rec)

lemma twoTrialProblem_unflatten:
  "unflatten twoTrialProblem [1, 1, 2, 3, 2, 5] = twoTrialProblem\<lparr>mLastX := [1, 1, 2, 3, 2, 5]\<rparr>"
  by (simp add: unflatten_def Let_def unflatten_masses_def unflatten_COMs_def
        unflatten_inertias_def unflatten_bodyScales_def unflatten_markerOffsets_def
        unflatten_poses_def unflatten_trials_def unflatten_trial_def
        twoTrialProblem_fields oneDofSkel_def upt_rec segment_def)

lemma getConstraintSize_mLastX: "getConstraintSize (P\<lparr>mLastX := x\<rparr>) = getConstraintSize P"
  by (simp add: getConstraintSize_def)

text \<open>
  C3 (fails on the code). With two trials, \<open>getConstraintSize()\<close> is \<open>1\<close>: the trailing
  block of \<open>dofs\<close> rows is added once, after the loop over the trials. The loops of
  \<open>computeConstraints\<close> write one trailing block per trial, two values here, as they do
  into a vector of two entries; into the vector of \<open>getConstraintSize()\<close> entries the
  second write is out of range.
\<close>

theorem constraint_size_two_trials:
  "getConstraintSize twoTrialProblem = 1
   \<and> computeConstraints twoTrialProblem [1, 1, 2, 3, 2, 5] = Inl EigenAssert
   \<and> fold (\<lambda>trial st.
             constraints_trial 1 (trialTimesteps (mInit twoTrialProblem) ! trial)
               (mPoses twoTrialProblem ! trial) (mVels twoTrialProblem ! trial)
               (mAccs twoTrialProblem ! trial) st)
        [0..<length (mAccs twoTrialProblem)] (Inr (Zero 2, 0))
       = Inr ([0, 0], 2)"
  by (simp add: computeConstraints_def Let_def twoTrialProblem_unflatten twoTrialProblem_sizes
        getConstraintSize_mLastX
        twoTrialProblem_fields constraints_trial_def write_coeff_def Zero_def oneDofSkel_def
        upt_rec eval_nat_numeral)

text \<open>
  C7 (fails on the code). With two trials, the sparse Jacobian has the rows \<open>0\<close> and
  \<open>1\<close>, three triples each, and \<open>computeConstraintsJacobian\<close> allocates
  \<open>getConstraintSize() = 1\<close> row: writing the triples of row \<open>1\<close> is out of range.
\<close>

theorem dense_jacobian_two_trials:
  "computeSparseConstraintsJacobian twoTrialProblem
     = Inr [(0, 0, 1), (0, 2, - 1), (0, 1, 1), (1, 3, 1), (1, 5, - 1), (1, 4, 1)]
   \<and> getConstraintSize twoTrialProblem = 1
   \<and> computeConstraintsJacobian twoTrialProblem = Inl EigenAssert"
  by (simp add: computeSparseConstraintsJacobian_def computeConstraintsJacobian_def Let_def
        sparse_trial_def sparse_colCursor0_def twoTrialProblem_sizes twoTrialProblem_fields
        Zero_def oneDofSkel_def upt_rec eval_nat_numeral)

section \<open>Foot-ground contact estimation\<close>

lemma footActive_cong: "grfTrials J = grfTrials I \<Longrightarrow> footActive J = footActive I"
  by (intro ext) (simp add: footActive_def)

lemma bodyInPlate_cong:
  assumes "sameInputs I J" and "defaultForcePlateCorners J ! j = defaultForcePlateCorners I ! j"
    and "\<And>q. setPositions s' q = setPositions s q"
  shows "bodyInPlate ops geo (setPositions s' q) J j b = bodyInPlate ops geo (setPositions s q) I j b"
  using assms by (intro ext) (simp add: bodyInPlate_def sameInputs_def)

lemma anyInPlate_cong:
  assumes "sameInputs I J" and "defaultForcePlateCorners J ! j = defaultForcePlateCorners I ! j"
    and "\<And>q. setPositions s' q = setPositions s q"
  shows "anyInPlate ops geo (setPositions s' q) J j b = anyInPlate ops geo (setPositions s q) I j b"
proof -
  have "contactBodies J = contactBodies I"
    using assms(1) by (simp add: sameInputs_def)
  then show ?thesis
    unfolding anyInPlate_def bodyInPlate_cong[OF assms] by (rule arg_cong)
qed

lemma frameFlagsOK_cong:
  assumes "sameInputs I J" and "sameTrial I J j" and "\<And>q. setPositions s' q = setPositions s q"
  shows "frameFlagsOK ops geo s' J j t = frameFlagsOK ops geo s I j t"
proof -
  have fa: "footActive J = footActive I"
    using assms(1) by (intro footActive_cong) (simp add: sameInputs_def)
  have dfc: "defaultForcePlateCorners J ! j = defaultForcePlateCorners I ! j"
    and out: "grfBodyForceActive J ! j = grfBodyForceActive I ! j"
      "grfBodySphereInContact J ! j = grfBodySphereInContact I ! j"
      "probablyMissingGRF J ! j = probablyMissingGRF I ! j"
    using assms(2) by (simp_all add: sameTrial_def)
  have pt: "poseTrials J = poseTrials I" "grfBodyNodes J = grfBodyNodes I"
    using assms(1) by (simp_all add: sameInputs_def)
  show ?thesis
    by (simp only: frameFlagsOK_def fa pt out anyInPlate_cong[OF assms(1) dfc assms(3)])
qed

lemma growSpheres_fst:
  "\<forall>q. setPositions (fst st) q = setPositions s q
   \<Longrightarrow> \<forall>q. setPositions (fst (growSpheres ops I trial g t st)) q = setPositions s q"
  by (cases st) (simp add: growSpheres_def Let_def setPositions_def)

lemma growSpheres_fold_fst:
  "\<forall>q. setPositions (fst (fold (growSpheres ops I trial g) ts (s, sz))) q = setPositions s q"
  by (rule fold_preserves[where Q = "\<lambda>st. \<forall>q. setPositions (fst st) q = setPositions s q"])
     (simp_all add: growSpheres_fst)

lemma setPositions_fold:
  "\<forall>q. setPositions (fold (\<lambda>t s. setPositions s (f t)) ts s) q = setPositions s q"
  by (rule fold_preserves[where Q = "\<lambda>s'. \<forall>q. setPositions s' q = setPositions s q"])
     (simp_all add: setPositions_def)

lemma setPositions_twice: "setPositions (setPositions s p) q = setPositions s q"
  by (simp add: setPositions_def)

lemma estimateTrial_step:
  assumes dn: "trialsDone I trial"
    and run: "estimateTrial ops geo trial (s, I) = (s', I')"
  shows "sameInputs I I' \<and> trialsDone I' (Suc trial)
         \<and> (\<forall>j<trial. sameTrial I I' j)
         \<and> (\<forall>q. setPositions s' q = setPositions s q)
         \<and> (\<forall>t<length (poseTrials I ! trial). frameFlagsOK ops geo s I' trial t)"
proof -
  let ?plates = "forcePlateTrials I ! trial"
  let ?cols = "length (poseTrials I ! trial)"
  obtain ngc g fl where c1: "groundFromCorners ?plates = (ngc, g, fl)"
    by (cases "groundFromCorners ?plates") auto
  obtain ngc2 g2 where
    c2: "(if ngc then groundFromCOP ?plates ?cols (ngc, g) else (ngc, g)) = (ngc2, g2)"
    by (cases "if ngc then groundFromCOP ?plates ?cols (ngc, g) else (ngc, g)") auto
  let ?zeros = "map (\<lambda>b. replicate (length (contactBodies I ! b)) 0)
                  [0..<length (contactBodies I)]"
  obtain s1 sizes where
    c3: "fold (growSpheres ops I trial g2) [0..<?cols] (s, ?zeros) = (s1, sizes)"
    by (cases "fold (growSpheres ops I trial g2) [0..<?cols] (s, ?zeros)") auto
  have s1: "setPositions s1 q = setPositions s q" for q
    using growSpheres_fold_fst[of ops I trial g2 "[0..<?cols]" s ?zeros] by (simp add: c3)
  define d where "d = defaultCornersOf ?plates ?cols g2"
  define d' where "d' = (if length d > 0 then prepareConvex2DShape geo d (d ! 0) else d)"
  have len: "length (defaultForcePlateCorners I) = trial" "length (grfBodyForceActive I) = trial"
    "length (grfBodySphereInContact I) = trial" "length (probablyMissingGRF I) = trial"
    using dn by (simp_all add: trialsDone_def)
  define Imid where "Imid = I\<lparr>grfBodyContactSphereRadius := grfBodyContactSphereRadius I @ [sizes],
      groundHeight := groundHeight I @ [g2], flatGround := flatGround I @ [fl],
      defaultForcePlateCorners := defaultForcePlateCorners I @ [d']\<rparr>"
  define bodies where "bodies = [0..<length (grfBodyNodes I)]"
  define FA where "FA = map (\<lambda>t. map (footActive Imid trial t) bodies) [0..<?cols]"
  define SIC where "SIC = map (\<lambda>t. map (sphereInContact ops
       (setPositions s1 (poseTrials I ! trial ! t)) Imid g2 sizes) bodies) [0..<?cols]"
  define OFF where "OFF = map (\<lambda>t. map (contactIsSus ops geo
       (setPositions s1 (poseTrials I ! trial ! t)) Imid g2 sizes trial t) bodies) [0..<?cols]"
  define PMG where "PMG = map (\<lambda>t. list_ex (contactIsSus ops geo
       (setPositions s1 (poseTrials I ! trial ! t)) Imid g2 sizes trial t) bodies) [0..<?cols]"
  define I1 where "I1 = I\<lparr>grfBodyContactSphereRadius := grfBodyContactSphereRadius I @ [sizes],
      groundHeight := groundHeight I @ [g2], flatGround := flatGround I @ [fl]\<rparr>"
  define I2 where "I2 = I1\<lparr>defaultForcePlateCorners := defaultForcePlateCorners I1 @ [d]\<rparr>"
  define I3 where "I3 = (if length (defaultForcePlateCorners I2 ! trial) > 0
                   then I2\<lparr>defaultForcePlateCorners :=
                          (defaultForcePlateCorners I2)
                            [trial := prepareConvex2DShape geo
                                        (defaultForcePlateCorners I2 ! trial)
                                        (defaultForcePlateCorners I2 ! trial ! 0)]\<rparr>
                   else I2)"
  have upd: "(defaultForcePlateCorners I @ [d])[trial := y] = defaultForcePlateCorners I @ [y]"
    for y
    using list_update_length[of "defaultForcePlateCorners I" d "[]" y] by (simp add: len)
  have I3: "I3 = Imid"
    by (cases "d = []") (simp_all add: I3_def I2_def I1_def Imid_def d'_def len nth_append upd)
  have "estimateTrial ops geo trial (s, I) =
         (fold (\<lambda>t s. setPositions s (poseTrials I3 ! trial ! t)) [0..<?cols] s1,
          I3\<lparr>grfBodyForceActive := grfBodyForceActive I3 @
              [map (\<lambda>t. map (footActive I3 trial t) [0..<length (grfBodyNodes I3)]) [0..<?cols]],
            grfBodySphereInContact := grfBodySphereInContact I3 @
              [map (\<lambda>t. map (sphereInContact ops (setPositions s1 (poseTrials I3 ! trial ! t))
                    I3 g2 sizes) [0..<length (grfBodyNodes I3)]) [0..<?cols]],
            grfBodyOffForcePlate := grfBodyOffForcePlate I3 @
              [map (\<lambda>t. map (contactIsSus ops geo (setPositions s1 (poseTrials I3 ! trial ! t))
                    I3 g2 sizes trial t) [0..<length (grfBodyNodes I3)]) [0..<?cols]],
            probablyMissingGRF := probablyMissingGRF I3 @
              [map (\<lambda>t. list_ex (contactIsSus ops geo (setPositions s1 (poseTrials I3 ! trial ! t))
                    I3 g2 sizes trial t) [0..<length (grfBodyNodes I3)]) [0..<?cols]]\<rparr>)"
    unfolding estimateTrial_def I3_def I2_def I1_def d_def
    by (simp only: prod.case Let_def c1 c2 c3)
  then have I': "I' = Imid\<lparr>grfBodyForceActive := grfBodyForceActive I @ [FA],
       grfBodySphereInContact := grfBodySphereInContact I @ [SIC],
       grfBodyOffForcePlate := grfBodyOffForcePlate I @ [OFF],
       probablyMissingGRF := probablyMissingGRF I @ [PMG]\<rparr>"
    and s': "s' = fold (\<lambda>t s. setPositions s (poseTrials I ! trial ! t)) [0..<?cols] s1"
    using run unfolding I3
    by (simp_all add: Imid_def bodies_def FA_def SIC_def OFF_def PMG_def)
  have inputs: "sameInputs I I'"
    by (simp add: sameInputs_def I' Imid_def)
  have lens: "trialsDone I' (Suc trial)"
    by (simp add: trialsDone_def I' Imid_def len)
  have old: "\<forall>j<trial. sameTrial I I' j"
    by (simp add: sameTrial_def I' Imid_def nth_append len)
  have skel: "\<forall>q. setPositions s' q = setPositions s q"
    using setPositions_fold[of "\<lambda>t. poseTrials I ! trial ! t" "[0..<?cols]" s1]
    by (simp add: s' s1)
  have flags: "frameFlagsOK ops geo s I' trial t" if t: "t < ?cols" for t
  proof -
    let ?st = "setPositions s (poseTrials I ! trial ! t)"
    have fa: "footActive I' = footActive Imid"
      by (rule footActive_cong) (simp add: I')
    have "bodyInPlate ops geo ?st I' trial b = bodyInPlate ops geo ?st Imid trial b" for b
      by (intro ext) (simp add: bodyInPlate_def I')
    then have aip: "anyInPlate ops geo ?st I' trial b = anyInPlate ops geo ?st Imid trial b" for b
      by (simp add: anyInPlate_def I')
    have sic: "grfBodySphereInContact I' ! trial ! t ! b
                 = sphereInContact ops ?st Imid g2 sizes b" if "b < length (grfBodyNodes I)" for b
      using that t by (simp add: I' len nth_append SIC_def bodies_def s1)
    have pmg: "probablyMissingGRF I' ! trial ! t
                 = list_ex (contactIsSus ops geo ?st Imid g2 sizes trial t) bodies"
      using t by (simp add: I' len nth_append PMG_def s1)
    have faI: "grfBodyForceActive I' ! trial ! t = map (footActive Imid trial t) bodies"
      using t by (simp add: I' len nth_append FA_def)
    have nodes: "grfBodyNodes I' = grfBodyNodes I" "poseTrials I' = poseTrials I"
      by (simp_all add: I' Imid_def)
    show ?thesis
      unfolding frameFlagsOK_def nodes fa pmg faI
      by (auto simp add: bodies_def list_ex_iff contactIsSus_def Let_def sic aip)
  qed
  from inputs lens old skel flags show ?thesis by blast
qed

lemma sameInputs_refl: "sameInputs I I"
  by (simp add: sameInputs_def)

lemma sameTrial_refl: "sameTrial I I j"
  by (simp add: sameTrial_def)

lemma sameInputs_trans: "sameInputs I J \<Longrightarrow> sameInputs J K \<Longrightarrow> sameInputs I K"
  by (simp add: sameInputs_def)

lemma estimateTrials_invariant:
  assumes "trialsDone I0 0"
    and "fold (estimateTrial ops geo) [0..<k] (skel, I0) = (s, I)"
  shows "sameInputs I0 I \<and> trialsDone I k
         \<and> (\<forall>q. setPositions s q = setPositions skel q)
         \<and> (\<forall>j<k. \<forall>t<length (poseTrials I0 ! j). frameFlagsOK ops geo skel I j t)"
  using assms(2)
proof (induction k arbitrary: s I)
  case 0
  then show ?case
    using assms(1) by (simp add: sameInputs_refl)
next
  case (Suc k)
  obtain s1 I1 where prev: "fold (estimateTrial ops geo) [0..<k] (skel, I0) = (s1, I1)"
    by (cases "fold (estimateTrial ops geo) [0..<k] (skel, I0)") auto
  have run: "estimateTrial ops geo k (s1, I1) = (s, I)"
    using Suc.prems by (simp add: prev)
  note ih = Suc.IH[OF prev]
  have in1: "sameInputs I0 I1" and dn: "trialsDone I1 k"
    and sk1: "\<And>q. setPositions s1 q = setPositions skel q"
    and fl1: "\<And>j t. j < k \<Longrightarrow> t < length (poseTrials I0 ! j)
                \<Longrightarrow> frameFlagsOK ops geo skel I1 j t"
    using ih by simp_all
  note st = estimateTrial_step[OF dn run]
  have in2: "sameInputs I1 I" and dn2: "trialsDone I (Suc k)"
    and old: "\<And>j. j < k \<Longrightarrow> sameTrial I1 I j"
    and sk2: "\<And>q. setPositions s q = setPositions s1 q"
    and fl2: "\<And>t. t < length (poseTrials I1 ! k) \<Longrightarrow> frameFlagsOK ops geo s1 I k t"
    using st by simp_all
  have pt: "poseTrials I1 = poseTrials I0"
    using in1 by (simp add: sameInputs_def)
  have flags: "frameFlagsOK ops geo skel I j t"
    if j: "j < Suc k" and t: "t < length (poseTrials I0 ! j)" for j t
  proof (cases "j < k")
    case True
    have "frameFlagsOK ops geo skel I j t = frameFlagsOK ops geo skel I1 j t"
      by (rule frameFlagsOK_cong[OF in2 old[OF True] refl])
    then show ?thesis
      using fl1[OF True t] by simp
  next
    case False
    then have jk: "j = k"
      using j by simp
    have "frameFlagsOK ops geo skel I k t = frameFlagsOK ops geo s1 I k t"
      by (rule frameFlagsOK_cong[OF sameInputs_refl sameTrial_refl sk1[symmetric]])
    then show ?thesis
      using fl2[of t] t by (simp add: jk pt)
  qed
  show ?case
    using sameInputs_trans[OF in1 in2] dn2 sk1 sk2 flags by simp
qed

lemma expand_contactBodies:
  "poseTrials J = poseTrials I \<and> grfTrials J = grfTrials I
   \<and> forcePlateTrials J = forcePlateTrials I \<and> grfBodyNodes J = grfBodyNodes I
   \<and> defaultForcePlateCorners J = defaultForcePlateCorners I
   \<and> grfBodyForceActive J = grfBodyForceActive I
   \<and> grfBodySphereInContact J = grfBodySphereInContact I
   \<and> probablyMissingGRF J = probablyMissingGRF I"
  if "J = fold (\<lambda>i init.
                   init\<lparr>contactBodies :=
                          contactBodies init
                            @ [bfsContactBodies (grfBodyNodes init) [grfBodyNodes init ! i]]\<rparr>)
            is I"
  unfolding that
  by (rule fold_preserves[where Q = "\<lambda>J. poseTrials J = poseTrials I \<and> grfTrials J = grfTrials I
   \<and> forcePlateTrials J = forcePlateTrials I \<and> grfBodyNodes J = grfBodyNodes I
   \<and> defaultForcePlateCorners J = defaultForcePlateCorners I
   \<and> grfBodyForceActive J = grfBodyForceActive I
   \<and> grfBodySphereInContact J = grfBodySphereInContact I
   \<and> probablyMissingGRF J = probablyMissingGRF I"]) simp_all

lemma small_norm_not_active:
  assumes "norm2 v < 1 / 1000"
  shows "\<not> squaredNorm v > 1 / 1000"
proof
  assume "squaredNorm v > 1 / 1000"
  then have "sqrt (1 / 1000) < sqrt (squaredNorm v)"
    by (simp only: real_sqrt_less_iff)
  moreover have "(1 / 1000 :: real) \<le> sqrt (1 / 1000)"
    by (rule real_le_rsqrt) (simp add: power2_eq_square)
  ultimately show False
    using assms unfolding norm2_def by linarith
qed

lemma estimateFootGroundContacts_frame:
  assumes fresh: "defaultForcePlateCorners init = []" "grfBodyForceActive init = []"
      "grfBodySphereInContact init = []" "probablyMissingGRF init = []"
    and run: "estimateFootGroundContacts ops geo skel init = (skel', init')"
    and trial: "trial < length (forcePlateTrials init)"
    and t: "t < length (poseTrials init ! trial)"
  shows "frameFlagsOK ops geo skel init' trial t
         \<and> poseTrials init' = poseTrials init \<and> grfTrials init' = grfTrials init
         \<and> forcePlateTrials init' = forcePlateTrials init
         \<and> grfBodyNodes init' = grfBodyNodes init"
proof -
  define I0 where "I0 = fold (\<lambda>i init.
                   init\<lparr>contactBodies :=
                          contactBodies init
                            @ [bfsContactBodies (grfBodyNodes init) [grfBodyNodes init ! i]]\<rparr>)
            [0..<length (grfBodyNodes init)] init"
  note e = expand_contactBodies[OF I0_def]
  have dn: "trialsDone I0 0"
    using e fresh by (simp add: trialsDone_def)
  have fp: "forcePlateTrials I0 = forcePlateTrials init"
    using e by simp
  have "fold (estimateTrial ops geo) [0..<length (forcePlateTrials init)] (skel, I0)
          = (skel', init')"
    using run unfolding estimateFootGroundContacts_def Let_def I0_def[symmetric] fp .
  note inv = estimateTrials_invariant[OF dn this]
  have "frameFlagsOK ops geo skel init' trial t"
    using inv trial t e by simp
  moreover have "sameInputs I0 init'"
    using inv by simp
  ultimately show ?thesis
    using e by (simp add: sameInputs_def)
qed

text \<open>
  C9. Run on an initialization whose per-trial annotation vectors are still empty, the
  function records, for every trial, frame and ground-reaction body: a body whose 6-dof
  wrench has norm below \<open>1e-3\<close> is not force-active; and when the sphere of the body
  predicts contact, its force is not active, and no contact body of it lies over a force
  plate with corners or over the default plate of the trial, the frame is flagged in
  \<open>probablyMissingGRF\<close>.
\<close>

theorem estimateFootGroundContacts_boundary_cases:
  assumes "defaultForcePlateCorners init = []" and "grfBodyForceActive init = []"
    and "grfBodySphereInContact init = []" and "probablyMissingGRF init = []"
    and "estimateFootGroundContacts ops geo skel init = (skel', init')"
    and "trial < length (forcePlateTrials init)"
    and "t < length (poseTrials init ! trial)"
    and "b < length (grfBodyNodes init)"
  shows "(norm2 (segment (grfTrials init ! trial ! t) (b * 6) 6) < 1 / 1000
            \<longrightarrow> \<not> grfBodyForceActive init' ! trial ! t ! b)
         \<and> (grfBodySphereInContact init' ! trial ! t ! b
            \<and> \<not> grfBodyForceActive init' ! trial ! t ! b
            \<and> (\<forall>c<length (contactBodies init' ! b).
                  (\<forall>plate\<in>set (forcePlateTrials init ! trial).
                      corners plate \<noteq> [] \<longrightarrow>
                      \<not> convex2DShapeContains geo
                          (bodyWorldPosition ops
                             (setPositions skel (poseTrials init ! trial ! t))
                             (getIndexInSkeleton (contactBodies init' ! b ! c)))
                          (map (map Fin) (corners plate)) (map Fin (worldOrigin plate)))
                  \<and> (defaultForcePlateCorners init' ! trial \<noteq> [] \<longrightarrow>
                      \<not> convex2DShapeContains geo
                          (bodyWorldPosition ops
                             (setPositions skel (poseTrials init ! trial ! t))
                             (getIndexInSkeleton (contactBodies init' ! b ! c)))
                          (defaultForcePlateCorners init' ! trial)
                          (defaultForcePlateCorners init' ! trial ! 0)))
            \<longrightarrow> probablyMissingGRF init' ! trial ! t)"
proof -
  note fr = estimateFootGroundContacts_frame[OF assms(1-7)]
  have same: "poseTrials init' = poseTrials init" "grfTrials init' = grfTrials init"
    "forcePlateTrials init' = forcePlateTrials init" "grfBodyNodes init' = grfBodyNodes init"
    using fr by simp_all
  have fa: "grfBodyForceActive init' ! trial ! t ! b = footActive init trial t b"
    using fr assms(8) by (simp add: frameFlagsOK_def same footActive_def)
  have pmg: "probablyMissingGRF init' ! trial ! t
       = (\<exists>b<length (grfBodyNodes init). grfBodySphereInContact init' ! trial ! t ! b
              \<and> \<not> footActive init trial t b
              \<and> \<not> anyInPlate ops geo (setPositions skel (poseTrials init ! trial ! t))
                     init' trial b)"
    using fr by (auto simp add: frameFlagsOK_def same footActive_def list_ex_iff)
  have one: "norm2 (segment (grfTrials init ! trial ! t) (b * 6) 6) < 1 / 1000
               \<longrightarrow> \<not> grfBodyForceActive init' ! trial ! t ! b"
    unfolding fa footActive_def using small_norm_not_active by blast
  have two: "probablyMissingGRF init' ! trial ! t"
    if sic: "grfBodySphereInContact init' ! trial ! t ! b"
      and nfa: "\<not> grfBodyForceActive init' ! trial ! t ! b"
      and out: "\<forall>c<length (contactBodies init' ! b).
                  (\<forall>plate\<in>set (forcePlateTrials init ! trial).
                      corners plate \<noteq> [] \<longrightarrow>
                      \<not> convex2DShapeContains geo
                          (bodyWorldPosition ops
                             (setPositions skel (poseTrials init ! trial ! t))
                             (getIndexInSkeleton (contactBodies init' ! b ! c)))
                          (map (map Fin) (corners plate)) (map Fin (worldOrigin plate)))
                  \<and> (defaultForcePlateCorners init' ! trial \<noteq> [] \<longrightarrow>
                      \<not> convex2DShapeContains geo
                          (bodyWorldPosition ops
                             (setPositions skel (poseTrials init ! trial ! t))
                             (getIndexInSkeleton (contactBodies init' ! b ! c)))
                          (defaultForcePlateCorners init' ! trial)
                          (defaultForcePlateCorners init' ! trial ! 0))"
  proof -
    have "\<not> anyInPlate ops geo (setPositions skel (poseTrials init ! trial ! t)) init' trial b"
      using out by (auto simp add: anyInPlate_def bodyInPlate_def Let_def list_ex_iff same)
    then show ?thesis
      unfolding pmg using sic nfa assms(8) fa by blast
  qed
  from one two show ?thesis by blast
qed

lemma contactInit_fields:
  "poseTrials contactInit = [[[1 / 2, 1 / 2, 1 / 2], [5, 1 / 4, 5]]]"
  "grfTrials contactInit = [[[0, 1, 0, 0, 0, 0], [0, 0, 0, 0, 0, 0]]]"
  "forcePlateTrials contactInit =
     [[\<lparr>corners = [[0, 0, 0], [1, 0, 0], [1, 0, 1], [0, 0, 1]],
        centersOfPressure = [[1 / 2, 0, 1 / 2], [0, 0, 0]],
        worldOrigin = [0, 0, 0]\<rparr>]]"
  "grfBodyNodes contactInit = [BodyNode 0 []]"
  "contactBodies contactInit = []"
  "defaultForcePlateCorners contactInit = []"
  "grfBodyForceActive contactInit = []"
  "grfBodySphereInContact contactInit = []"
  "probablyMissingGRF contactInit = []"
  "grfBodyContactSphereRadius contactInit = []"
  "groundHeight contactInit = []"
  "flatGround contactInit = []"
  "grfBodyOffForcePlate contactInit = []"
  by (simp_all add: contactInit_def emptyInit_def)

lemma contactInit_active:
  "footActive contactInit 0 0 0" "\<not> footActive contactInit 0 (Suc 0) 0"
  by (simp_all add: footActive_def contactInit_fields segment_def squaredNorm_def dot_def)

lemma contactInit_ground:
  "groundFromCorners
     [\<lparr>corners = [[0, 0, 0], [1, 0, 0], [1, 0, 1], [0, 0, 1]],
       centersOfPressure = [[1 / 2, 0, 1 / 2], [0, 0, 0]],
       worldOrigin = [0, 0, 0]\<rparr>] = (False, Fin 0, False)"
  by (simp add: groundFromCorners_def)

lemma pointOps_position: "bodyWorldPosition pointOps s b = positions s"
  by (simp add: pointOps_def)

lemma boxGeo_ops:
  "convex2DShapeContains boxGeo p shape origin
     = (list_ex (\<lambda>a. \<not> ext_less (Fin (p ! 0)) (a ! 0)) shape
        \<and> list_ex (\<lambda>a. \<not> ext_less (a ! 0) (Fin (p ! 0))) shape
        \<and> list_ex (\<lambda>a. \<not> ext_less (Fin (p ! 2)) (a ! 2)) shape
        \<and> list_ex (\<lambda>a. \<not> ext_less (a ! 2) (Fin (p ! 2))) shape)"
  "prepareConvex2DShape boxGeo shape origin = shape"
  by (simp_all add: boxGeo_def)

lemma contactInit_expand:
  "fold (\<lambda>i init.
            init\<lparr>contactBodies :=
                   contactBodies init
                     @ [bfsContactBodies (grfBodyNodes init) [grfBodyNodes init ! i]]\<rparr>)
     [0..<length (grfBodyNodes contactInit)] contactInit
   = contactInit\<lparr>contactBodies := [[BodyNode 0 []]]\<rparr>"
  by (simp add: contactInit_fields)

lemma footActive_contactBodies:
  "footActive (I\<lparr>contactBodies := X\<rparr>) trial t b = footActive I trial t b"
  by (simp add: footActive_def)

lemma contactInit_spheres:
  "growSpheres pointOps (contactInit\<lparr>contactBodies := [[BodyNode 0 []]]\<rparr>) 0 (Fin 0) 0
     (pointSkel, [[0]]) = (pointSkel\<lparr>positions := [1 / 2, 1 / 2, 1 / 2]\<rparr>, [[1 / 2]])"
  "growSpheres pointOps (contactInit\<lparr>contactBodies := [[BodyNode 0 []]]\<rparr>) 0 (Fin 0)
     (Suc 0) (pointSkel\<lparr>positions := [1 / 2, 1 / 2, 1 / 2]\<rparr>, [[1 / 2]])
   = (pointSkel\<lparr>positions := [5, 1 / 4, 5]\<rparr>, [[1 / 2]])"
  by (simp_all add: growSpheres_def contactInit_fields contactInit_active
        footActive_contactBodies contactDist_def pointOps_position setPositions_def Let_def)

lemma contactInit_trial:
  "estimateTrial pointOps boxGeo 0 (pointSkel, contactInit\<lparr>contactBodies := [[BodyNode 0 []]]\<rparr>)
     = (pointSkel\<lparr>positions := [5, 1 / 4, 5]\<rparr>,
        contactInit\<lparr>contactBodies := [[BodyNode 0 []]],
                     grfBodyContactSphereRadius := [[[1 / 2]]],
                     groundHeight := [Fin 0], flatGround := [False],
                     defaultForcePlateCorners := [[]],
                     grfBodyForceActive := [[[True], [False]]],
                     grfBodySphereInContact := [[[False], [True]]],
                     grfBodyOffForcePlate := [[[False], [True]]],
                     probablyMissingGRF := [[False, True]]\<rparr>)"
proof -
  have two: "[0..<2] = [0, Suc 0]"
    by (simp add: upt_rec)
  have dflt: "defaultCornersOf
     [\<lparr>corners = [[0, 0, 0], [1, 0, 0], [1, 0, 1], [0, 0, 1]],
       centersOfPressure = [[1 / 2, 0, 1 / 2], [0, 0, 0]],
       worldOrigin = [0, 0, 0]\<rparr>] n g = []" for n g
    by (simp add: defaultCornersOf_def)
  show ?thesis
    unfolding estimateTrial_def
    by (simp add: contactInit_fields contactInit_ground contactInit_spheres two
          dflt Let_def footActive_def segment_def squaredNorm_def dot_def sphereInContact_def
          contactIsSus_def anyInPlate_def bodyInPlate_def contactDist_def pointOps_position
          boxGeo_ops setPositions_def)
qed

lemma contactInit_result:
  "estimateFootGroundContacts pointOps boxGeo pointSkel contactInit
     = (pointSkel\<lparr>positions := [5, 1 / 4, 5]\<rparr>,
        contactInit\<lparr>contactBodies := [[BodyNode 0 []]],
                     grfBodyContactSphereRadius := [[[1 / 2]]],
                     groundHeight := [Fin 0], flatGround := [False],
                     defaultForcePlateCorners := [[]],
                     grfBodyForceActive := [[[True], [False]]],
                     grfBodySphereInContact := [[[False], [True]]],
                     grfBodyOffForcePlate := [[[False], [True]]],
                     probablyMissingGRF := [[False, True]]\<rparr>)"
  unfolding estimateFootGroundContacts_def Let_def contactInit_expand
  by (simp add: contactInit_fields contactInit_trial)

theorem estimateFootGroundContacts_boundary_cases_witness:
  "\<not> grfBodyForceActive
        (snd (estimateFootGroundContacts pointOps boxGeo pointSkel contactInit)) ! 0 ! 1 ! 0
   \<and> probablyMissingGRF
        (snd (estimateFootGroundContacts pointOps boxGeo pointSkel contactInit)) ! 0 ! 1"
  unfolding contactInit_result snd_conv
  using estimateFootGroundContacts_boundary_cases[
      OF contactInit_fields(6-9) contactInit_result, of 0 1 0]
  by (simp add: contactInit_fields norm2_def segment_def squaredNorm_def dot_def boxGeo_ops
        pointOps_position setPositions_def)

section \<open>The gradient with respect to the marker offsets\<close>

lemma markerProblem_fields:
  "mPoses markerProblem = [[[0], [0]]]"
  "mVels markerProblem = [[[0]]]"
  "mAccs markerProblem = [[]]"
  "mSkeleton markerProblem = oneDofSkel"
  "mMarkers markerProblem = [(0, [0, 0, 0])]"
  "mMarkerNames markerProblem = [''M'']"
  "mMarkerIsTracking markerProblem = [False]"
  "mMarkerMap markerProblem = [(''M'', 0, [0, 0, 0])]"
  "mIncludeMasses markerProblem = False"
  "mIncludeCOMs markerProblem = False"
  "mIncludeInertias markerProblem = False"
  "mIncludeBodyScales markerProblem = False"
  "mIncludeMarkerOffsets markerProblem = True"
  "mIncludePoses markerProblem = False"
  "mLastX markerProblem = []"
  "mInit markerProblem = markerInit"
  "mMarkerWeight markerProblem = 1"
  "mJointWeight markerProblem = 1"
  "mMarkerUseL1 markerProblem = False"
  "mRegularizeMasses markerProblem = 1"
  "mRegularizeCOMs markerProblem = 1"
  "mRegularizeInertias markerProblem = 1"
  "mRegularizeBodyScales markerProblem = 2 / 10"
  "mRegularizeAnatomicalMarkerOffsets markerProblem = 10"
  "mRegularizePoses markerProblem = 0"
  by (simp_all add: markerProblem_def newDynamicsFitProblem_def markerInit_def emptyInit_def
        fitProblem_vels_def fitProblem_accs_def vsub_def vadd_def smul_def upt_rec
        setIncludeMasses_def setIncludeCOMs_def setIncludeInertias_def
        setIncludeBodyScales_def setIncludePoses_def)

lemma markerInit_fields:
  "poseTrials markerInit = [[[0], [0]]]"
  "markerObservationTrials markerInit = [[[''M'' \<mapsto> [0, 0, 0]], [''M'' \<mapsto> [0, 0, 0]]]]"
  "originalGroupMasses markerInit = [1]"
  "originalGroupCOMs markerInit = [0, 0, 0]"
  "originalGroupInertias markerInit = [1, 1, 1, 0, 0, 0]"
  "originalGroupScales markerInit = [1, 1, 1]"
  "originalMarkerOffsets markerInit = [''M'' \<mapsto> [0, 0, 0]]"
  "originalPoses markerInit = [[[0], [0]]]"
  "jointCenters markerInit = [[[], []]]"
  "jointAxis markerInit = [[[], []]]"
  "joints markerInit = []"
  "jointWeights markerInit = []"
  "axisWeights markerInit = []"
  "probablyMissingGRF markerInit = [[False, False]]"
  by (simp_all add: markerInit_def emptyInit_def)

lemma markerProblem_unflatten:
  "unflatten markerProblem [a, b, c]
     = markerProblem\<lparr>mLastX := [a, b, c], mMarkers := [(0, [a, b, c])]\<rparr>"
  by (simp add: unflatten_def Let_def unflatten_masses_def unflatten_COMs_def
        unflatten_inertias_def unflatten_bodyScales_def unflatten_markerOffsets_def
        unflatten_poses_def markerProblem_fields upt_rec segment_def)

lemma nullOps_markers:
  "getMarkerWorldPositions nullOps s m = concat (map snd m)"
  "getMarkerMapWorldPositions nullOps s mm = map_of (map (\<lambda>e. (fst e, snd (snd e))) mm)"
  "getJointWorldPositions nullOps s js = []"
  "getMarkerLossGradientWrtMarkerOffsets nullOps s m g = g"
  by (simp_all add: nullOps_def)

lemma markerProblem_regularization:
  "massRegularization (markerProblem\<lparr>mLastX := x, mMarkers := m\<rparr>) = 0"
  "comRegularization (markerProblem\<lparr>mLastX := x, mMarkers := m\<rparr>) = 0"
  "inertiaRegularization (markerProblem\<lparr>mLastX := x, mMarkers := m\<rparr>) = 0"
  "scaleRegularization (markerProblem\<lparr>mLastX := x, mMarkers := m\<rparr>) = 0"
  by (simp_all add: massRegularization_def comRegularization_def inertiaRegularization_def
        scaleRegularization_def markerProblem_fields markerInit_fields oneDofSkel_def
        squaredNorm_def dot_def vsub_def)

lemma markerProblem_markerRegularization:
  "markerRegularization (markerProblem\<lparr>mLastX := x, mMarkers := [(0, [v, 0, 0])]\<rparr>)
     = 10 * (v * v)"
  by (simp add: markerRegularization_def markerProblem_fields markerInit_fields
        squaredNorm_def dot_def vsub_def)

lemma markerProblem_loss_frame:
  assumes "t < 2"
  shows "loss_frame nullOps (markerProblem\<lparr>mLastX := x, mMarkers := [(0, [v, 0, 0])]\<rparr>) 0 t a
     = \<lparr> acc_skel = setPositions (acc_skel a) [0], acc_residualRMS = acc_residualRMS a,
         acc_markerRMS = acc_markerRMS a + v * v,
         acc_poseRegularization = acc_poseRegularization a, acc_jointRMS = acc_jointRMS a,
         acc_axisRMS = acc_axisRMS a, acc_markerCount = acc_markerCount a + 1 \<rparr>"
proof -
  have t: "t = 0 \<or> t = Suc 0"
    using assms by auto
  then show ?thesis
    unfolding loss_frame_def
    by (auto simp add: Let_def markerProblem_fields markerInit_fields nullOps_markers
          squaredNorm_def dot_def vsub_def segment_def)
qed

lemma markerProblem_loss_terms:
  "computeLoss_terms nullOps (markerProblem\<lparr>mLastX := x, mMarkers := [(0, [v, 0, 0])]\<rparr>)
     = \<lparr> acc_skel = oneDofSkel\<lparr>positions := [0]\<rparr>, acc_residualRMS = 0,
         acc_markerRMS = v * v + v * v,
         acc_poseRegularization = 0, acc_jointRMS = 0,
         acc_axisRMS = 0, acc_markerCount = 2 \<rparr>"
proof -
  have two: "[0..<2] = [0, Suc 0]"
    by (simp add: upt_rec)
  show ?thesis
    unfolding computeLoss_terms_def loss_trial_def
    by (simp add: markerProblem_fields two markerProblem_loss_frame setPositions_def)
qed

lemma markerProblem_loss:
  "computeLoss nullOps markerProblem [v, 0, 0] False
     = Inr (markerProblem\<lparr>mLastX := [v, 0, 0], mMarkers := [(0, [v, 0, 0])],
                           mSkeleton := oneDofSkel\<lparr>positions := [0]\<rparr>\<rparr>, 11 * v * v)"
  unfolding computeLoss_def markerProblem_unflatten
  by (simp add: Let_def markerProblem_fields markerInit_fields markerProblem_regularization
        markerProblem_markerRegularization markerProblem_loss_terms)

lemma markerProblem_gradient_regularization:
  "gradient_regularization (markerProblem\<lparr>mLastX := x, mMarkers := [(0, [v, 0, 0])]\<rparr>)
     = ([20 * v, 0, 0], 3)"
proof -
  have three: "replicate 3 (0 :: real) = [0, 0, 0]"
    by (simp add: eval_nat_numeral)
  show ?thesis
    unfolding gradient_regularization_def
    by (simp add: Let_def markerProblem_fields markerInit_fields getProblemSize_def
          add_segment_def set_segment_def Zero_def three vsub_def vadd_def smul_def segment_def)
qed

lemma markerProblem_markerCount:
  "gradient_markerCount (markerProblem\<lparr>mLastX := x, mMarkers := [(0, [v, 0, 0])]\<rparr>) = 2"
proof -
  have two: "[0..<2] = [0, Suc 0]"
    by (simp add: upt_rec)
  show ?thesis
    unfolding gradient_markerCount_def
    by (simp add: markerProblem_fields markerInit_fields two)
qed

lemma markerProblem_markerError:
  assumes "t < 2"
  shows "lossGradWrtMarkerError nullOps
           (markerProblem\<lparr>mLastX := x, mMarkers := [(0, [v, 0, 0])]\<rparr>) s 2 0 t = [0, 0, 0]"
proof -
  have t: "t = 0 \<or> t = Suc 0"
    using assms by auto
  have three: "replicate 3 (0 :: real) = [0, 0, 0]"
    by (simp add: eval_nat_numeral)
  from t show ?thesis
    unfolding lossGradWrtMarkerError_def
    by (auto simp add: Let_def markerProblem_fields markerInit_fields nullOps_markers
          set_segment_def Zero_def three vsub_def smul_def)
qed

lemma markerProblem_jointGrad:
  "jointGrad nullOps (markerProblem\<lparr>mLastX := x, mMarkers := m\<rparr>) s 0 t = []"
  unfolding jointGrad_def
  by (simp add: Let_def markerProblem_fields markerInit_fields Zero_def smul_def)

lemma markerProblem_gradient_frame:
  assumes "t < 2"
  shows "gradient_frame nullOps (markerProblem\<lparr>mLastX := x, mMarkers := [(0, [v, 0, 0])]\<rparr>)
           2 0 t (s, [a, b, c], n) = (setPositions s [0], [a, b, c], n)"
proof -
  have t: "t = 0 \<or> t = Suc 0"
    using assms by auto
  have pose: "[[0 :: real], [0]] ! t = [0]"
    using t by auto
  show ?thesis
    unfolding gradient_frame_def
    by (simp add: Let_def markerProblem_fields pose markerProblem_markerError[OF assms]
          markerProblem_jointGrad nullOps_markers add_segment_def set_segment_def vadd_def
          segment_def)
qed

lemma markerProblem_gradient:
  "computeGradient nullOps markerProblem [v, 0, 0]
     = Inr (markerProblem\<lparr>mLastX := [v, 0, 0], mMarkers := [(0, [v, 0, 0])],
                           mSkeleton := oneDofSkel\<lparr>positions := [0]\<rparr>\<rparr>, [20 * v, 0, 0])"
proof -
  have two: "[0..<2] = [0, Suc 0]"
    by (simp add: upt_rec)
  show ?thesis
    unfolding computeGradient_def markerProblem_unflatten
    by (simp add: Let_def markerProblem_fields markerInit_fields
          markerProblem_gradient_regularization markerProblem_markerCount two
          markerProblem_gradient_frame setPositions_def)
qed

text \<open>
  C2 (fails on the code). \<open>computeGradient\<close> takes the marker world positions from
  \<open>mMarkerMap\<close>, the map the constructor received, while \<open>unflatten\<close> writes the offsets
  of \<open>x\<close> into \<open>mMarkers\<close>, from which \<open>computeLoss\<close> takes them. On the one-marker problem
  the loss at the offset \<open>(v, 0, 0)\<close> is \<open>11 v\<^sup>2\<close>, whose central difference at \<open>v = 1\<close> is
  \<open>22\<close>; the gradient computed there is \<open>20\<close>, the regularization part alone.
\<close>

theorem computeGradient_stale_marker_map:
  "(\<forall>v. map_sum id snd (computeGradient nullOps markerProblem [v, 0, 0]) = Inr [20 * v, 0, 0])
   \<and> (\<forall>v. map_sum id snd (computeLoss nullOps markerProblem [v, 0, 0] False)
             = Inr (11 * v * v))
   \<and> centralDifference (lossValue nullOps markerProblem) [1, 0, 0] 0 (1 / 1000) = 22"
  by (simp add: markerProblem_gradient markerProblem_loss centralDifference_def lossValue_def
        algebra_simps)

end
